theory Spec2Isabelle
  imports Main "HOL-Library.Sublist"
begin

section \<open>The voice assistant component (VoiceAssistant)\<close>

text \<open>
  The component is a React function component: its \<^verbatim>\<open>useState\<close> cells and
  \<^verbatim>\<open>useRef\<close> cells are fields of one record, every handler and every effect is a
  function from the record to the record, and the browser objects the handlers talk to
  (speech recognition instances, timers, the speech synthesizer, calls in flight) are
  fields of the same record.
\<close>

subsection \<open>Strings\<close>

text \<open>
  A JavaScript string is a sequence of UTF-16 code units. ASCII literals of the source
  are written \<open>str ''...''\<close>; the Hindi and Kannada literals are written as their code
  units.
\<close>

type_synonym jsstring = "nat list"

definition str :: "string \<Rightarrow> jsstring" where
  "str s = map of_char s"

text \<open>A string is truthy in a condition when it is not empty.\<close>

definition truthy :: "jsstring \<Rightarrow> bool" where
  "truthy s = (s \<noteq> [])"

text \<open>
  \<^verbatim>\<open>String.prototype.trim\<close> removes white space and line terminators from both ends.
\<close>

definition isWhiteSpace :: "nat \<Rightarrow> bool" where
  "isWhiteSpace c =
     (c \<in> {0x9, 0xA, 0xB, 0xC, 0xD, 0x20, 0xA0, 0x1680, 0x2028, 0x2029, 0x202F, 0x205F,
            0x3000, 0xFEFF}
      \<or> (0x2000 \<le> c \<and> c \<le> 0x200A))"

definition trim :: "jsstring \<Rightarrow> jsstring" where
  "trim s = rev (dropWhile isWhiteSpace (rev (dropWhile isWhiteSpace s)))"

text \<open>
  \<^verbatim>\<open>String.prototype.toLowerCase\<close>. On a string of ASCII code units it maps the
  letters A to Z to a to z and leaves the rest. On other strings it follows the Unicode
  case mappings of the engine, which can also change the length of the string; those
  tables are not part of the repository, so \<open>unicodeLowerCase\<close> is left unspecified and
  nothing is derived about the lower-casing of a string with a non-ASCII code unit.
\<close>

definition lowerUnit :: "nat \<Rightarrow> nat" where
  "lowerUnit c = (if 0x41 \<le> c \<and> c \<le> 0x5A then c + 0x20 else c)"

definition isAscii :: "jsstring \<Rightarrow> bool" where
  "isAscii s = list_all (\<lambda>c. c < 0x80) s"

definition unicodeLowerCase :: "jsstring \<Rightarrow> jsstring" where
  "unicodeLowerCase = undefined"

definition toLowerCase :: "jsstring \<Rightarrow> jsstring" where
  "toLowerCase s = (if isAscii s then map lowerUnit s else unicodeLowerCase s)"

text \<open>\<^verbatim>\<open>s.includes(sub)\<close>: \<open>sub\<close> occurs in \<open>s\<close> as a contiguous run.\<close>

fun str_includes :: "jsstring \<Rightarrow> jsstring \<Rightarrow> bool" where
  "str_includes [] sub = (sub = [])"
| "str_includes (c # cs) sub = (prefix sub (c # cs) \<or> str_includes cs sub)"

text \<open>\<^verbatim>\<open>xs.join(sep)\<close>\<close>

fun join :: "jsstring \<Rightarrow> jsstring list \<Rightarrow> jsstring" where
  "join sep [] = []"
| "join sep [x] = x"
| "join sep (x # y # ys) = x @ sep @ join sep (y # ys)"

text \<open>
  A template literal prints \<^verbatim>\<open>undefined\<close> for a value that is missing, which is what
  \<^verbatim>\<open>${latestBG?.value}\<close> gives when \<^verbatim>\<open>find\<close> found no report.
\<close>

definition interpolate :: "jsstring option \<Rightarrow> jsstring" where
  "interpolate v = (case v of None \<Rightarrow> str ''undefined'' | Some x \<Rightarrow> x)"

subsection \<open>Data\<close>

datatype MicState = idle | listening | processing

datatype SupportedLanguage = en_US | hi_IN | kn_IN

datatype ActionType = grocery | reminder | note_type | appointment

record VoiceAction =
  action_id :: jsstring
  action_label :: jsstring
  action_type :: ActionType

text \<open>\<^verbatim>\<open>actions\<close> is optional in the interface.\<close>

record VoiceResponse =
  answer_text :: jsstring
  disclaimer :: jsstring
  actions :: "VoiceAction list option"

record UserProfile =
  profile_name :: jsstring
  profile_age :: nat
  profile_conditions :: "jsstring list"
  profile_medications :: "jsstring list"

record Report =
  report_type :: jsstring
  report_value :: jsstring
  report_date :: jsstring
  report_status :: jsstring

definition mockUserProfile :: UserProfile where
  "mockUserProfile =
     \<lparr>profile_name = str ''John Doe'', profile_age = 45,
      profile_conditions = [str ''diabetes'', str ''hypertension''],
      profile_medications = [str ''Metformin'', str ''Lisinopril'']\<rparr>"

definition mockRecentReports :: "Report list" where
  "mockRecentReports =
     [\<lparr>report_type = str ''Blood Sugar'', report_value = str ''145 mg/dL'',
       report_date = str ''2024-01-15'', report_status = str ''elevated''\<rparr>,
      \<lparr>report_type = str ''Blood Pressure'', report_value = str ''138/88'',
       report_date = str ''2024-01-14'', report_status = str ''high''\<rparr>,
      \<lparr>report_type = str ''HbA1c'', report_value = str ''7.2%'',
       report_date = str ''2024-01-10'', report_status = str ''needs_improvement''\<rparr>]"

subsection \<open>The local fallback responder\<close>

definition getLocalizedText ::
  "SupportedLanguage \<Rightarrow> jsstring \<Rightarrow> jsstring \<Rightarrow> jsstring \<Rightarrow> jsstring" where
  "getLocalizedText lang en hi kn = (case lang of hi_IN \<Rightarrow> hi | kn_IN \<Rightarrow> kn | en_US \<Rightarrow> en)"

text \<open>The answer templates, one per topic and language, with their holes as arguments.\<close>

definition bloodSugar_en :: "jsstring \<Rightarrow> jsstring \<Rightarrow> jsstring \<Rightarrow> jsstring" where
  "bloodSugar_en v d st =
     str ''Your latest blood sugar was '' @
     v @
     str '' on '' @
     d @
     str ''. This is '' @
     st @
     str ''. Consider checking your medication timing and diet.''"

definition bloodSugar_hi :: "jsstring \<Rightarrow> jsstring \<Rightarrow> jsstring \<Rightarrow> jsstring" where
  "bloodSugar_hi v d st =
     [0x906, 0x92A, 0x915, 0x93E, 0x20, 0x928, 0x935, 0x940, 0x928, 0x924, 0x92E, 0x20, 0x930,
      0x915, 0x94D, 0x924, 0x20, 0x936, 0x930, 0x94D, 0x915, 0x930, 0x93E, 0x20] @
     v @
     [0x20, 0x925, 0x93E, 0x20] @
     d @
     [0x20, 0x915, 0x94B, 0x964, 0x20, 0x92F, 0x939, 0x20] @
     st @
     [0x20, 0x939, 0x948, 0x964, 0x20, 0x905, 0x92A, 0x928, 0x940, 0x20, 0x926, 0x935, 0x93E,
      0x20, 0x915, 0x93E, 0x20, 0x938, 0x92E, 0x92F, 0x20, 0x914, 0x930, 0x20, 0x906, 0x939,
      0x93E, 0x930, 0x20, 0x915, 0x940, 0x20, 0x91C, 0x93E, 0x902, 0x91A, 0x20, 0x915, 0x930,
      0x947, 0x902, 0x964]"

definition bloodSugar_kn :: "jsstring \<Rightarrow> jsstring \<Rightarrow> jsstring \<Rightarrow> jsstring" where
  "bloodSugar_kn v d st =
     [0xCA8, 0xCBF, 0xCAE, 0xCCD, 0xCAE, 0x20, 0xC87, 0xCA4, 0xCCD, 0xCA4, 0xCC0, 0xC9A, 0xCBF,
      0xCA8, 0x20, 0xCB0, 0xC95, 0xCCD, 0xCA4, 0xCA6, 0x20, 0xCB8, 0xC95, 0xCCD, 0xC95, 0xCB0,
      0xCC6, 0x20] @
     v @
     [0x20, 0xC86, 0xC97, 0xCBF, 0xCA4, 0xCCD, 0xCA4, 0xCC1, 0x20] @
     d @
     [0x20, 0xCA8, 0xCB2, 0xCCD, 0xCB2, 0xCBF, 0x964, 0x20, 0xC87, 0xCA6, 0xCC1, 0x20] @
     st @
     [0x20, 0xC86, 0xC97, 0xCBF, 0xCA6, 0xCC6, 0x964]"

definition bloodPressure_en :: "jsstring \<Rightarrow> jsstring \<Rightarrow> jsstring" where
  "bloodPressure_en v st =
     str ''Your recent blood pressure reading was '' @
     v @
     str ''. This is '' @
     st @
     str ''. Consider reducing salt intake and monitoring regularly.''"

definition bloodPressure_hi :: "jsstring \<Rightarrow> jsstring \<Rightarrow> jsstring" where
  "bloodPressure_hi v st =
     [0x906, 0x92A, 0x915, 0x93E, 0x20, 0x939, 0x93E, 0x932, 0x93F, 0x92F, 0x93E, 0x20, 0x930,
      0x915, 0x94D, 0x924, 0x91A, 0x93E, 0x92A, 0x20] @
     v @
     [0x20, 0x925, 0x93E, 0x964, 0x20, 0x92F, 0x939, 0x20] @
     st @
     [0x20, 0x939, 0x948, 0x964, 0x20, 0x928, 0x92E, 0x915, 0x20, 0x915, 0x92E, 0x20, 0x915,
      0x930, 0x947, 0x902, 0x20, 0x914, 0x930, 0x20, 0x928, 0x93F, 0x92F, 0x92E, 0x93F, 0x924,
      0x20, 0x91C, 0x93E, 0x902, 0x91A, 0x20, 0x915, 0x930, 0x947, 0x902, 0x964]"

definition bloodPressure_kn :: "jsstring \<Rightarrow> jsstring \<Rightarrow> jsstring" where
  "bloodPressure_kn v st =
     [0xCA8, 0xCBF, 0xCAE, 0xCCD, 0xCAE, 0x20, 0xC87, 0xCA4, 0xCCD, 0xCA4, 0xCC0, 0xC9A, 0xCBF,
      0xCA8, 0x20, 0xCB0, 0xC95, 0xCCD, 0xCA4, 0xCA6, 0x20, 0xC92, 0xCA4, 0xCCD, 0xCA4, 0xCA1,
      0x20] @
     v @
     [0x20, 0xC86, 0xC97, 0xCBF, 0xCA4, 0xCCD, 0xCA4, 0xCC1, 0x964, 0x20, 0xC87, 0xCA6, 0xCC1,
      0x20] @
     st @
     [0x20, 0xC86, 0xC97, 0xCBF, 0xCA6, 0xCC6, 0x964]"

definition medication_en :: "jsstring \<Rightarrow> jsstring" where
  "medication_en m =
     str ''You'' @
     [0x27] @
     str ''re currently taking '' @
     m @
     str ''. Remember to take them as prescribed.''"

definition medication_hi :: "jsstring \<Rightarrow> jsstring" where
  "medication_hi m =
     [0x906, 0x92A, 0x20, 0x935, 0x930, 0x94D, 0x924, 0x92E, 0x93E, 0x928, 0x20, 0x92E, 0x947,
      0x902, 0x20] @
     m @
     [0x20, 0x932, 0x947, 0x20, 0x930, 0x939, 0x947, 0x20, 0x939, 0x948, 0x902, 0x964, 0x20,
      0x907, 0x928, 0x94D, 0x939, 0x947, 0x902, 0x20, 0x928, 0x93F, 0x930, 0x94D, 0x927, 0x93E,
      0x930, 0x93F, 0x924, 0x20, 0x938, 0x92E, 0x92F, 0x20, 0x92A, 0x930, 0x20, 0x932, 0x947,
      0x928, 0x93E, 0x20, 0x92F, 0x93E, 0x926, 0x20, 0x930, 0x916, 0x947, 0x902, 0x964]"

definition medication_kn :: "jsstring \<Rightarrow> jsstring" where
  "medication_kn m =
     [0xCA8, 0xCC0, 0xCB5, 0xCC1, 0x20, 0xCAA, 0xCCD, 0xCB0, 0xCB8, 0xCCD, 0xCA4, 0xCC1, 0xCA4,
      0x20] @
     m @
     [0x20, 0xCA4, 0xCC6, 0xC97, 0xCC6, 0xCA6, 0xCC1, 0xC95, 0xCCA, 0xCB3, 0xCCD, 0xCB3, 0xCC1,
      0xCA4, 0xCCD, 0xCA4, 0xCBF, 0xCA6, 0xCCD, 0xCA6, 0xCC0, 0xCB0, 0xCBF, 0x964]"

definition greeting_en :: "jsstring \<Rightarrow> jsstring" where
  "greeting_en n =
     str ''Hello '' @
     n @
     str ''! I'' @
     [0x27] @
     str ''m your health assistant. How can I help you today?''"

definition greeting_hi :: "jsstring \<Rightarrow> jsstring" where
  "greeting_hi n =
     [0x928, 0x92E, 0x938, 0x94D, 0x924, 0x947, 0x20] @
     n @
     [0x21, 0x20, 0x92E, 0x948, 0x902, 0x20, 0x906, 0x92A, 0x915, 0x93E, 0x20, 0x938, 0x94D,
      0x935, 0x93E, 0x938, 0x94D, 0x925, 0x94D, 0x92F, 0x20, 0x938, 0x939, 0x93E, 0x92F, 0x915,
      0x20, 0x939, 0x942, 0x902, 0x964, 0x20, 0x906, 0x91C, 0x20, 0x92E, 0x948, 0x902, 0x20,
      0x906, 0x92A, 0x915, 0x940, 0x20, 0x915, 0x948, 0x938, 0x947, 0x20, 0x92E, 0x926, 0x926,
      0x20, 0x915, 0x930, 0x20, 0x938, 0x915, 0x924, 0x93E, 0x20, 0x939, 0x942, 0x902, 0x3F]"

definition greeting_kn :: "jsstring \<Rightarrow> jsstring" where
  "greeting_kn n =
     [0xCA8, 0xCAE, 0xCB8, 0xCCD, 0xC95, 0xCBE, 0xCB0, 0x20] @
     n @
     [0x21, 0x20, 0xCA8, 0xCBE, 0xCA8, 0xCC1, 0x20, 0xCA8, 0xCBF, 0xCAE, 0xCCD, 0xCAE, 0x20,
      0xC86, 0xCB0, 0xCCB, 0xC97, 0xCCD, 0xCAF, 0x20, 0xCB8, 0xCB9, 0xCBE, 0xCAF, 0xC95, 0x2E,
      0x20, 0xC87, 0xC82, 0xCA6, 0xCC1, 0x20, 0xCA8, 0xCBE, 0xCA8, 0xCC1, 0x20, 0xCA8, 0xCBF,
      0xCAE, 0xC97, 0xCC6, 0x20, 0xCB9, 0xCC7, 0xC97, 0xCC6, 0x20, 0xCB8, 0xCB9, 0xCBE, 0xCAF,
      0x20, 0xCAE, 0xCBE, 0xCA1, 0xCAC, 0xCB9, 0xCC1, 0xCA6, 0xCC1, 0x3F]"

definition default_en :: "jsstring \<Rightarrow> jsstring" where
  "default_en q =
     str ''I understand you said: '' @
     [0x22] @
     q @
     [0x22] @
     str ''. As your health assistant, I can help with medication management, '' @
     str ''health monitoring, and wellness guidance.''"

definition default_hi :: "jsstring \<Rightarrow> jsstring" where
  "default_hi q =
     [0x92E, 0x948, 0x902, 0x20, 0x938, 0x92E, 0x91D, 0x20, 0x917, 0x92F, 0x93E, 0x20, 0x915,
      0x93F, 0x20, 0x906, 0x92A, 0x928, 0x947, 0x20, 0x915, 0x939, 0x93E, 0x3A, 0x20, 0x22] @
     q @
     [0x22, 0x964, 0x20, 0x906, 0x92A, 0x915, 0x947, 0x20, 0x938, 0x94D, 0x935, 0x93E, 0x938,
      0x94D, 0x925, 0x94D, 0x92F, 0x20, 0x938, 0x939, 0x93E, 0x92F, 0x915, 0x20, 0x915, 0x947,
      0x20, 0x930, 0x942, 0x92A, 0x20, 0x92E, 0x947, 0x902, 0x2C, 0x20, 0x92E, 0x948, 0x902,
      0x20, 0x926, 0x935, 0x93E, 0x20, 0x92A, 0x94D, 0x930, 0x92C, 0x902, 0x927, 0x928, 0x20,
      0x914, 0x930, 0x20, 0x938, 0x94D, 0x935, 0x93E, 0x938, 0x94D, 0x925, 0x94D, 0x92F, 0x20,
      0x928, 0x93F, 0x917, 0x930, 0x93E, 0x928, 0x940, 0x20, 0x92E, 0x947, 0x902, 0x20, 0x92E,
      0x926, 0x926, 0x20, 0x915, 0x930, 0x20, 0x938, 0x915, 0x924, 0x93E, 0x20, 0x939, 0x942,
      0x902, 0x964]"

definition default_kn :: "jsstring \<Rightarrow> jsstring" where
  "default_kn q =
     [0xCA8, 0xCC0, 0xCB5, 0xCC1, 0x20, 0xCB9, 0xCC7, 0xCB3, 0xCBF, 0xCA6, 0xCCD, 0xCA6, 0xCC1,
      0x20, 0xCA8, 0xCA8, 0xC97, 0xCC6, 0x20, 0xC85, 0xCB0, 0xCCD, 0xCA5, 0xCB5, 0xCBE, 0xCAF,
      0xCBF, 0xCA4, 0xCC1, 0x3A, 0x20, 0x22] @
     q @
     [0x22, 0x964, 0x20, 0xCA8, 0xCBF, 0xCAE, 0xCCD, 0xCAE, 0x20, 0xC86, 0xCB0, 0xCCB, 0xC97,
      0xCCD, 0xCAF, 0x20, 0xCB8, 0xCB9, 0xCBE, 0xCAF, 0xC95, 0xCA8, 0xCBE, 0xC97, 0xCBF, 0x2C,
      0x20, 0xCA8, 0xCBE, 0xCA8, 0xCC1, 0x20, 0xC94, 0xCB7, 0xCA7, 0x20, 0xCA8, 0xCBF, 0xCB0,
      0xCCD, 0xCB5, 0xCB9, 0xCA3, 0xCC6, 0x20, 0xCAE, 0xCA4, 0xCCD, 0xCA4, 0xCC1, 0x20, 0xC86,
      0xCB0, 0xCCB, 0xC97, 0xCCD, 0xCAF, 0x20, 0xCAE, 0xCC7, 0xCB2, 0xCCD, 0xCB5, 0xCBF, 0xC9A,
      0xCBE, 0xCB0, 0xCA3, 0xCC6, 0xCAF, 0xCB2, 0xCCD, 0xCB2, 0xCBF, 0x20, 0xCB8, 0xCB9, 0xCBE,
      0xCAF, 0x20, 0xCAE, 0xCBE, 0xCA1, 0xCAC, 0xCB9, 0xCC1, 0xCA6, 0xCC1, 0x964]"

definition disclaimer_en :: "jsstring" where
  "disclaimer_en =
     str ''This is general guidance; consult your doctor.''"

definition disclaimer_hi :: "jsstring" where
  "disclaimer_hi =
     [0x92F, 0x939, 0x20, 0x938, 0x93E, 0x92E, 0x93E, 0x928, 0x94D, 0x92F, 0x20, 0x92E, 0x93E,
      0x930, 0x94D, 0x917, 0x926, 0x930, 0x94D, 0x936, 0x928, 0x20, 0x939, 0x948, 0x3B, 0x20,
      0x905, 0x92A, 0x928, 0x947, 0x20, 0x921, 0x949, 0x915, 0x94D, 0x91F, 0x930, 0x20, 0x938,
      0x947, 0x20, 0x938, 0x932, 0x93E, 0x939, 0x20, 0x932, 0x947, 0x902, 0x964]"

definition disclaimer_kn :: "jsstring" where
  "disclaimer_kn =
     [0xC87, 0xCA6, 0xCC1, 0x20, 0xCB8, 0xCBE, 0xCAE, 0xCBE, 0xCA8, 0xCCD, 0xCAF, 0x20, 0xCAE,
      0xCBE, 0xCB0, 0xCCD, 0xC97, 0xCA6, 0xCB0, 0xCCD, 0xCB6, 0xCA8, 0x3B, 0x20, 0xCA8, 0xCBF,
      0xCAE, 0xCCD, 0xCAE, 0x20, 0xCB5, 0xCC8, 0xCA6, 0xCCD, 0xCAF, 0xCB0, 0xCA8, 0xCCD, 0xCA8,
      0xCC1, 0x20, 0xCB8, 0xC82, 0xCAA, 0xCB0, 0xCCD, 0xC95, 0xCBF, 0xCB8, 0xCBF, 0x964]"

text \<open>
  \<^verbatim>\<open>generateMockResponse\<close> reads \<^verbatim>\<open>selectedLanguage\<close> from the render it was
  created in; here it is the first argument.
\<close>

definition generateMockResponse :: "SupportedLanguage \<Rightarrow> jsstring \<Rightarrow> VoiceResponse" where
  "generateMockResponse selectedLanguage query =
     (let input = toLowerCase query;
          (answerText, acts) =
            (if str_includes input (str ''blood sugar'') \<or> str_includes input (str ''glucose'')
                \<or> str_includes input (str ''diabetes'')
             then
               (let latestBG = find (\<lambda>r. report_type r = str ''Blood Sugar'') mockRecentReports;
                    v = interpolate (map_option report_value latestBG);
                    d = interpolate (map_option report_date latestBG);
                    st = interpolate (map_option report_status latestBG)
                in (getLocalizedText selectedLanguage
                      (bloodSugar_en v d st) (bloodSugar_hi v d st) (bloodSugar_kn v d st),
                    [\<lparr>action_id = str ''reminder'', action_label = str ''Add Reminder'',
                      action_type = reminder\<rparr>,
                     \<lparr>action_id = str ''appointment'',
                      action_label = str ''Schedule Appointment'',
                      action_type = appointment\<rparr>]))
             else if str_includes input (str ''blood pressure'')
                \<or> str_includes input (str ''hypertension'')
             then
               (let latestBP =
                      find (\<lambda>r. report_type r = str ''Blood Pressure'') mockRecentReports;
                    v = interpolate (map_option report_value latestBP);
                    st = interpolate (map_option report_status latestBP)
                in (getLocalizedText selectedLanguage
                      (bloodPressure_en v st) (bloodPressure_hi v st) (bloodPressure_kn v st),
                    [\<lparr>action_id = str ''groceries'',
                      action_label = str ''Add to Grocery List'',
                      action_type = grocery\<rparr>]))
             else if str_includes input (str ''medication'') \<or> str_includes input (str ''medicine'')
             then
               (let meds = profile_medications mockUserProfile
                in (getLocalizedText selectedLanguage
                      (medication_en (join (str '' and '') meds))
                      (medication_hi (join [0x20, 0x914, 0x930, 0x20] meds))
                      (medication_kn
                         (join [0x20, 0xCAE, 0xCA4, 0xCCD, 0xCA4, 0xCC1, 0x20] meds)),
                    [\<lparr>action_id = str ''reminder'',
                      action_label = str ''Set Medication Reminder'',
                      action_type = reminder\<rparr>]))
             else if str_includes input (str ''hello'') \<or> str_includes input (str ''hi'')
                \<or> str_includes input (str ''namaste'')
             then
               (let n = profile_name mockUserProfile
                in (getLocalizedText selectedLanguage
                      (greeting_en n) (greeting_hi n) (greeting_kn n),
                    []))
             else
               (getLocalizedText selectedLanguage
                  (default_en query) (default_hi query) (default_kn query),
                []))
      in \<lparr>answer_text = answerText,
          disclaimer =
            getLocalizedText selectedLanguage disclaimer_en disclaimer_hi disclaimer_kn,
          actions = Some acts\<rparr>)"

subsection \<open>Browser objects\<close>

text \<open>
  Modelled from the spec: the platform speech capture is not part of the repository.
  Section 6 gives its contract: \<^verbatim>\<open>start\<close> and \<^verbatim>\<open>stop\<close>, interim and final
  result events, error events, and an end event after a stop was requested. An instance
  is \<open>Inactive\<close> until \<^verbatim>\<open>start()\<close>, \<open>Starting\<close> until its start event, \<open>Capturing\<close>
  until \<^verbatim>\<open>stop()\<close> is requested or an error is reported, and \<open>Stopping\<close> until its
  end event. \<open>rec_lang\<close> is the \<^verbatim>\<open>lang\<close> property; \<open>rec_tag\<close> is the language tag
  the running capture was started with.
\<close>

datatype CaptureStatus = Inactive | Starting | Capturing | Stopping

record SpeechRecognitionInstance =
  rec_lang :: SupportedLanguage
  rec_status :: CaptureStatus
  rec_tag :: SupportedLanguage

record SpeechRecognitionResult =
  transcript :: jsstring
  isFinal :: bool

record SpeechRecognitionEvent =
  results :: "SpeechRecognitionResult list"
  resultIndex :: nat

text \<open>
  A pending \<^verbatim>\<open>setTimeout\<close>: its handle, the clock value at which it is due, and the
  \<^verbatim>\<open>micState\<close> its callback closed over.
\<close>

record Timer =
  timer_id :: nat
  timer_due :: nat
  timer_micState :: MicState

text \<open>A \<^verbatim>\<open>fetch\<close> in flight, with the query and the language \<^verbatim>\<open>processQuery\<close> closed over.\<close>

record PendingQuery =
  call_query :: jsstring
  call_language :: SupportedLanguage

text \<open>
  What \<^verbatim>\<open>await response.json()\<close> can give. The body is not validated, so it is any
  JSON value; the component reads it through three properties and through its
  truthiness (\<^verbatim>\<open>voiceResponse && ...\<close> in the render). \<open>rv_truthy\<close> is false for the
  values \<^verbatim>\<open>0\<close>, \<^verbatim>\<open>""\<close> and \<^verbatim>\<open>false\<close>; a property the value does not have is
  \<open>None\<close> (\<^verbatim>\<open>undefined\<close>). The value \<^verbatim>\<open>null\<close>, on which a property access throws, is
  the \<open>None\<close> of \<open>ResponseValue option\<close>. A property of another type than the interface
  declares is not modelled.
\<close>

record ResponseValue =
  rv_truthy :: bool
  rv_answer_text :: "jsstring option"
  rv_disclaimer :: "jsstring option"
  rv_actions :: "VoiceAction list option"

text \<open>A \<^verbatim>\<open>VoiceResponse\<close> object as such a value.\<close>

definition asValue :: "VoiceResponse \<Rightarrow> ResponseValue" where
  "asValue r =
     \<lparr>rv_truthy = True, rv_answer_text = Some (answer_text r),
      rv_disclaimer = Some (disclaimer r), rv_actions = actions r\<rparr>"

text \<open>
  How the remote call ends: \<^verbatim>\<open>fetch\<close> rejects, the status is not a success status,
  \<^verbatim>\<open>response.json()\<close> rejects because the body is not JSON, or the status is a success
  status and the body parses to a value.
\<close>

datatype Outcome = NetworkError | BadStatus | InvalidJson | Body "ResponseValue option"

text \<open>The notices, by the place that raises them.\<close>

datatype Toast =
    MicrophoneAccessDenied | NoSpeechDetected | SpeechRecognitionError
  | MicrophoneAccessRequired | NotSupported
  | AddedToGroceryList | ReminderSet | NoteSaved | AppointmentToast

subsection \<open>The session\<close>

record session =
  micState :: MicState
  selectedLanguage :: SupportedLanguage
  interimTranscript :: jsstring
  finalTranscript :: jsstring
  voiceResponse :: "ResponseValue option"
  textInput :: jsstring
  showTextInput :: bool
  permissionDenied :: bool
  recognitionRef :: "nat option"
  timeoutRef :: "nat option"
  speechRecognitionSupported :: bool
  speechSynthesisSupported :: bool
  mounted :: bool
  captures :: "SpeechRecognitionInstance list"
  timers :: "Timer list"
  nextTimer :: nat
  now :: nat
  speaking :: "(jsstring option \<times> SupportedLanguage) option"
  fetches :: "PendingQuery list"
  permissionRequests :: "SupportedLanguage list"
  toasts :: "Toast list"
  transcriptsReady :: "jsstring list"
  voiceAnswers :: "ResponseValue option list"

text \<open>
  The first eight fields are the \<^verbatim>\<open>useState\<close> cells, the next two the refs
  (\<open>recognitionRef\<close> holds the index of an instance in \<open>captures\<close>). \<open>captures\<close>,
  \<open>timers\<close>, \<open>speaking\<close>, \<open>fetches\<close> and \<open>permissionRequests\<close> are the browser's side:
  every recognition instance created so far, the pending timeouts, the utterance the
  synthesizer is playing (the argument of \<^verbatim>\<open>speakResponse\<close> and the language tag), the
  calls to \<^verbatim>\<open>/api/voice/query\<close> in flight and the pending
  \<^verbatim>\<open>getUserMedia\<close> requests (each with the language its click handler closed over).
  \<open>transcriptsReady\<close> and \<open>voiceAnswers\<close> record the calls of the two callback props.

  A state setter of a component that is no longer mounted does nothing.
\<close>

definition setMicState :: "MicState \<Rightarrow> session \<Rightarrow> session" where
  "setMicState v s = (if mounted s then s\<lparr>micState := v\<rparr> else s)"

definition setSelectedLanguage :: "SupportedLanguage \<Rightarrow> session \<Rightarrow> session" where
  "setSelectedLanguage v s = (if mounted s then s\<lparr>selectedLanguage := v\<rparr> else s)"

definition setInterimTranscript :: "jsstring \<Rightarrow> session \<Rightarrow> session" where
  "setInterimTranscript v s = (if mounted s then s\<lparr>interimTranscript := v\<rparr> else s)"

definition setFinalTranscript :: "jsstring \<Rightarrow> session \<Rightarrow> session" where
  "setFinalTranscript v s = (if mounted s then s\<lparr>finalTranscript := v\<rparr> else s)"

definition setVoiceResponse :: "ResponseValue option \<Rightarrow> session \<Rightarrow> session" where
  "setVoiceResponse v s = (if mounted s then s\<lparr>voiceResponse := v\<rparr> else s)"

definition setTextInput :: "jsstring \<Rightarrow> session \<Rightarrow> session" where
  "setTextInput v s = (if mounted s then s\<lparr>textInput := v\<rparr> else s)"

definition setShowTextInput :: "bool \<Rightarrow> session \<Rightarrow> session" where
  "setShowTextInput v s = (if mounted s then s\<lparr>showTextInput := v\<rparr> else s)"

definition setPermissionDenied :: "bool \<Rightarrow> session \<Rightarrow> session" where
  "setPermissionDenied v s = (if mounted s then s\<lparr>permissionDenied := v\<rparr> else s)"

definition toast :: "Toast \<Rightarrow> session \<Rightarrow> session" where
  "toast t s = s\<lparr>toasts := toasts s @ [t]\<rparr>"

definition onTranscriptReady :: "jsstring \<Rightarrow> session \<Rightarrow> session" where
  "onTranscriptReady t s = s\<lparr>transcriptsReady := transcriptsReady s @ [t]\<rparr>"

definition onVoiceAnswer :: "ResponseValue option \<Rightarrow> session \<Rightarrow> session" where
  "onVoiceAnswer r s = s\<lparr>voiceAnswers := voiceAnswers s @ [r]\<rparr>"

subsection \<open>Calls into the browser\<close>

text \<open>
  \<^verbatim>\<open>recognition.start()\<close> starts an inactive instance with its current \<^verbatim>\<open>lang\<close>; on an
  instance that is already started the browser throws and the capture is left as it is.
  \<^verbatim>\<open>recognition.stop()\<close> asks a started instance to stop.
\<close>

definition startInstance :: "SpeechRecognitionInstance \<Rightarrow> SpeechRecognitionInstance" where
  "startInstance c =
     (if rec_status c = Inactive then c\<lparr>rec_status := Starting, rec_tag := rec_lang c\<rparr> else c)"

definition stopInstance :: "SpeechRecognitionInstance \<Rightarrow> SpeechRecognitionInstance" where
  "stopInstance c =
     (if rec_status c = Starting \<or> rec_status c = Capturing then c\<lparr>rec_status := Stopping\<rparr>
      else c)"

definition updateCapture ::
  "nat \<Rightarrow> (SpeechRecognitionInstance \<Rightarrow> SpeechRecognitionInstance) \<Rightarrow> session \<Rightarrow> session" where
  "updateCapture h f s =
     (if h < length (captures s) then s\<lparr>captures := (captures s)[h := f (captures s ! h)]\<rparr>
      else s)"

definition recognition_start :: "nat \<Rightarrow> session \<Rightarrow> session" where
  "recognition_start h s = updateCapture h startInstance s"

definition recognition_stop :: "nat \<Rightarrow> session \<Rightarrow> session" where
  "recognition_stop h s = updateCapture h stopInstance s"

definition recognition_setLang :: "nat \<Rightarrow> SupportedLanguage \<Rightarrow> session \<Rightarrow> session" where
  "recognition_setLang h l s = updateCapture h (\<lambda>c. c\<lparr>rec_lang := l\<rparr>) s"

definition clearTimeout :: "nat \<Rightarrow> session \<Rightarrow> session" where
  "clearTimeout i s = s\<lparr>timers := filter (\<lambda>t. timer_id t \<noteq> i) (timers s)\<rparr>"

text \<open>\<^verbatim>\<open>setTimeout(callback, 3000)\<close> of the silence effect; returns the new handle.\<close>

definition setTimeout :: "MicState \<Rightarrow> nat \<Rightarrow> session \<Rightarrow> nat \<times> session" where
  "setTimeout m delay s =
     (nextTimer s,
      s\<lparr>timers := timers s @ [\<lparr>timer_id = nextTimer s, timer_due = now s + delay,
                                 timer_micState = m\<rparr>],
        nextTimer := Suc (nextTimer s)\<rparr>)"

definition speakResponse :: "SupportedLanguage \<Rightarrow> jsstring option \<Rightarrow> session \<Rightarrow> session" where
  "speakResponse selLang text s =
     (if speechSynthesisSupported s then s\<lparr>speaking := Some (text, selLang)\<rparr> else s)"

subsection \<open>Handlers of a recognition instance\<close>

definition recognition_onstart :: "session \<Rightarrow> session" where
  "recognition_onstart s =
     setPermissionDenied False (setInterimTranscript [] (setMicState listening s))"

text \<open>The loop over \<^verbatim>\<open>event.results\<close> from \<^verbatim>\<open>event.resultIndex\<close> on.\<close>

fun collect ::
  "SpeechRecognitionResult list \<Rightarrow> jsstring \<times> jsstring \<Rightarrow> jsstring \<times> jsstring" where
  "collect [] acc = acc"
| "collect (r # rs) (interim, final) =
     (if isFinal r then collect rs (interim, final @ transcript r)
      else collect rs (interim @ transcript r, final))"

definition recognition_onresult :: "nat \<Rightarrow> SpeechRecognitionEvent \<Rightarrow> session \<Rightarrow> session" where
  "recognition_onresult h event s =
     (let (interim, final) = collect (drop (resultIndex event) (results event)) ([], []);
          s1 = setInterimTranscript interim s
      in if truthy final
         then recognition_stop h (setInterimTranscript [] (setFinalTranscript final s1))
         else s1)"

definition recognition_onerror :: "jsstring \<Rightarrow> session \<Rightarrow> session" where
  "recognition_onerror error s =
     (let s1 =
            (if error = str ''not-allowed''
             then toast MicrophoneAccessDenied (setPermissionDenied True s)
             else if error = str ''no-speech'' then toast NoSpeechDetected s
             else toast SpeechRecognitionError s)
      in setInterimTranscript [] (setMicState idle s1))"

definition recognition_onend :: "session \<Rightarrow> session" where
  "recognition_onend s = setInterimTranscript [] (setMicState idle s)"

subsection \<open>Effects\<close>

text \<open>
  The effect that creates the recognition instance (dependency: \<^verbatim>\<open>selectedLanguage\<close>),
  and its cleanup. When speech recognition is unsupported the effect returns early and
  has no cleanup.
\<close>

definition recognition_effect :: "SupportedLanguage \<Rightarrow> session \<Rightarrow> session" where
  "recognition_effect selLang s =
     (if \<not> speechRecognitionSupported s then s
      else s\<lparr>captures :=
                captures s @ [\<lparr>rec_lang = selLang, rec_status = Inactive, rec_tag = selLang\<rparr>],
             recognitionRef := Some (length (captures s))\<rparr>)"

definition recognition_cleanup :: "session \<Rightarrow> session" where
  "recognition_cleanup s =
     (if \<not> speechRecognitionSupported s then s
      else case recognitionRef s of None \<Rightarrow> s | Some h \<Rightarrow> recognition_stop h s)"

text \<open>
  \<^verbatim>\<open>processQuery\<close> up to its \<^verbatim>\<open>await fetch(...)\<close>: the call is in flight with the
  query and the language of the render the function belongs to.
\<close>

definition processQuery :: "SupportedLanguage \<Rightarrow> jsstring \<Rightarrow> session \<Rightarrow> session" where
  "processQuery selLang query s =
     (let s1 = setMicState processing s
      in s1\<lparr>fetches := fetches s1 @ [\<lparr>call_query = query, call_language = selLang\<rparr>]\<rparr>)"

text \<open>
  The \<^verbatim>\<open>catch\<close> block of \<^verbatim>\<open>processQuery\<close>, with the query and the language the
  function closed over.
\<close>

definition processQuery_catch :: "PendingQuery \<Rightarrow> session \<Rightarrow> session" where
  "processQuery_catch c s =
     (let mockResponse = generateMockResponse (call_language c) (call_query c)
      in speakResponse (call_language c) (Some (answer_text mockResponse))
           (onVoiceAnswer (Some (asValue mockResponse))
              (setVoiceResponse (Some (asValue mockResponse)) s)))"

text \<open>
  The rest of \<^verbatim>\<open>processQuery\<close>, run when call \<open>i\<close> settles. A rejected \<^verbatim>\<open>fetch\<close>, a
  status that is not a success status and a body that is not JSON throw inside the
  \<^verbatim>\<open>try\<close> block before anything is stored, and the \<^verbatim>\<open>catch\<close> block runs. A parsed
  body is stored and handed to the callback as it is; only for \<^verbatim>\<open>null\<close> does the
  following \<^verbatim>\<open>voiceData.answer_text\<close> throw, so that the \<^verbatim>\<open>catch\<close> block runs after
  the value was stored and the callback called. \<^verbatim>\<open>finally\<close> runs in every case.
\<close>

definition processQuery_settled :: "nat \<Rightarrow> Outcome \<Rightarrow> session \<Rightarrow> session" where
  "processQuery_settled i outcome s =
     (if i < length (fetches s) then
        (let c = fetches s ! i;
             s1 = s\<lparr>fetches := take i (fetches s) @ drop (Suc i) (fetches s)\<rparr>;
             s2 =
               (case outcome of
                  Body (Some voiceData) \<Rightarrow>
                    speakResponse (call_language c) (rv_answer_text voiceData)
                      (onVoiceAnswer (Some voiceData) (setVoiceResponse (Some voiceData) s1))
                | Body None \<Rightarrow>
                    processQuery_catch c (onVoiceAnswer None (setVoiceResponse None s1))
                | _ \<Rightarrow> processQuery_catch c s1)
         in setMicState idle s2)
      else s)"

text \<open>The effect on \<^verbatim>\<open>finalTranscript\<close>, with the values of its render.\<close>

definition finalTranscript_effect :: "jsstring \<Rightarrow> SupportedLanguage \<Rightarrow> session \<Rightarrow> session" where
  "finalTranscript_effect finalT selLang s =
     (if truthy (trim finalT)
      then setFinalTranscript [] (processQuery selLang finalT (onTranscriptReady finalT s))
      else s)"

text \<open>
  The silence effect (dependencies: \<^verbatim>\<open>micState\<close>, \<^verbatim>\<open>interimTranscript\<close>), its timer
  callback and its cleanup. A timer handle is truthy, so \<^verbatim>\<open>if (timeoutRef.current)\<close>
  asks whether the ref holds a handle.
\<close>

definition silence_effect :: "MicState \<Rightarrow> jsstring \<Rightarrow> session \<Rightarrow> session" where
  "silence_effect mic interim s =
     (if mic = listening \<and> \<not> truthy interim then
        (let s1 = (case timeoutRef s of None \<Rightarrow> s | Some i \<Rightarrow> clearTimeout i s);
             (i', s2) = setTimeout mic 3000 s1
         in s2\<lparr>timeoutRef := Some i'\<rparr>)
      else case timeoutRef s of
             None \<Rightarrow> s
           | Some i \<Rightarrow> (clearTimeout i s)\<lparr>timeoutRef := None\<rparr>)"

definition silence_timeout :: "Timer \<Rightarrow> session \<Rightarrow> session" where
  "silence_timeout tm s =
     (case recognitionRef s of
        None \<Rightarrow> s
      | Some h \<Rightarrow> if timer_micState tm = listening then recognition_stop h s else s)"

definition silence_cleanup :: "session \<Rightarrow> session" where
  "silence_cleanup s = (case timeoutRef s of None \<Rightarrow> s | Some i \<Rightarrow> clearTimeout i s)"

text \<open>
  One render after the state fields changed from \<open>prev\<close> to \<open>s\<close>: the cleanups of the
  effects whose dependencies changed, then their bodies, each with the values of this
  render. Setters called by an effect take effect in the next render.
\<close>

definition run_effects :: "session \<Rightarrow> session \<Rightarrow> session" where
  "run_effects prev s =
     (if \<not> mounted s then s
      else
        (let e1 = (selectedLanguage prev \<noteq> selectedLanguage s);
             e2 = (finalTranscript prev \<noteq> finalTranscript s);
             e3 = (micState prev \<noteq> micState s \<or> interimTranscript prev \<noteq> interimTranscript s);
             c1 = (if e1 then recognition_cleanup s else s);
             c3 = (if e3 then silence_cleanup c1 else c1);
             b1 = (if e1 then recognition_effect (selectedLanguage s) c3 else c3);
             b2 = (if e2 then finalTranscript_effect (finalTranscript s) (selectedLanguage s) b1
                   else b1);
             b3 = (if e3 then silence_effect (micState s) (interimTranscript s) b2 else b2)
         in b3))"

text \<open>
  One event-handling turn: the handler, the render it causes, and the render caused by
  the setters the effects called. Updates made in one handler are batched into one render.
\<close>

definition turn :: "(session \<Rightarrow> session) \<Rightarrow> session \<Rightarrow> session" where
  "turn handler s =
     (let s1 = handler s;
          s2 = run_effects s s1;
          s3 = run_effects s1 s2
      in s3)"

subsection \<open>Handlers of the controls\<close>

text \<open>
  \<^verbatim>\<open>handleMicClick\<close> up to \<^verbatim>\<open>await requestMicrophonePermission()\<close>, and its
  continuation when request \<open>i\<close> settles (\<open>granted\<close>: whether \<^verbatim>\<open>getUserMedia\<close>
  resolved).
\<close>

definition handleMicClick :: "session \<Rightarrow> session" where
  "handleMicClick s =
     (if \<not> speechRecognitionSupported s then setShowTextInput True (toast NotSupported s)
      else if micState s = listening then
        (case recognitionRef s of None \<Rightarrow> s | Some h \<Rightarrow> recognition_stop h s)
      else if micState s = processing then s
      else s\<lparr>permissionRequests := permissionRequests s @ [selectedLanguage s]\<rparr>)"

definition handleMicClick_resumed :: "nat \<Rightarrow> bool \<Rightarrow> session \<Rightarrow> session" where
  "handleMicClick_resumed i granted s =
     (if i < length (permissionRequests s) then
        (let selLang = permissionRequests s ! i;
             s1 = s\<lparr>permissionRequests :=
                      take i (permissionRequests s) @ drop (Suc i) (permissionRequests s)\<rparr>
         in if granted then
              (case recognitionRef s1 of
                 None \<Rightarrow> s1
               | Some h \<Rightarrow> recognition_start h (recognition_setLang h selLang s1))
            else toast MicrophoneAccessRequired (setPermissionDenied True s1))
      else s)"

definition handleTextSubmit :: "session \<Rightarrow> session" where
  "handleTextSubmit s =
     (if truthy (trim (textInput s))
      then setShowTextInput False
             (setTextInput [] (processQuery (selectedLanguage s) (trim (textInput s)) s))
      else s)"

definition handleActionClick :: "VoiceAction \<Rightarrow> session \<Rightarrow> session" where
  "handleActionClick action s =
     (case action_type action of
        grocery \<Rightarrow> toast AddedToGroceryList s
      | reminder \<Rightarrow> toast ReminderSet s
      | note_type \<Rightarrow> toast NoteSaved s
      | appointment \<Rightarrow> toast AppointmentToast s)"

text \<open>The \<^verbatim>\<open>disabled\<close> props of the microphone button and of the Send button.\<close>

definition micButton_disabled :: "session \<Rightarrow> bool" where
  "micButton_disabled s = (micState s = processing \<or> permissionDenied s)"

definition sendButton_disabled :: "session \<Rightarrow> bool" where
  "sendButton_disabled s = (\<not> truthy (trim (textInput s)) \<or> micState s = processing)"

subsection \<open>Mounting and unmounting\<close>

text \<open>The initial language follows the application language code.\<close>

definition initialLanguage :: "jsstring \<Rightarrow> SupportedLanguage" where
  "initialLanguage appLang =
     (if appLang = str ''hi'' then hi_IN else if appLang = str ''kn'' then kn_IN else en_US)"

definition mount :: "bool \<Rightarrow> bool \<Rightarrow> jsstring \<Rightarrow> session" where
  "mount recognitionSupported synthesisSupported appLang =
     (let s0 = \<lparr>micState = idle, selectedLanguage = initialLanguage appLang,
                interimTranscript = [], finalTranscript = [], voiceResponse = None,
                textInput = [], showTextInput = False, permissionDenied = False,
                recognitionRef = None, timeoutRef = None,
                speechRecognitionSupported = recognitionSupported,
                speechSynthesisSupported = synthesisSupported, mounted = True,
                captures = [], timers = [], nextTimer = 1, now = 0, speaking = None,
                fetches = [], permissionRequests = [], toasts = [],
                transcriptsReady = [], voiceAnswers = []\<rparr>;
          b1 = recognition_effect (selectedLanguage s0) s0;
          b2 = finalTranscript_effect (finalTranscript s0) (selectedLanguage s0) b1;
          b3 = silence_effect (micState s0) (interimTranscript s0) b2
      in b3)"

text \<open>Unmounting runs the cleanups of the component's effects.\<close>

definition unmount :: "session \<Rightarrow> session" where
  "unmount s = (silence_cleanup (recognition_cleanup s))\<lparr>mounted := False\<rparr>"

text \<open>
  The component is rendered by the page (\<^verbatim>\<open>Index\<close>) while its \<^verbatim>\<open>currentState\<close> is
  \<^verbatim>\<open>'voice'\<close>, with the \<^verbatim>\<open>onBack\<close> prop only. Leaving the view changes
  \<^verbatim>\<open>currentState\<close>, which unmounts the component and runs the page's effect on
  \<^verbatim>\<open>currentState\<close>: \<^verbatim>\<open>if ('speechSynthesis' in window) speechSynthesis.cancel()\<close>.
  The same effect runs when the view is entered, where \<open>mount\<close> starts with nothing
  playing.
\<close>

definition speechCleanup :: "session \<Rightarrow> session" where
  "speechCleanup s = (if speechSynthesisSupported s then s\<lparr>speaking := None\<rparr> else s)"

definition leaveView :: "session \<Rightarrow> session" where
  "leaveView s = speechCleanup (unmount s)"

subsection \<open>Events\<close>

text \<open>
  What can happen to a session: the user operates a control that is rendered and enabled,
  or the browser delivers a callback. A recognition instance delivers its start event
  once after \<^verbatim>\<open>start()\<close>, results while it is capturing or stopping, and an error or
  its end event while it is started; after an error it only waits for its end event.
  \<open>Elapse d\<close> lets \<open>d\<close> milliseconds pass and runs the timeouts that fall due.
  \<open>Unmount\<close> is the user leaving the view.
\<close>

datatype Event =
    ClickMic
  | SelectLanguage SupportedLanguage
  | ClickTypeInstead
  | ChangeText jsstring
  | PressEnter
  | ClickSend
  | ClickCancel
  | ClickReplay
  | ClickAction nat
  | Unmount
  | PermissionSettled nat bool
  | RecStart nat
  | RecResult nat SpeechRecognitionEvent
  | RecError nat jsstring
  | RecEnd nat
  | FetchSettled nat Outcome
  | Elapse nat
  | PlaybackEnds

definition captureStatus :: "nat \<Rightarrow> session \<Rightarrow> CaptureStatus option" where
  "captureStatus h s =
     (if h < length (captures s) then Some (rec_status (captures s ! h)) else None)"

definition setStatus :: "nat \<Rightarrow> CaptureStatus \<Rightarrow> session \<Rightarrow> session" where
  "setStatus h st s = updateCapture h (\<lambda>c. c\<lparr>rec_status := st\<rparr>) s"

definition elapse :: "nat \<Rightarrow> session \<Rightarrow> session" where
  "elapse d s =
     (let t = now s + d;
          due = filter (\<lambda>x. timer_due x \<le> t) (timers s);
          s1 = s\<lparr>now := t, timers := filter (\<lambda>x. \<not> timer_due x \<le> t) (timers s)\<rparr>
      in fold silence_timeout due s1)"

text \<open>
  The response card, with its replay button and its action buttons, is rendered when
  \<^verbatim>\<open>voiceResponse\<close> is truthy.
\<close>

definition replay :: "session \<Rightarrow> session" where
  "replay s =
     (case voiceResponse s of
        None \<Rightarrow> s
      | Some r \<Rightarrow>
          if rv_truthy r then speakResponse (selectedLanguage s) (rv_answer_text r) s else s)"

definition actionAt :: "nat \<Rightarrow> session \<Rightarrow> VoiceAction option" where
  "actionAt i s =
     (case voiceResponse s of
        None \<Rightarrow> None
      | Some r \<Rightarrow>
          (case rv_actions r of
             None \<Rightarrow> None
           | Some acts \<Rightarrow> if rv_truthy r \<and> i < length acts then Some (acts ! i) else None))"

fun step :: "Event \<Rightarrow> session \<Rightarrow> session" where
  "step ClickMic s =
     (if mounted s \<and> \<not> micButton_disabled s then turn handleMicClick s else s)"
| "step (SelectLanguage l) s =
     (if mounted s then turn (setSelectedLanguage l) s else s)"
| "step ClickTypeInstead s =
     (if mounted s \<and> \<not> showTextInput s then turn (setShowTextInput True) s else s)"
| "step (ChangeText v) s =
     (if mounted s \<and> showTextInput s then turn (setTextInput v) s else s)"
| "step PressEnter s =
     (if mounted s \<and> showTextInput s then turn handleTextSubmit s else s)"
| "step ClickSend s =
     (if mounted s \<and> showTextInput s \<and> \<not> sendButton_disabled s then turn handleTextSubmit s
      else s)"
| "step ClickCancel s =
     (if mounted s \<and> showTextInput s
      then turn (\<lambda>x. setTextInput [] (setShowTextInput False x)) s else s)"
| "step ClickReplay s =
     (if mounted s then turn replay s else s)"
| "step (ClickAction i) s =
     (if mounted s then
        (case actionAt i s of None \<Rightarrow> s | Some a \<Rightarrow> turn (handleActionClick a) s)
      else s)"
| "step Unmount s = (if mounted s then leaveView s else s)"
| "step (PermissionSettled i granted) s = turn (handleMicClick_resumed i granted) s"
| "step (RecStart h) s =
     (if captureStatus h s = Some Starting
      then turn (\<lambda>x. recognition_onstart (setStatus h Capturing x)) s else s)"
| "step (RecResult h event) s =
     (if captureStatus h s = Some Capturing \<or> captureStatus h s = Some Stopping
      then turn (recognition_onresult h event) s else s)"
| "step (RecError h error) s =
     (if captureStatus h s \<in> {Some Starting, Some Capturing, Some Stopping}
      then turn (\<lambda>x. recognition_onerror error (setStatus h Stopping x)) s else s)"
| "step (RecEnd h) s =
     (if captureStatus h s \<in> {Some Starting, Some Capturing, Some Stopping}
      then turn (\<lambda>x. recognition_onend (setStatus h Inactive x)) s else s)"
| "step (FetchSettled i outcome) s = turn (processQuery_settled i outcome) s"
| "step (Elapse d) s = turn (elapse d) s"
| "step PlaybackEnds s = s\<lparr>speaking := None\<rparr>"

fun run :: "Event list \<Rightarrow> session \<Rightarrow> session" where
  "run [] s = s"
| "run (e # es) s = run es (step e s)"

subsection \<open>Notions used in the statements\<close>

text \<open>The interim and the final text a result event carries, as the handler's loop adds them up.\<close>

definition interimText :: "SpeechRecognitionEvent \<Rightarrow> jsstring" where
  "interimText event = fst (collect (drop (resultIndex event) (results event)) ([], []))"

definition finalText :: "SpeechRecognitionEvent \<Rightarrow> jsstring" where
  "finalText event = snd (collect (drop (resultIndex event) (results event)) ([], []))"

text \<open>A result event with one interim result, and one with one final result.\<close>

definition interimResult :: "jsstring \<Rightarrow> SpeechRecognitionEvent" where
  "interimResult t = \<lparr>results = [\<lparr>transcript = t, isFinal = False\<rparr>], resultIndex = 0\<rparr>"

definition finalResult :: "jsstring \<Rightarrow> SpeechRecognitionEvent" where
  "finalResult t = \<lparr>results = [\<lparr>transcript = t, isFinal = True\<rparr>], resultIndex = 0\<rparr>"

text \<open>
  The answers and the disclaimer the fallback responder has in a language: its five
  topics, filled in with the mocked reports and profile.
\<close>

definition answersIn :: "SupportedLanguage \<Rightarrow> jsstring \<Rightarrow> jsstring list" where
  "answersIn l query =
     (case l of
        en_US \<Rightarrow>
          [bloodSugar_en (str ''145 mg/dL'') (str ''2024-01-15'') (str ''elevated''),
           bloodPressure_en (str ''138/88'') (str ''high''),
           medication_en (str ''Metformin'' @ str '' and '' @ str ''Lisinopril''),
           greeting_en (str ''John Doe''),
           default_en query]
      | hi_IN \<Rightarrow>
          [bloodSugar_hi (str ''145 mg/dL'') (str ''2024-01-15'') (str ''elevated''),
           bloodPressure_hi (str ''138/88'') (str ''high''),
           medication_hi (str ''Metformin'' @ [0x20, 0x914, 0x930, 0x20] @ str ''Lisinopril''),
           greeting_hi (str ''John Doe''),
           default_hi query]
      | kn_IN \<Rightarrow>
          [bloodSugar_kn (str ''145 mg/dL'') (str ''2024-01-15'') (str ''elevated''),
           bloodPressure_kn (str ''138/88'') (str ''high''),
           medication_kn
             (str ''Metformin'' @ [0x20, 0xCAE, 0xCA4, 0xCCD, 0xCA4, 0xCC1, 0x20] @
              str ''Lisinopril''),
           greeting_kn (str ''John Doe''),
           default_kn query])"

definition disclaimerIn :: "SupportedLanguage \<Rightarrow> jsstring" where
  "disclaimerIn l = (case l of en_US \<Rightarrow> disclaimer_en | hi_IN \<Rightarrow> disclaimer_hi | kn_IN \<Rightarrow> disclaimer_kn)"

text \<open>
  The ways the remote call fails: no response, a response with a status that is not a
  success status, a response whose body is not JSON.
\<close>

definition failed :: "Outcome \<Rightarrow> bool" where
  "failed outcome = (case outcome of Body _ \<Rightarrow> False | _ \<Rightarrow> True)"

text \<open>
  The events that run a handler and so cause a render: all but the passing of time and
  the leaving of the view.
\<close>

definition handlerEvent :: "Event \<Rightarrow> bool" where
  "handlerEvent e = (case e of Elapse _ \<Rightarrow> False | Unmount \<Rightarrow> False | _ \<Rightarrow> True)"

text \<open>The events that settle a call to the remote responder.\<close>

definition settles :: "Event \<Rightarrow> bool" where
  "settles e = (case e of FetchSettled _ _ \<Rightarrow> True | _ \<Rightarrow> False)"

text \<open>
  A capture is active from \<^verbatim>\<open>start()\<close> until a stop is requested, an error is reported
  or it ends. Section 3 of the specification uses the word this way: in Processing,
  right after \<^verbatim>\<open>stop()\<close>, the capture counts as inactive.
\<close>

definition active :: "SpeechRecognitionInstance \<Rightarrow> bool" where
  "active c = (rec_status c = Starting \<or> rec_status c = Capturing)"

text \<open>
  The pending timeouts are at most the one \<open>timeoutRef\<close> holds, and the active captures
  at most the one \<open>recognitionRef\<close> holds.
\<close>

definition timers_ok :: "session \<Rightarrow> bool" where
  "timers_ok s =
     (length (timers s) \<le> 1 \<and> list_all (\<lambda>t. timeoutRef s = Some (timer_id t)) (timers s))"

definition captures_ok :: "session \<Rightarrow> bool" where
  "captures_ok s =
     list_all (\<lambda>h. active (captures s ! h) \<longrightarrow> recognitionRef s = Some h)
       [0 ..< length (captures s)]"

text \<open>
  Two sessions to evaluate on: a freshly mounted one, and the one listening after the
  microphone was clicked, permission was granted and the capture reported its start.
\<close>

definition freshSession :: session where
  "freshSession = mount True True (str ''en'')"

definition listeningSession :: session where
  "listeningSession = run [ClickMic, PermissionSettled 0 True, RecStart 0] freshSession"

text \<open>The session with a query typed into the text input.\<close>

definition typingSession :: session where
  "typingSession = run [ClickTypeInstead, ChangeText (str ''hello'')] freshSession"

text \<open>The session after a typed query was submitted, its call in flight.\<close>

definition processingSession :: session where
  "processingSession =
     run [ClickTypeInstead, ChangeText (str ''hello''), PressEnter] freshSession"


definition promptSession :: session where
  "promptSession = step ClickMic freshSession"

text \<open>
  A session in which permission was denied and nothing is under way that could start a
  capture: no permission request is pending and no capture is active.
\<close>

definition blocked :: "session \<Rightarrow> bool" where
  "blocked s =
     (permissionDenied s \<and> permissionRequests s = []
      \<and> list_all (\<lambda>c. \<not> active c) (captures s))"

section \<open>Properties\<close>

lemmas setter_defs = setMicState_def setSelectedLanguage_def setInterimTranscript_def
  setFinalTranscript_def setVoiceResponse_def setTextInput_def setShowTextInput_def
  setPermissionDenied_def toast_def onTranscriptReady_def onVoiceAnswer_def

lemmas browser_defs = recognition_start_def recognition_stop_def recognition_setLang_def
  updateCapture_def clearTimeout_def setTimeout_def speakResponse_def setStatus_def
  startInstance_def stopInstance_def captureStatus_def

lemmas effect_defs = recognition_effect_def recognition_cleanup_def processQuery_def
  finalTranscript_effect_def silence_effect_def silence_cleanup_def run_effects_def turn_def

lemmas handler_defs = recognition_onstart_def recognition_onresult_def recognition_onerror_def
  recognition_onend_def handleMicClick_def handleMicClick_resumed_def handleTextSubmit_def
  micButton_disabled_def sendButton_disabled_def elapse_def silence_timeout_def
  processQuery_settled_def processQuery_catch_def unmount_def leaveView_def speechCleanup_def
  replay_def

subsection \<open>What each function leaves alone\<close>

text \<open>
  Every function of the model changes a few fields of the session; the lemmas of this
  subsection list, function by function, the fields it does not change.
\<close>

lemma setMicState_frame [simp]:
  "selectedLanguage (setMicState v s) = selectedLanguage s"
  "interimTranscript (setMicState v s) = interimTranscript s"
  "finalTranscript (setMicState v s) = finalTranscript s"
  "voiceResponse (setMicState v s) = voiceResponse s" "textInput (setMicState v s) = textInput s"
  "showTextInput (setMicState v s) = showTextInput s"
  "permissionDenied (setMicState v s) = permissionDenied s"
  "recognitionRef (setMicState v s) = recognitionRef s"
  "timeoutRef (setMicState v s) = timeoutRef s"
  "speechRecognitionSupported (setMicState v s) = speechRecognitionSupported s"
  "speechSynthesisSupported (setMicState v s) = speechSynthesisSupported s"
  "mounted (setMicState v s) = mounted s" "captures (setMicState v s) = captures s"
  "timers (setMicState v s) = timers s" "nextTimer (setMicState v s) = nextTimer s"
  "now (setMicState v s) = now s" "speaking (setMicState v s) = speaking s"
  "fetches (setMicState v s) = fetches s"
  "permissionRequests (setMicState v s) = permissionRequests s"
  "toasts (setMicState v s) = toasts s" "transcriptsReady (setMicState v s) = transcriptsReady s"
  "voiceAnswers (setMicState v s) = voiceAnswers s"
  by (simp_all add: setMicState_def)

lemma setSelectedLanguage_frame [simp]:
  "micState (setSelectedLanguage v s) = micState s"
  "interimTranscript (setSelectedLanguage v s) = interimTranscript s"
  "finalTranscript (setSelectedLanguage v s) = finalTranscript s"
  "voiceResponse (setSelectedLanguage v s) = voiceResponse s"
  "textInput (setSelectedLanguage v s) = textInput s"
  "showTextInput (setSelectedLanguage v s) = showTextInput s"
  "permissionDenied (setSelectedLanguage v s) = permissionDenied s"
  "recognitionRef (setSelectedLanguage v s) = recognitionRef s"
  "timeoutRef (setSelectedLanguage v s) = timeoutRef s"
  "speechRecognitionSupported (setSelectedLanguage v s) = speechRecognitionSupported s"
  "speechSynthesisSupported (setSelectedLanguage v s) = speechSynthesisSupported s"
  "mounted (setSelectedLanguage v s) = mounted s"
  "captures (setSelectedLanguage v s) = captures s" "timers (setSelectedLanguage v s) = timers s"
  "nextTimer (setSelectedLanguage v s) = nextTimer s" "now (setSelectedLanguage v s) = now s"
  "speaking (setSelectedLanguage v s) = speaking s"
  "fetches (setSelectedLanguage v s) = fetches s"
  "permissionRequests (setSelectedLanguage v s) = permissionRequests s"
  "toasts (setSelectedLanguage v s) = toasts s"
  "transcriptsReady (setSelectedLanguage v s) = transcriptsReady s"
  "voiceAnswers (setSelectedLanguage v s) = voiceAnswers s"
  by (simp_all add: setSelectedLanguage_def)

lemma setInterimTranscript_frame [simp]:
  "micState (setInterimTranscript v s) = micState s"
  "selectedLanguage (setInterimTranscript v s) = selectedLanguage s"
  "finalTranscript (setInterimTranscript v s) = finalTranscript s"
  "voiceResponse (setInterimTranscript v s) = voiceResponse s"
  "textInput (setInterimTranscript v s) = textInput s"
  "showTextInput (setInterimTranscript v s) = showTextInput s"
  "permissionDenied (setInterimTranscript v s) = permissionDenied s"
  "recognitionRef (setInterimTranscript v s) = recognitionRef s"
  "timeoutRef (setInterimTranscript v s) = timeoutRef s"
  "speechRecognitionSupported (setInterimTranscript v s) = speechRecognitionSupported s"
  "speechSynthesisSupported (setInterimTranscript v s) = speechSynthesisSupported s"
  "mounted (setInterimTranscript v s) = mounted s"
  "captures (setInterimTranscript v s) = captures s"
  "timers (setInterimTranscript v s) = timers s"
  "nextTimer (setInterimTranscript v s) = nextTimer s" "now (setInterimTranscript v s) = now s"
  "speaking (setInterimTranscript v s) = speaking s"
  "fetches (setInterimTranscript v s) = fetches s"
  "permissionRequests (setInterimTranscript v s) = permissionRequests s"
  "toasts (setInterimTranscript v s) = toasts s"
  "transcriptsReady (setInterimTranscript v s) = transcriptsReady s"
  "voiceAnswers (setInterimTranscript v s) = voiceAnswers s"
  by (simp_all add: setInterimTranscript_def)

lemma setFinalTranscript_frame [simp]:
  "micState (setFinalTranscript v s) = micState s"
  "selectedLanguage (setFinalTranscript v s) = selectedLanguage s"
  "interimTranscript (setFinalTranscript v s) = interimTranscript s"
  "voiceResponse (setFinalTranscript v s) = voiceResponse s"
  "textInput (setFinalTranscript v s) = textInput s"
  "showTextInput (setFinalTranscript v s) = showTextInput s"
  "permissionDenied (setFinalTranscript v s) = permissionDenied s"
  "recognitionRef (setFinalTranscript v s) = recognitionRef s"
  "timeoutRef (setFinalTranscript v s) = timeoutRef s"
  "speechRecognitionSupported (setFinalTranscript v s) = speechRecognitionSupported s"
  "speechSynthesisSupported (setFinalTranscript v s) = speechSynthesisSupported s"
  "mounted (setFinalTranscript v s) = mounted s" "captures (setFinalTranscript v s) = captures s"
  "timers (setFinalTranscript v s) = timers s" "nextTimer (setFinalTranscript v s) = nextTimer s"
  "now (setFinalTranscript v s) = now s" "speaking (setFinalTranscript v s) = speaking s"
  "fetches (setFinalTranscript v s) = fetches s"
  "permissionRequests (setFinalTranscript v s) = permissionRequests s"
  "toasts (setFinalTranscript v s) = toasts s"
  "transcriptsReady (setFinalTranscript v s) = transcriptsReady s"
  "voiceAnswers (setFinalTranscript v s) = voiceAnswers s"
  by (simp_all add: setFinalTranscript_def)

lemma setVoiceResponse_frame [simp]:
  "micState (setVoiceResponse v s) = micState s"
  "selectedLanguage (setVoiceResponse v s) = selectedLanguage s"
  "interimTranscript (setVoiceResponse v s) = interimTranscript s"
  "finalTranscript (setVoiceResponse v s) = finalTranscript s"
  "textInput (setVoiceResponse v s) = textInput s"
  "showTextInput (setVoiceResponse v s) = showTextInput s"
  "permissionDenied (setVoiceResponse v s) = permissionDenied s"
  "recognitionRef (setVoiceResponse v s) = recognitionRef s"
  "timeoutRef (setVoiceResponse v s) = timeoutRef s"
  "speechRecognitionSupported (setVoiceResponse v s) = speechRecognitionSupported s"
  "speechSynthesisSupported (setVoiceResponse v s) = speechSynthesisSupported s"
  "mounted (setVoiceResponse v s) = mounted s" "captures (setVoiceResponse v s) = captures s"
  "timers (setVoiceResponse v s) = timers s" "nextTimer (setVoiceResponse v s) = nextTimer s"
  "now (setVoiceResponse v s) = now s" "speaking (setVoiceResponse v s) = speaking s"
  "fetches (setVoiceResponse v s) = fetches s"
  "permissionRequests (setVoiceResponse v s) = permissionRequests s"
  "toasts (setVoiceResponse v s) = toasts s"
  "transcriptsReady (setVoiceResponse v s) = transcriptsReady s"
  "voiceAnswers (setVoiceResponse v s) = voiceAnswers s"
  by (simp_all add: setVoiceResponse_def)

lemma setTextInput_frame [simp]:
  "micState (setTextInput v s) = micState s"
  "selectedLanguage (setTextInput v s) = selectedLanguage s"
  "interimTranscript (setTextInput v s) = interimTranscript s"
  "finalTranscript (setTextInput v s) = finalTranscript s"
  "voiceResponse (setTextInput v s) = voiceResponse s"
  "showTextInput (setTextInput v s) = showTextInput s"
  "permissionDenied (setTextInput v s) = permissionDenied s"
  "recognitionRef (setTextInput v s) = recognitionRef s"
  "timeoutRef (setTextInput v s) = timeoutRef s"
  "speechRecognitionSupported (setTextInput v s) = speechRecognitionSupported s"
  "speechSynthesisSupported (setTextInput v s) = speechSynthesisSupported s"
  "mounted (setTextInput v s) = mounted s" "captures (setTextInput v s) = captures s"
  "timers (setTextInput v s) = timers s" "nextTimer (setTextInput v s) = nextTimer s"
  "now (setTextInput v s) = now s" "speaking (setTextInput v s) = speaking s"
  "fetches (setTextInput v s) = fetches s"
  "permissionRequests (setTextInput v s) = permissionRequests s"
  "toasts (setTextInput v s) = toasts s"
  "transcriptsReady (setTextInput v s) = transcriptsReady s"
  "voiceAnswers (setTextInput v s) = voiceAnswers s"
  by (simp_all add: setTextInput_def)

lemma setShowTextInput_frame [simp]:
  "micState (setShowTextInput v s) = micState s"
  "selectedLanguage (setShowTextInput v s) = selectedLanguage s"
  "interimTranscript (setShowTextInput v s) = interimTranscript s"
  "finalTranscript (setShowTextInput v s) = finalTranscript s"
  "voiceResponse (setShowTextInput v s) = voiceResponse s"
  "textInput (setShowTextInput v s) = textInput s"
  "permissionDenied (setShowTextInput v s) = permissionDenied s"
  "recognitionRef (setShowTextInput v s) = recognitionRef s"
  "timeoutRef (setShowTextInput v s) = timeoutRef s"
  "speechRecognitionSupported (setShowTextInput v s) = speechRecognitionSupported s"
  "speechSynthesisSupported (setShowTextInput v s) = speechSynthesisSupported s"
  "mounted (setShowTextInput v s) = mounted s" "captures (setShowTextInput v s) = captures s"
  "timers (setShowTextInput v s) = timers s" "nextTimer (setShowTextInput v s) = nextTimer s"
  "now (setShowTextInput v s) = now s" "speaking (setShowTextInput v s) = speaking s"
  "fetches (setShowTextInput v s) = fetches s"
  "permissionRequests (setShowTextInput v s) = permissionRequests s"
  "toasts (setShowTextInput v s) = toasts s"
  "transcriptsReady (setShowTextInput v s) = transcriptsReady s"
  "voiceAnswers (setShowTextInput v s) = voiceAnswers s"
  by (simp_all add: setShowTextInput_def)

lemma setPermissionDenied_frame [simp]:
  "micState (setPermissionDenied v s) = micState s"
  "selectedLanguage (setPermissionDenied v s) = selectedLanguage s"
  "interimTranscript (setPermissionDenied v s) = interimTranscript s"
  "finalTranscript (setPermissionDenied v s) = finalTranscript s"
  "voiceResponse (setPermissionDenied v s) = voiceResponse s"
  "textInput (setPermissionDenied v s) = textInput s"
  "showTextInput (setPermissionDenied v s) = showTextInput s"
  "recognitionRef (setPermissionDenied v s) = recognitionRef s"
  "timeoutRef (setPermissionDenied v s) = timeoutRef s"
  "speechRecognitionSupported (setPermissionDenied v s) = speechRecognitionSupported s"
  "speechSynthesisSupported (setPermissionDenied v s) = speechSynthesisSupported s"
  "mounted (setPermissionDenied v s) = mounted s"
  "captures (setPermissionDenied v s) = captures s" "timers (setPermissionDenied v s) = timers s"
  "nextTimer (setPermissionDenied v s) = nextTimer s" "now (setPermissionDenied v s) = now s"
  "speaking (setPermissionDenied v s) = speaking s"
  "fetches (setPermissionDenied v s) = fetches s"
  "permissionRequests (setPermissionDenied v s) = permissionRequests s"
  "toasts (setPermissionDenied v s) = toasts s"
  "transcriptsReady (setPermissionDenied v s) = transcriptsReady s"
  "voiceAnswers (setPermissionDenied v s) = voiceAnswers s"
  by (simp_all add: setPermissionDenied_def)

lemma onTranscriptReady_frame [simp]:
  "micState (onTranscriptReady t s) = micState s"
  "selectedLanguage (onTranscriptReady t s) = selectedLanguage s"
  "interimTranscript (onTranscriptReady t s) = interimTranscript s"
  "finalTranscript (onTranscriptReady t s) = finalTranscript s"
  "voiceResponse (onTranscriptReady t s) = voiceResponse s"
  "textInput (onTranscriptReady t s) = textInput s"
  "showTextInput (onTranscriptReady t s) = showTextInput s"
  "permissionDenied (onTranscriptReady t s) = permissionDenied s"
  "recognitionRef (onTranscriptReady t s) = recognitionRef s"
  "timeoutRef (onTranscriptReady t s) = timeoutRef s"
  "speechRecognitionSupported (onTranscriptReady t s) = speechRecognitionSupported s"
  "speechSynthesisSupported (onTranscriptReady t s) = speechSynthesisSupported s"
  "mounted (onTranscriptReady t s) = mounted s" "captures (onTranscriptReady t s) = captures s"
  "timers (onTranscriptReady t s) = timers s" "nextTimer (onTranscriptReady t s) = nextTimer s"
  "now (onTranscriptReady t s) = now s" "speaking (onTranscriptReady t s) = speaking s"
  "fetches (onTranscriptReady t s) = fetches s"
  "permissionRequests (onTranscriptReady t s) = permissionRequests s"
  "toasts (onTranscriptReady t s) = toasts s"
  "voiceAnswers (onTranscriptReady t s) = voiceAnswers s"
  by (simp_all add: onTranscriptReady_def)

lemma onVoiceAnswer_frame [simp]:
  "micState (onVoiceAnswer r s) = micState s"
  "selectedLanguage (onVoiceAnswer r s) = selectedLanguage s"
  "interimTranscript (onVoiceAnswer r s) = interimTranscript s"
  "finalTranscript (onVoiceAnswer r s) = finalTranscript s"
  "voiceResponse (onVoiceAnswer r s) = voiceResponse s"
  "textInput (onVoiceAnswer r s) = textInput s"
  "showTextInput (onVoiceAnswer r s) = showTextInput s"
  "permissionDenied (onVoiceAnswer r s) = permissionDenied s"
  "recognitionRef (onVoiceAnswer r s) = recognitionRef s"
  "timeoutRef (onVoiceAnswer r s) = timeoutRef s"
  "speechRecognitionSupported (onVoiceAnswer r s) = speechRecognitionSupported s"
  "speechSynthesisSupported (onVoiceAnswer r s) = speechSynthesisSupported s"
  "mounted (onVoiceAnswer r s) = mounted s" "captures (onVoiceAnswer r s) = captures s"
  "timers (onVoiceAnswer r s) = timers s" "nextTimer (onVoiceAnswer r s) = nextTimer s"
  "now (onVoiceAnswer r s) = now s" "speaking (onVoiceAnswer r s) = speaking s"
  "fetches (onVoiceAnswer r s) = fetches s"
  "permissionRequests (onVoiceAnswer r s) = permissionRequests s"
  "toasts (onVoiceAnswer r s) = toasts s"
  "transcriptsReady (onVoiceAnswer r s) = transcriptsReady s"
  by (simp_all add: onVoiceAnswer_def)


lemma clearTimeout_frame [simp]:
  "micState (clearTimeout i s) = micState s"
  "selectedLanguage (clearTimeout i s) = selectedLanguage s"
  "interimTranscript (clearTimeout i s) = interimTranscript s"
  "finalTranscript (clearTimeout i s) = finalTranscript s"
  "voiceResponse (clearTimeout i s) = voiceResponse s"
  "textInput (clearTimeout i s) = textInput s"
  "showTextInput (clearTimeout i s) = showTextInput s"
  "permissionDenied (clearTimeout i s) = permissionDenied s"
  "recognitionRef (clearTimeout i s) = recognitionRef s"
  "timeoutRef (clearTimeout i s) = timeoutRef s"
  "speechRecognitionSupported (clearTimeout i s) = speechRecognitionSupported s"
  "speechSynthesisSupported (clearTimeout i s) = speechSynthesisSupported s"
  "mounted (clearTimeout i s) = mounted s" "captures (clearTimeout i s) = captures s"
  "nextTimer (clearTimeout i s) = nextTimer s" "now (clearTimeout i s) = now s"
  "speaking (clearTimeout i s) = speaking s" "fetches (clearTimeout i s) = fetches s"
  "permissionRequests (clearTimeout i s) = permissionRequests s"
  "toasts (clearTimeout i s) = toasts s"
  "transcriptsReady (clearTimeout i s) = transcriptsReady s"
  "voiceAnswers (clearTimeout i s) = voiceAnswers s"
  by (simp_all add: clearTimeout_def)

lemma updateCapture_frame [simp]:
  "micState (updateCapture h f s) = micState s"
  "selectedLanguage (updateCapture h f s) = selectedLanguage s"
  "interimTranscript (updateCapture h f s) = interimTranscript s"
  "finalTranscript (updateCapture h f s) = finalTranscript s"
  "voiceResponse (updateCapture h f s) = voiceResponse s"
  "textInput (updateCapture h f s) = textInput s"
  "showTextInput (updateCapture h f s) = showTextInput s"
  "permissionDenied (updateCapture h f s) = permissionDenied s"
  "recognitionRef (updateCapture h f s) = recognitionRef s"
  "timeoutRef (updateCapture h f s) = timeoutRef s"
  "speechRecognitionSupported (updateCapture h f s) = speechRecognitionSupported s"
  "speechSynthesisSupported (updateCapture h f s) = speechSynthesisSupported s"
  "mounted (updateCapture h f s) = mounted s" "timers (updateCapture h f s) = timers s"
  "nextTimer (updateCapture h f s) = nextTimer s" "now (updateCapture h f s) = now s"
  "speaking (updateCapture h f s) = speaking s" "fetches (updateCapture h f s) = fetches s"
  "permissionRequests (updateCapture h f s) = permissionRequests s"
  "toasts (updateCapture h f s) = toasts s"
  "transcriptsReady (updateCapture h f s) = transcriptsReady s"
  "voiceAnswers (updateCapture h f s) = voiceAnswers s"
  by (simp_all add: updateCapture_def)

lemma recognition_start_frame [simp]:
  "micState (recognition_start h s) = micState s"
  "selectedLanguage (recognition_start h s) = selectedLanguage s"
  "interimTranscript (recognition_start h s) = interimTranscript s"
  "finalTranscript (recognition_start h s) = finalTranscript s"
  "voiceResponse (recognition_start h s) = voiceResponse s"
  "textInput (recognition_start h s) = textInput s"
  "showTextInput (recognition_start h s) = showTextInput s"
  "permissionDenied (recognition_start h s) = permissionDenied s"
  "recognitionRef (recognition_start h s) = recognitionRef s"
  "timeoutRef (recognition_start h s) = timeoutRef s"
  "speechRecognitionSupported (recognition_start h s) = speechRecognitionSupported s"
  "speechSynthesisSupported (recognition_start h s) = speechSynthesisSupported s"
  "mounted (recognition_start h s) = mounted s" "timers (recognition_start h s) = timers s"
  "nextTimer (recognition_start h s) = nextTimer s" "now (recognition_start h s) = now s"
  "speaking (recognition_start h s) = speaking s" "fetches (recognition_start h s) = fetches s"
  "permissionRequests (recognition_start h s) = permissionRequests s"
  "toasts (recognition_start h s) = toasts s"
  "transcriptsReady (recognition_start h s) = transcriptsReady s"
  "voiceAnswers (recognition_start h s) = voiceAnswers s"
  by (simp_all add: recognition_start_def)

lemma recognition_stop_frame [simp]:
  "micState (recognition_stop h s) = micState s"
  "selectedLanguage (recognition_stop h s) = selectedLanguage s"
  "interimTranscript (recognition_stop h s) = interimTranscript s"
  "finalTranscript (recognition_stop h s) = finalTranscript s"
  "voiceResponse (recognition_stop h s) = voiceResponse s"
  "textInput (recognition_stop h s) = textInput s"
  "showTextInput (recognition_stop h s) = showTextInput s"
  "permissionDenied (recognition_stop h s) = permissionDenied s"
  "recognitionRef (recognition_stop h s) = recognitionRef s"
  "timeoutRef (recognition_stop h s) = timeoutRef s"
  "speechRecognitionSupported (recognition_stop h s) = speechRecognitionSupported s"
  "speechSynthesisSupported (recognition_stop h s) = speechSynthesisSupported s"
  "mounted (recognition_stop h s) = mounted s" "timers (recognition_stop h s) = timers s"
  "nextTimer (recognition_stop h s) = nextTimer s" "now (recognition_stop h s) = now s"
  "speaking (recognition_stop h s) = speaking s" "fetches (recognition_stop h s) = fetches s"
  "permissionRequests (recognition_stop h s) = permissionRequests s"
  "toasts (recognition_stop h s) = toasts s"
  "transcriptsReady (recognition_stop h s) = transcriptsReady s"
  "voiceAnswers (recognition_stop h s) = voiceAnswers s"
  by (simp_all add: recognition_stop_def)

lemma recognition_setLang_frame [simp]:
  "micState (recognition_setLang h l s) = micState s"
  "selectedLanguage (recognition_setLang h l s) = selectedLanguage s"
  "interimTranscript (recognition_setLang h l s) = interimTranscript s"
  "finalTranscript (recognition_setLang h l s) = finalTranscript s"
  "voiceResponse (recognition_setLang h l s) = voiceResponse s"
  "textInput (recognition_setLang h l s) = textInput s"
  "showTextInput (recognition_setLang h l s) = showTextInput s"
  "permissionDenied (recognition_setLang h l s) = permissionDenied s"
  "recognitionRef (recognition_setLang h l s) = recognitionRef s"
  "timeoutRef (recognition_setLang h l s) = timeoutRef s"
  "speechRecognitionSupported (recognition_setLang h l s) = speechRecognitionSupported s"
  "speechSynthesisSupported (recognition_setLang h l s) = speechSynthesisSupported s"
  "mounted (recognition_setLang h l s) = mounted s"
  "timers (recognition_setLang h l s) = timers s"
  "nextTimer (recognition_setLang h l s) = nextTimer s" "now (recognition_setLang h l s) = now s"
  "speaking (recognition_setLang h l s) = speaking s"
  "fetches (recognition_setLang h l s) = fetches s"
  "permissionRequests (recognition_setLang h l s) = permissionRequests s"
  "toasts (recognition_setLang h l s) = toasts s"
  "transcriptsReady (recognition_setLang h l s) = transcriptsReady s"
  "voiceAnswers (recognition_setLang h l s) = voiceAnswers s"
  by (simp_all add: recognition_setLang_def)

lemma setStatus_frame [simp]:
  "micState (setStatus h st s) = micState s"
  "selectedLanguage (setStatus h st s) = selectedLanguage s"
  "interimTranscript (setStatus h st s) = interimTranscript s"
  "finalTranscript (setStatus h st s) = finalTranscript s"
  "voiceResponse (setStatus h st s) = voiceResponse s"
  "textInput (setStatus h st s) = textInput s"
  "showTextInput (setStatus h st s) = showTextInput s"
  "permissionDenied (setStatus h st s) = permissionDenied s"
  "recognitionRef (setStatus h st s) = recognitionRef s"
  "timeoutRef (setStatus h st s) = timeoutRef s"
  "speechRecognitionSupported (setStatus h st s) = speechRecognitionSupported s"
  "speechSynthesisSupported (setStatus h st s) = speechSynthesisSupported s"
  "mounted (setStatus h st s) = mounted s" "timers (setStatus h st s) = timers s"
  "nextTimer (setStatus h st s) = nextTimer s" "now (setStatus h st s) = now s"
  "speaking (setStatus h st s) = speaking s" "fetches (setStatus h st s) = fetches s"
  "permissionRequests (setStatus h st s) = permissionRequests s"
  "toasts (setStatus h st s) = toasts s"
  "transcriptsReady (setStatus h st s) = transcriptsReady s"
  "voiceAnswers (setStatus h st s) = voiceAnswers s"
  by (simp_all add: setStatus_def)

lemma speakResponse_frame [simp]:
  "micState (speakResponse l t s) = micState s"
  "selectedLanguage (speakResponse l t s) = selectedLanguage s"
  "interimTranscript (speakResponse l t s) = interimTranscript s"
  "finalTranscript (speakResponse l t s) = finalTranscript s"
  "voiceResponse (speakResponse l t s) = voiceResponse s"
  "textInput (speakResponse l t s) = textInput s"
  "showTextInput (speakResponse l t s) = showTextInput s"
  "permissionDenied (speakResponse l t s) = permissionDenied s"
  "recognitionRef (speakResponse l t s) = recognitionRef s"
  "timeoutRef (speakResponse l t s) = timeoutRef s"
  "speechRecognitionSupported (speakResponse l t s) = speechRecognitionSupported s"
  "speechSynthesisSupported (speakResponse l t s) = speechSynthesisSupported s"
  "mounted (speakResponse l t s) = mounted s" "captures (speakResponse l t s) = captures s"
  "timers (speakResponse l t s) = timers s" "nextTimer (speakResponse l t s) = nextTimer s"
  "now (speakResponse l t s) = now s" "fetches (speakResponse l t s) = fetches s"
  "permissionRequests (speakResponse l t s) = permissionRequests s"
  "toasts (speakResponse l t s) = toasts s"
  "transcriptsReady (speakResponse l t s) = transcriptsReady s"
  "voiceAnswers (speakResponse l t s) = voiceAnswers s"
  by (simp_all add: speakResponse_def)

lemma toast_frame [simp]:
  "micState (toast t s) = micState s" "selectedLanguage (toast t s) = selectedLanguage s"
  "interimTranscript (toast t s) = interimTranscript s"
  "finalTranscript (toast t s) = finalTranscript s" "voiceResponse (toast t s) = voiceResponse s"
  "textInput (toast t s) = textInput s" "showTextInput (toast t s) = showTextInput s"
  "permissionDenied (toast t s) = permissionDenied s"
  "recognitionRef (toast t s) = recognitionRef s" "timeoutRef (toast t s) = timeoutRef s"
  "speechRecognitionSupported (toast t s) = speechRecognitionSupported s"
  "speechSynthesisSupported (toast t s) = speechSynthesisSupported s"
  "mounted (toast t s) = mounted s" "captures (toast t s) = captures s"
  "timers (toast t s) = timers s" "nextTimer (toast t s) = nextTimer s" "now (toast t s) = now s"
  "speaking (toast t s) = speaking s" "fetches (toast t s) = fetches s"
  "permissionRequests (toast t s) = permissionRequests s"
  "transcriptsReady (toast t s) = transcriptsReady s" "voiceAnswers (toast t s) = voiceAnswers s"
  by (simp_all add: toast_def)

lemma recognition_cleanup_frame [simp]:
  "micState (recognition_cleanup s) = micState s"
  "selectedLanguage (recognition_cleanup s) = selectedLanguage s"
  "interimTranscript (recognition_cleanup s) = interimTranscript s"
  "finalTranscript (recognition_cleanup s) = finalTranscript s"
  "voiceResponse (recognition_cleanup s) = voiceResponse s"
  "textInput (recognition_cleanup s) = textInput s"
  "showTextInput (recognition_cleanup s) = showTextInput s"
  "permissionDenied (recognition_cleanup s) = permissionDenied s"
  "recognitionRef (recognition_cleanup s) = recognitionRef s"
  "timeoutRef (recognition_cleanup s) = timeoutRef s"
  "speechRecognitionSupported (recognition_cleanup s) = speechRecognitionSupported s"
  "speechSynthesisSupported (recognition_cleanup s) = speechSynthesisSupported s"
  "mounted (recognition_cleanup s) = mounted s" "timers (recognition_cleanup s) = timers s"
  "nextTimer (recognition_cleanup s) = nextTimer s" "now (recognition_cleanup s) = now s"
  "speaking (recognition_cleanup s) = speaking s" "fetches (recognition_cleanup s) = fetches s"
  "permissionRequests (recognition_cleanup s) = permissionRequests s"
  "toasts (recognition_cleanup s) = toasts s"
  "transcriptsReady (recognition_cleanup s) = transcriptsReady s"
  "voiceAnswers (recognition_cleanup s) = voiceAnswers s"
  by (simp_all add: recognition_cleanup_def split: option.splits)

lemma recognition_effect_frame [simp]:
  "micState (recognition_effect l s) = micState s"
  "selectedLanguage (recognition_effect l s) = selectedLanguage s"
  "interimTranscript (recognition_effect l s) = interimTranscript s"
  "finalTranscript (recognition_effect l s) = finalTranscript s"
  "voiceResponse (recognition_effect l s) = voiceResponse s"
  "textInput (recognition_effect l s) = textInput s"
  "showTextInput (recognition_effect l s) = showTextInput s"
  "permissionDenied (recognition_effect l s) = permissionDenied s"
  "timeoutRef (recognition_effect l s) = timeoutRef s"
  "speechRecognitionSupported (recognition_effect l s) = speechRecognitionSupported s"
  "speechSynthesisSupported (recognition_effect l s) = speechSynthesisSupported s"
  "mounted (recognition_effect l s) = mounted s" "timers (recognition_effect l s) = timers s"
  "nextTimer (recognition_effect l s) = nextTimer s" "now (recognition_effect l s) = now s"
  "speaking (recognition_effect l s) = speaking s" "fetches (recognition_effect l s) = fetches s"
  "permissionRequests (recognition_effect l s) = permissionRequests s"
  "toasts (recognition_effect l s) = toasts s"
  "transcriptsReady (recognition_effect l s) = transcriptsReady s"
  "voiceAnswers (recognition_effect l s) = voiceAnswers s"
  by (simp_all add: recognition_effect_def)

lemma silence_cleanup_frame [simp]:
  "micState (silence_cleanup s) = micState s"
  "selectedLanguage (silence_cleanup s) = selectedLanguage s"
  "interimTranscript (silence_cleanup s) = interimTranscript s"
  "finalTranscript (silence_cleanup s) = finalTranscript s"
  "voiceResponse (silence_cleanup s) = voiceResponse s"
  "textInput (silence_cleanup s) = textInput s"
  "showTextInput (silence_cleanup s) = showTextInput s"
  "permissionDenied (silence_cleanup s) = permissionDenied s"
  "recognitionRef (silence_cleanup s) = recognitionRef s"
  "timeoutRef (silence_cleanup s) = timeoutRef s"
  "speechRecognitionSupported (silence_cleanup s) = speechRecognitionSupported s"
  "speechSynthesisSupported (silence_cleanup s) = speechSynthesisSupported s"
  "mounted (silence_cleanup s) = mounted s" "captures (silence_cleanup s) = captures s"
  "nextTimer (silence_cleanup s) = nextTimer s" "now (silence_cleanup s) = now s"
  "speaking (silence_cleanup s) = speaking s" "fetches (silence_cleanup s) = fetches s"
  "permissionRequests (silence_cleanup s) = permissionRequests s"
  "toasts (silence_cleanup s) = toasts s"
  "transcriptsReady (silence_cleanup s) = transcriptsReady s"
  "voiceAnswers (silence_cleanup s) = voiceAnswers s"
  by (simp_all add: silence_cleanup_def split: option.splits)

lemma silence_effect_frame [simp]:
  "micState (silence_effect m t s) = micState s"
  "selectedLanguage (silence_effect m t s) = selectedLanguage s"
  "interimTranscript (silence_effect m t s) = interimTranscript s"
  "finalTranscript (silence_effect m t s) = finalTranscript s"
  "voiceResponse (silence_effect m t s) = voiceResponse s"
  "textInput (silence_effect m t s) = textInput s"
  "showTextInput (silence_effect m t s) = showTextInput s"
  "permissionDenied (silence_effect m t s) = permissionDenied s"
  "recognitionRef (silence_effect m t s) = recognitionRef s"
  "speechRecognitionSupported (silence_effect m t s) = speechRecognitionSupported s"
  "speechSynthesisSupported (silence_effect m t s) = speechSynthesisSupported s"
  "mounted (silence_effect m t s) = mounted s" "captures (silence_effect m t s) = captures s"
  "now (silence_effect m t s) = now s" "speaking (silence_effect m t s) = speaking s"
  "fetches (silence_effect m t s) = fetches s"
  "permissionRequests (silence_effect m t s) = permissionRequests s"
  "toasts (silence_effect m t s) = toasts s"
  "transcriptsReady (silence_effect m t s) = transcriptsReady s"
  "voiceAnswers (silence_effect m t s) = voiceAnswers s"
  by (simp_all add: silence_effect_def setTimeout_def Let_def split: option.splits)

lemma silence_timeout_frame [simp]:
  "micState (silence_timeout tm s) = micState s"
  "selectedLanguage (silence_timeout tm s) = selectedLanguage s"
  "interimTranscript (silence_timeout tm s) = interimTranscript s"
  "finalTranscript (silence_timeout tm s) = finalTranscript s"
  "voiceResponse (silence_timeout tm s) = voiceResponse s"
  "textInput (silence_timeout tm s) = textInput s"
  "showTextInput (silence_timeout tm s) = showTextInput s"
  "permissionDenied (silence_timeout tm s) = permissionDenied s"
  "recognitionRef (silence_timeout tm s) = recognitionRef s"
  "timeoutRef (silence_timeout tm s) = timeoutRef s"
  "speechRecognitionSupported (silence_timeout tm s) = speechRecognitionSupported s"
  "speechSynthesisSupported (silence_timeout tm s) = speechSynthesisSupported s"
  "mounted (silence_timeout tm s) = mounted s" "timers (silence_timeout tm s) = timers s"
  "nextTimer (silence_timeout tm s) = nextTimer s" "now (silence_timeout tm s) = now s"
  "speaking (silence_timeout tm s) = speaking s" "fetches (silence_timeout tm s) = fetches s"
  "permissionRequests (silence_timeout tm s) = permissionRequests s"
  "toasts (silence_timeout tm s) = toasts s"
  "transcriptsReady (silence_timeout tm s) = transcriptsReady s"
  "voiceAnswers (silence_timeout tm s) = voiceAnswers s"
  by (simp_all add: silence_timeout_def split: option.splits)

lemma processQuery_frame [simp]:
  "selectedLanguage (processQuery l q s) = selectedLanguage s"
  "interimTranscript (processQuery l q s) = interimTranscript s"
  "finalTranscript (processQuery l q s) = finalTranscript s"
  "voiceResponse (processQuery l q s) = voiceResponse s"
  "textInput (processQuery l q s) = textInput s"
  "showTextInput (processQuery l q s) = showTextInput s"
  "permissionDenied (processQuery l q s) = permissionDenied s"
  "recognitionRef (processQuery l q s) = recognitionRef s"
  "timeoutRef (processQuery l q s) = timeoutRef s"
  "speechRecognitionSupported (processQuery l q s) = speechRecognitionSupported s"
  "speechSynthesisSupported (processQuery l q s) = speechSynthesisSupported s"
  "mounted (processQuery l q s) = mounted s" "captures (processQuery l q s) = captures s"
  "timers (processQuery l q s) = timers s" "nextTimer (processQuery l q s) = nextTimer s"
  "now (processQuery l q s) = now s" "speaking (processQuery l q s) = speaking s"
  "permissionRequests (processQuery l q s) = permissionRequests s"
  "toasts (processQuery l q s) = toasts s"
  "transcriptsReady (processQuery l q s) = transcriptsReady s"
  "voiceAnswers (processQuery l q s) = voiceAnswers s"
  by (simp_all add: processQuery_def setMicState_def Let_def)

lemma finalTranscript_effect_frame [simp]:
  "selectedLanguage (finalTranscript_effect t l s) = selectedLanguage s"
  "interimTranscript (finalTranscript_effect t l s) = interimTranscript s"
  "voiceResponse (finalTranscript_effect t l s) = voiceResponse s"
  "textInput (finalTranscript_effect t l s) = textInput s"
  "showTextInput (finalTranscript_effect t l s) = showTextInput s"
  "permissionDenied (finalTranscript_effect t l s) = permissionDenied s"
  "recognitionRef (finalTranscript_effect t l s) = recognitionRef s"
  "timeoutRef (finalTranscript_effect t l s) = timeoutRef s"
  "speechRecognitionSupported (finalTranscript_effect t l s) = speechRecognitionSupported s"
  "speechSynthesisSupported (finalTranscript_effect t l s) = speechSynthesisSupported s"
  "mounted (finalTranscript_effect t l s) = mounted s"
  "captures (finalTranscript_effect t l s) = captures s"
  "timers (finalTranscript_effect t l s) = timers s"
  "nextTimer (finalTranscript_effect t l s) = nextTimer s"
  "now (finalTranscript_effect t l s) = now s"
  "speaking (finalTranscript_effect t l s) = speaking s"
  "permissionRequests (finalTranscript_effect t l s) = permissionRequests s"
  "toasts (finalTranscript_effect t l s) = toasts s"
  "voiceAnswers (finalTranscript_effect t l s) = voiceAnswers s"
  by (simp_all add: finalTranscript_effect_def setFinalTranscript_def onTranscriptReady_def)

lemma processQuery_catch_frame [simp]:
  "micState (processQuery_catch c s) = micState s"
  "selectedLanguage (processQuery_catch c s) = selectedLanguage s"
  "interimTranscript (processQuery_catch c s) = interimTranscript s"
  "finalTranscript (processQuery_catch c s) = finalTranscript s"
  "textInput (processQuery_catch c s) = textInput s"
  "showTextInput (processQuery_catch c s) = showTextInput s"
  "permissionDenied (processQuery_catch c s) = permissionDenied s"
  "recognitionRef (processQuery_catch c s) = recognitionRef s"
  "timeoutRef (processQuery_catch c s) = timeoutRef s"
  "speechRecognitionSupported (processQuery_catch c s) = speechRecognitionSupported s"
  "speechSynthesisSupported (processQuery_catch c s) = speechSynthesisSupported s"
  "mounted (processQuery_catch c s) = mounted s" "captures (processQuery_catch c s) = captures s"
  "timers (processQuery_catch c s) = timers s" "nextTimer (processQuery_catch c s) = nextTimer s"
  "now (processQuery_catch c s) = now s" "fetches (processQuery_catch c s) = fetches s"
  "permissionRequests (processQuery_catch c s) = permissionRequests s"
  "toasts (processQuery_catch c s) = toasts s"
  "transcriptsReady (processQuery_catch c s) = transcriptsReady s"
  by (simp_all add: processQuery_catch_def Let_def)

lemma processQuery_settled_frame [simp]:
  "selectedLanguage (processQuery_settled i outcome s) = selectedLanguage s"
  "interimTranscript (processQuery_settled i outcome s) = interimTranscript s"
  "finalTranscript (processQuery_settled i outcome s) = finalTranscript s"
  "textInput (processQuery_settled i outcome s) = textInput s"
  "showTextInput (processQuery_settled i outcome s) = showTextInput s"
  "permissionDenied (processQuery_settled i outcome s) = permissionDenied s"
  "recognitionRef (processQuery_settled i outcome s) = recognitionRef s"
  "timeoutRef (processQuery_settled i outcome s) = timeoutRef s"
  "speechRecognitionSupported (processQuery_settled i outcome s) = speechRecognitionSupported s"
  "speechSynthesisSupported (processQuery_settled i outcome s) = speechSynthesisSupported s"
  "mounted (processQuery_settled i outcome s) = mounted s"
  "captures (processQuery_settled i outcome s) = captures s"
  "timers (processQuery_settled i outcome s) = timers s"
  "nextTimer (processQuery_settled i outcome s) = nextTimer s"
  "now (processQuery_settled i outcome s) = now s"
  "permissionRequests (processQuery_settled i outcome s) = permissionRequests s"
  "toasts (processQuery_settled i outcome s) = toasts s"
  "transcriptsReady (processQuery_settled i outcome s) = transcriptsReady s"
  by (simp_all add: processQuery_settled_def Let_def split: Outcome.splits option.splits)



subsection \<open>The fallback responder\<close>

lemma find_blood_sugar:
  "find (\<lambda>r. report_type r = str ''Blood Sugar'') mockRecentReports =
     Some \<lparr>report_type = str ''Blood Sugar'', report_value = str ''145 mg/dL'',
           report_date = str ''2024-01-15'', report_status = str ''elevated''\<rparr>"
  by (simp add: mockRecentReports_def)

lemma generateMockResponse_blood_sugar:
  assumes "str_includes (toLowerCase q) (str ''blood sugar'')"
  shows "generateMockResponse l q =
     \<lparr>answer_text =
        getLocalizedText l
          (bloodSugar_en (str ''145 mg/dL'') (str ''2024-01-15'') (str ''elevated''))
          (bloodSugar_hi (str ''145 mg/dL'') (str ''2024-01-15'') (str ''elevated''))
          (bloodSugar_kn (str ''145 mg/dL'') (str ''2024-01-15'') (str ''elevated'')),
      disclaimer = getLocalizedText l disclaimer_en disclaimer_hi disclaimer_kn,
      actions =
        Some [\<lparr>action_id = str ''reminder'', action_label = str ''Add Reminder'',
               action_type = reminder\<rparr>,
              \<lparr>action_id = str ''appointment'', action_label = str ''Schedule Appointment'',
               action_type = appointment\<rparr>]\<rparr>"
  using assms
  by (simp add: generateMockResponse_def find_blood_sugar interpolate_def Let_def)

lemma utterance_has_keyword:
  "str_includes (toLowerCase (str ''what is my blood sugar'')) (str ''blood sugar'')"
  by (simp add: str_def toLowerCase_def isAscii_def lowerUnit_def)

text \<open>
  C8. In English, the utterance "what is my blood sugar" is answered by the fallback
  responder with a text that contains the value, the date and the status of the mocked
  Blood Sugar report ("145 mg/dL", "2024-01-15", "elevated"), and with exactly two
  suggested actions, of the categories reminder and appointment.
\<close>

theorem blood_sugar_fallback_answer:
  "(let r = generateMockResponse en_US (str ''what is my blood sugar'') in
      str_includes (answer_text r) (str ''145 mg/dL'')
    \<and> str_includes (answer_text r) (str ''2024-01-15'')
    \<and> str_includes (answer_text r) (str ''elevated'')
    \<and> map_option (map action_type) (actions r) = Some [reminder, appointment])
   \<and> map_option (\<lambda>r. (report_value r, report_date r, report_status r))
        (find (\<lambda>r. report_type r = str ''Blood Sugar'') mockRecentReports)
      = Some (str ''145 mg/dL'', str ''2024-01-15'', str ''elevated'')"
proof -
  let ?a = "bloodSugar_en (str ''145 mg/dL'') (str ''2024-01-15'') (str ''elevated'')"
  have v: "str_includes ?a (str ''145 mg/dL'')"
    by (simp add: bloodSugar_en_def str_def)
  have d: "str_includes ?a (str ''2024-01-15'')"
    by (simp add: bloodSugar_en_def str_def)
  have st: "str_includes ?a (str ''elevated'')"
    by (simp add: bloodSugar_en_def str_def)
  show ?thesis
    unfolding Let_def generateMockResponse_blood_sugar [OF utterance_has_keyword]
      find_blood_sugar
    using v d st by (simp add: getLocalizedText_def)
qed

subsection \<open>Renders and turns\<close>

lemma trim_Nil [simp]: "trim [] = []"
  by (simp add: trim_def)

lemma truthy_Nil [simp]: "\<not> truthy []"
  by (simp add: truthy_def)

lemma finalTranscript_effect_state:
  "micState (finalTranscript_effect t l s) =
     (if truthy (trim t) \<and> mounted s then processing else micState s)"
  "finalTranscript (finalTranscript_effect t l s) =
     (if truthy (trim t) \<and> mounted s then [] else finalTranscript s)"
  "fetches (finalTranscript_effect t l s) =
     (if truthy (trim t) then fetches s @ [\<lparr>call_query = t, call_language = l\<rparr>]
      else fetches s)"
  "transcriptsReady (finalTranscript_effect t l s) =
     (if truthy (trim t) then transcriptsReady s @ [t] else transcriptsReady s)"
  by (simp_all add: finalTranscript_effect_def processQuery_def setMicState_def
        setFinalTranscript_def onTranscriptReady_def Let_def)

lemma run_effects_frame [simp]:
  "selectedLanguage (run_effects p s) = selectedLanguage s"
  "interimTranscript (run_effects p s) = interimTranscript s"
  "voiceResponse (run_effects p s) = voiceResponse s" "textInput (run_effects p s) = textInput s"
  "showTextInput (run_effects p s) = showTextInput s"
  "permissionDenied (run_effects p s) = permissionDenied s"
  "speechRecognitionSupported (run_effects p s) = speechRecognitionSupported s"
  "speechSynthesisSupported (run_effects p s) = speechSynthesisSupported s"
  "mounted (run_effects p s) = mounted s" "now (run_effects p s) = now s"
  "speaking (run_effects p s) = speaking s"
  "permissionRequests (run_effects p s) = permissionRequests s"
  "toasts (run_effects p s) = toasts s" "voiceAnswers (run_effects p s) = voiceAnswers s"
  by (simp_all add: run_effects_def Let_def)


text \<open>A render dispatches a query when the final transcript changed to a text that is not blank.\<close>

lemma run_effects_state:
  "micState (run_effects p s) =
     (if mounted s \<and> finalTranscript p \<noteq> finalTranscript s \<and> truthy (trim (finalTranscript s))
      then processing else micState s)"
  "finalTranscript (run_effects p s) =
     (if mounted s \<and> finalTranscript p \<noteq> finalTranscript s \<and> truthy (trim (finalTranscript s))
      then [] else finalTranscript s)"
  "fetches (run_effects p s) =
     (if mounted s \<and> finalTranscript p \<noteq> finalTranscript s \<and> truthy (trim (finalTranscript s))
      then fetches s @ [\<lparr>call_query = finalTranscript s, call_language = selectedLanguage s\<rparr>]
      else fetches s)"
  "transcriptsReady (run_effects p s) =
     (if mounted s \<and> finalTranscript p \<noteq> finalTranscript s \<and> truthy (trim (finalTranscript s))
      then transcriptsReady s @ [finalTranscript s] else transcriptsReady s)"
  by (simp_all add: run_effects_def Let_def finalTranscript_effect_state)

lemma turn_state:
  "micState (turn f s) =
     (if mounted (f s) \<and> finalTranscript s \<noteq> finalTranscript (f s)
         \<and> truthy (trim (finalTranscript (f s)))
      then processing else micState (f s))"
  "finalTranscript (turn f s) =
     (if mounted (f s) \<and> finalTranscript s \<noteq> finalTranscript (f s)
         \<and> truthy (trim (finalTranscript (f s)))
      then [] else finalTranscript (f s))"
  "fetches (turn f s) =
     (if mounted (f s) \<and> finalTranscript s \<noteq> finalTranscript (f s)
         \<and> truthy (trim (finalTranscript (f s)))
      then fetches (f s) @
             [\<lparr>call_query = finalTranscript (f s), call_language = selectedLanguage (f s)\<rparr>]
      else fetches (f s))"
  "transcriptsReady (turn f s) =
     (if mounted (f s) \<and> finalTranscript s \<noteq> finalTranscript (f s)
         \<and> truthy (trim (finalTranscript (f s)))
      then transcriptsReady (f s) @ [finalTranscript (f s)] else transcriptsReady (f s))"
  by (simp_all add: turn_def Let_def run_effects_state)

lemma turn_frame [simp]:
  "selectedLanguage (turn f s) = selectedLanguage (f s)"
  "interimTranscript (turn f s) = interimTranscript (f s)"
  "voiceResponse (turn f s) = voiceResponse (f s)" "textInput (turn f s) = textInput (f s)"
  "showTextInput (turn f s) = showTextInput (f s)" "permissionDenied (turn f s) = permissionDenied (f s)"
  "speechRecognitionSupported (turn f s) = speechRecognitionSupported (f s)"
  "speechSynthesisSupported (turn f s) = speechSynthesisSupported (f s)"
  "mounted (turn f s) = mounted (f s)" "now (turn f s) = now (f s)" "speaking (turn f s) = speaking (f s)"
  "permissionRequests (turn f s) = permissionRequests (f s)" "toasts (turn f s) = toasts (f s)"
  "voiceAnswers (turn f s) = voiceAnswers (f s)"
  by (simp_all add: turn_def Let_def)

lemma recognition_onstart_frame [simp]:
  "selectedLanguage (recognition_onstart s) = selectedLanguage s"
  "finalTranscript (recognition_onstart s) = finalTranscript s"
  "voiceResponse (recognition_onstart s) = voiceResponse s"
  "textInput (recognition_onstart s) = textInput s"
  "showTextInput (recognition_onstart s) = showTextInput s"
  "recognitionRef (recognition_onstart s) = recognitionRef s"
  "timeoutRef (recognition_onstart s) = timeoutRef s"
  "speechRecognitionSupported (recognition_onstart s) = speechRecognitionSupported s"
  "speechSynthesisSupported (recognition_onstart s) = speechSynthesisSupported s"
  "mounted (recognition_onstart s) = mounted s" "captures (recognition_onstart s) = captures s"
  "timers (recognition_onstart s) = timers s" "nextTimer (recognition_onstart s) = nextTimer s"
  "now (recognition_onstart s) = now s" "speaking (recognition_onstart s) = speaking s"
  "fetches (recognition_onstart s) = fetches s"
  "permissionRequests (recognition_onstart s) = permissionRequests s"
  "toasts (recognition_onstart s) = toasts s"
  "transcriptsReady (recognition_onstart s) = transcriptsReady s"
  "voiceAnswers (recognition_onstart s) = voiceAnswers s"
  by (simp_all add: recognition_onstart_def)

lemma recognition_onresult_frame [simp]:
  "micState (recognition_onresult h event s) = micState s"
  "selectedLanguage (recognition_onresult h event s) = selectedLanguage s"
  "voiceResponse (recognition_onresult h event s) = voiceResponse s"
  "textInput (recognition_onresult h event s) = textInput s"
  "showTextInput (recognition_onresult h event s) = showTextInput s"
  "permissionDenied (recognition_onresult h event s) = permissionDenied s"
  "recognitionRef (recognition_onresult h event s) = recognitionRef s"
  "timeoutRef (recognition_onresult h event s) = timeoutRef s"
  "speechRecognitionSupported (recognition_onresult h event s) = speechRecognitionSupported s"
  "speechSynthesisSupported (recognition_onresult h event s) = speechSynthesisSupported s"
  "mounted (recognition_onresult h event s) = mounted s"
  "timers (recognition_onresult h event s) = timers s"
  "nextTimer (recognition_onresult h event s) = nextTimer s"
  "now (recognition_onresult h event s) = now s"
  "speaking (recognition_onresult h event s) = speaking s"
  "fetches (recognition_onresult h event s) = fetches s"
  "permissionRequests (recognition_onresult h event s) = permissionRequests s"
  "toasts (recognition_onresult h event s) = toasts s"
  "transcriptsReady (recognition_onresult h event s) = transcriptsReady s"
  "voiceAnswers (recognition_onresult h event s) = voiceAnswers s"
  by (simp_all add: recognition_onresult_def Let_def split: prod.splits)

lemma recognition_onerror_frame [simp]:
  "selectedLanguage (recognition_onerror error s) = selectedLanguage s"
  "finalTranscript (recognition_onerror error s) = finalTranscript s"
  "voiceResponse (recognition_onerror error s) = voiceResponse s"
  "textInput (recognition_onerror error s) = textInput s"
  "showTextInput (recognition_onerror error s) = showTextInput s"
  "recognitionRef (recognition_onerror error s) = recognitionRef s"
  "timeoutRef (recognition_onerror error s) = timeoutRef s"
  "speechRecognitionSupported (recognition_onerror error s) = speechRecognitionSupported s"
  "speechSynthesisSupported (recognition_onerror error s) = speechSynthesisSupported s"
  "mounted (recognition_onerror error s) = mounted s"
  "captures (recognition_onerror error s) = captures s"
  "timers (recognition_onerror error s) = timers s"
  "nextTimer (recognition_onerror error s) = nextTimer s"
  "now (recognition_onerror error s) = now s"
  "speaking (recognition_onerror error s) = speaking s"
  "fetches (recognition_onerror error s) = fetches s"
  "permissionRequests (recognition_onerror error s) = permissionRequests s"
  "transcriptsReady (recognition_onerror error s) = transcriptsReady s"
  "voiceAnswers (recognition_onerror error s) = voiceAnswers s"
  by (simp_all add: recognition_onerror_def Let_def)

lemma recognition_onend_frame [simp]:
  "selectedLanguage (recognition_onend s) = selectedLanguage s"
  "finalTranscript (recognition_onend s) = finalTranscript s"
  "voiceResponse (recognition_onend s) = voiceResponse s"
  "textInput (recognition_onend s) = textInput s"
  "showTextInput (recognition_onend s) = showTextInput s"
  "permissionDenied (recognition_onend s) = permissionDenied s"
  "recognitionRef (recognition_onend s) = recognitionRef s"
  "timeoutRef (recognition_onend s) = timeoutRef s"
  "speechRecognitionSupported (recognition_onend s) = speechRecognitionSupported s"
  "speechSynthesisSupported (recognition_onend s) = speechSynthesisSupported s"
  "mounted (recognition_onend s) = mounted s" "captures (recognition_onend s) = captures s"
  "timers (recognition_onend s) = timers s" "nextTimer (recognition_onend s) = nextTimer s"
  "now (recognition_onend s) = now s" "speaking (recognition_onend s) = speaking s"
  "fetches (recognition_onend s) = fetches s"
  "permissionRequests (recognition_onend s) = permissionRequests s"
  "toasts (recognition_onend s) = toasts s"
  "transcriptsReady (recognition_onend s) = transcriptsReady s"
  "voiceAnswers (recognition_onend s) = voiceAnswers s"
  by (simp_all add: recognition_onend_def)

lemma handleMicClick_frame [simp]:
  "micState (handleMicClick s) = micState s"
  "selectedLanguage (handleMicClick s) = selectedLanguage s"
  "interimTranscript (handleMicClick s) = interimTranscript s"
  "finalTranscript (handleMicClick s) = finalTranscript s"
  "voiceResponse (handleMicClick s) = voiceResponse s"
  "textInput (handleMicClick s) = textInput s"
  "permissionDenied (handleMicClick s) = permissionDenied s"
  "recognitionRef (handleMicClick s) = recognitionRef s"
  "timeoutRef (handleMicClick s) = timeoutRef s"
  "speechRecognitionSupported (handleMicClick s) = speechRecognitionSupported s"
  "speechSynthesisSupported (handleMicClick s) = speechSynthesisSupported s"
  "mounted (handleMicClick s) = mounted s" "timers (handleMicClick s) = timers s"
  "nextTimer (handleMicClick s) = nextTimer s" "now (handleMicClick s) = now s"
  "speaking (handleMicClick s) = speaking s" "fetches (handleMicClick s) = fetches s"
  "transcriptsReady (handleMicClick s) = transcriptsReady s"
  "voiceAnswers (handleMicClick s) = voiceAnswers s"
  by (simp_all add: handleMicClick_def split: option.splits)

lemma handleMicClick_resumed_frame [simp]:
  "micState (handleMicClick_resumed i granted s) = micState s"
  "selectedLanguage (handleMicClick_resumed i granted s) = selectedLanguage s"
  "interimTranscript (handleMicClick_resumed i granted s) = interimTranscript s"
  "finalTranscript (handleMicClick_resumed i granted s) = finalTranscript s"
  "voiceResponse (handleMicClick_resumed i granted s) = voiceResponse s"
  "textInput (handleMicClick_resumed i granted s) = textInput s"
  "showTextInput (handleMicClick_resumed i granted s) = showTextInput s"
  "recognitionRef (handleMicClick_resumed i granted s) = recognitionRef s"
  "timeoutRef (handleMicClick_resumed i granted s) = timeoutRef s"
  "speechRecognitionSupported (handleMicClick_resumed i granted s) = speechRecognitionSupported s"
  "speechSynthesisSupported (handleMicClick_resumed i granted s) = speechSynthesisSupported s"
  "mounted (handleMicClick_resumed i granted s) = mounted s"
  "timers (handleMicClick_resumed i granted s) = timers s"
  "nextTimer (handleMicClick_resumed i granted s) = nextTimer s"
  "now (handleMicClick_resumed i granted s) = now s"
  "speaking (handleMicClick_resumed i granted s) = speaking s"
  "fetches (handleMicClick_resumed i granted s) = fetches s"
  "transcriptsReady (handleMicClick_resumed i granted s) = transcriptsReady s"
  "voiceAnswers (handleMicClick_resumed i granted s) = voiceAnswers s"
  by (simp_all add: handleMicClick_resumed_def Let_def split: option.splits)

lemma handleTextSubmit_frame [simp]:
  "selectedLanguage (handleTextSubmit s) = selectedLanguage s"
  "interimTranscript (handleTextSubmit s) = interimTranscript s"
  "finalTranscript (handleTextSubmit s) = finalTranscript s"
  "voiceResponse (handleTextSubmit s) = voiceResponse s"
  "permissionDenied (handleTextSubmit s) = permissionDenied s"
  "recognitionRef (handleTextSubmit s) = recognitionRef s"
  "timeoutRef (handleTextSubmit s) = timeoutRef s"
  "speechRecognitionSupported (handleTextSubmit s) = speechRecognitionSupported s"
  "speechSynthesisSupported (handleTextSubmit s) = speechSynthesisSupported s"
  "mounted (handleTextSubmit s) = mounted s" "captures (handleTextSubmit s) = captures s"
  "timers (handleTextSubmit s) = timers s" "nextTimer (handleTextSubmit s) = nextTimer s"
  "now (handleTextSubmit s) = now s" "speaking (handleTextSubmit s) = speaking s"
  "permissionRequests (handleTextSubmit s) = permissionRequests s"
  "toasts (handleTextSubmit s) = toasts s"
  "transcriptsReady (handleTextSubmit s) = transcriptsReady s"
  "voiceAnswers (handleTextSubmit s) = voiceAnswers s"
  by (simp_all add: handleTextSubmit_def)

lemma handleActionClick_frame [simp]:
  "micState (handleActionClick a s) = micState s"
  "selectedLanguage (handleActionClick a s) = selectedLanguage s"
  "interimTranscript (handleActionClick a s) = interimTranscript s"
  "finalTranscript (handleActionClick a s) = finalTranscript s"
  "voiceResponse (handleActionClick a s) = voiceResponse s"
  "textInput (handleActionClick a s) = textInput s"
  "showTextInput (handleActionClick a s) = showTextInput s"
  "permissionDenied (handleActionClick a s) = permissionDenied s"
  "recognitionRef (handleActionClick a s) = recognitionRef s"
  "timeoutRef (handleActionClick a s) = timeoutRef s"
  "speechRecognitionSupported (handleActionClick a s) = speechRecognitionSupported s"
  "speechSynthesisSupported (handleActionClick a s) = speechSynthesisSupported s"
  "mounted (handleActionClick a s) = mounted s" "captures (handleActionClick a s) = captures s"
  "timers (handleActionClick a s) = timers s" "nextTimer (handleActionClick a s) = nextTimer s"
  "now (handleActionClick a s) = now s" "speaking (handleActionClick a s) = speaking s"
  "fetches (handleActionClick a s) = fetches s"
  "permissionRequests (handleActionClick a s) = permissionRequests s"
  "transcriptsReady (handleActionClick a s) = transcriptsReady s"
  "voiceAnswers (handleActionClick a s) = voiceAnswers s"
  by (simp_all add: handleActionClick_def split: ActionType.splits)

lemma replay_frame [simp]:
  "micState (replay s) = micState s" "selectedLanguage (replay s) = selectedLanguage s"
  "interimTranscript (replay s) = interimTranscript s"
  "finalTranscript (replay s) = finalTranscript s" "voiceResponse (replay s) = voiceResponse s"
  "textInput (replay s) = textInput s" "showTextInput (replay s) = showTextInput s"
  "permissionDenied (replay s) = permissionDenied s"
  "recognitionRef (replay s) = recognitionRef s" "timeoutRef (replay s) = timeoutRef s"
  "speechRecognitionSupported (replay s) = speechRecognitionSupported s"
  "speechSynthesisSupported (replay s) = speechSynthesisSupported s"
  "mounted (replay s) = mounted s" "captures (replay s) = captures s"
  "timers (replay s) = timers s" "nextTimer (replay s) = nextTimer s" "now (replay s) = now s"
  "fetches (replay s) = fetches s" "permissionRequests (replay s) = permissionRequests s"
  "toasts (replay s) = toasts s" "transcriptsReady (replay s) = transcriptsReady s"
  "voiceAnswers (replay s) = voiceAnswers s"
  by (simp_all add: replay_def split: option.splits)

lemma unmount_frame [simp]:
  "micState (unmount s) = micState s" "selectedLanguage (unmount s) = selectedLanguage s"
  "interimTranscript (unmount s) = interimTranscript s"
  "finalTranscript (unmount s) = finalTranscript s" "voiceResponse (unmount s) = voiceResponse s"
  "textInput (unmount s) = textInput s" "showTextInput (unmount s) = showTextInput s"
  "permissionDenied (unmount s) = permissionDenied s"
  "recognitionRef (unmount s) = recognitionRef s" "timeoutRef (unmount s) = timeoutRef s"
  "speechRecognitionSupported (unmount s) = speechRecognitionSupported s"
  "speechSynthesisSupported (unmount s) = speechSynthesisSupported s"
  "nextTimer (unmount s) = nextTimer s" "now (unmount s) = now s"
  "speaking (unmount s) = speaking s" "fetches (unmount s) = fetches s"
  "permissionRequests (unmount s) = permissionRequests s" "toasts (unmount s) = toasts s"
  "transcriptsReady (unmount s) = transcriptsReady s" "voiceAnswers (unmount s) = voiceAnswers s"
  by (simp_all add: unmount_def)

lemma speechCleanup_frame [simp]:
  "micState (speechCleanup s) = micState s"
  "selectedLanguage (speechCleanup s) = selectedLanguage s"
  "interimTranscript (speechCleanup s) = interimTranscript s"
  "finalTranscript (speechCleanup s) = finalTranscript s"
  "voiceResponse (speechCleanup s) = voiceResponse s" "textInput (speechCleanup s) = textInput s"
  "showTextInput (speechCleanup s) = showTextInput s"
  "permissionDenied (speechCleanup s) = permissionDenied s"
  "recognitionRef (speechCleanup s) = recognitionRef s"
  "timeoutRef (speechCleanup s) = timeoutRef s"
  "speechRecognitionSupported (speechCleanup s) = speechRecognitionSupported s"
  "speechSynthesisSupported (speechCleanup s) = speechSynthesisSupported s"
  "mounted (speechCleanup s) = mounted s" "captures (speechCleanup s) = captures s"
  "timers (speechCleanup s) = timers s" "nextTimer (speechCleanup s) = nextTimer s"
  "now (speechCleanup s) = now s" "fetches (speechCleanup s) = fetches s"
  "permissionRequests (speechCleanup s) = permissionRequests s"
  "toasts (speechCleanup s) = toasts s" "transcriptsReady (speechCleanup s) = transcriptsReady s"
  "voiceAnswers (speechCleanup s) = voiceAnswers s"
  by (simp_all add: speechCleanup_def)

lemma leaveView_frame [simp]:
  "micState (leaveView s) = micState s" "selectedLanguage (leaveView s) = selectedLanguage s"
  "interimTranscript (leaveView s) = interimTranscript s"
  "finalTranscript (leaveView s) = finalTranscript s"
  "voiceResponse (leaveView s) = voiceResponse s" "textInput (leaveView s) = textInput s"
  "showTextInput (leaveView s) = showTextInput s"
  "permissionDenied (leaveView s) = permissionDenied s"
  "recognitionRef (leaveView s) = recognitionRef s" "timeoutRef (leaveView s) = timeoutRef s"
  "speechRecognitionSupported (leaveView s) = speechRecognitionSupported s"
  "speechSynthesisSupported (leaveView s) = speechSynthesisSupported s"
  "nextTimer (leaveView s) = nextTimer s" "now (leaveView s) = now s"
  "fetches (leaveView s) = fetches s" "permissionRequests (leaveView s) = permissionRequests s"
  "toasts (leaveView s) = toasts s" "transcriptsReady (leaveView s) = transcriptsReady s"
  "voiceAnswers (leaveView s) = voiceAnswers s"
  by (simp_all add: leaveView_def)

subsection \<open>The fallback responder in every language\<close>

lemma find_blood_pressure:
  "find (\<lambda>r. report_type r = str ''Blood Pressure'') mockRecentReports =
     Some \<lparr>report_type = str ''Blood Pressure'', report_value = str ''138/88'',
           report_date = str ''2024-01-14'', report_status = str ''high''\<rparr>"
  by (simp add: mockRecentReports_def str_def)

lemma generateMockResponse_answer:
  "answer_text (generateMockResponse l q) \<in> set (answersIn l q)"
  by (cases l) (simp_all add: generateMockResponse_def answersIn_def Let_def getLocalizedText_def
      find_blood_sugar find_blood_pressure mockUserProfile_def interpolate_def)

lemma generateMockResponse_disclaimer:
  "disclaimer (generateMockResponse l q) = disclaimerIn l"
  by (cases l) (simp_all add: generateMockResponse_def disclaimerIn_def Let_def getLocalizedText_def split: prod.splits)

lemma generateMockResponse_actions: "actions (generateMockResponse l q) \<noteq> None"
  by (simp add: generateMockResponse_def Let_def split: prod.splits)

lemma answersIn_nonempty: "a \<in> set (answersIn l q) \<Longrightarrow> a \<noteq> []"
  by (cases l) (auto simp add: answersIn_def bloodSugar_en_def bloodSugar_hi_def bloodSugar_kn_def
    bloodPressure_en_def bloodPressure_hi_def bloodPressure_kn_def medication_en_def medication_hi_def medication_kn_def
    greeting_en_def greeting_hi_def greeting_kn_def default_en_def default_hi_def default_kn_def str_def)

lemma disclaimerIn_nonempty: "disclaimerIn l \<noteq> []"
  by (cases l) (simp_all add: disclaimerIn_def disclaimer_en_def disclaimer_hi_def disclaimer_kn_def str_def)

subsection \<open>Mounting and dispatch\<close>

lemma mount_eq:
  "mount r y l =
     \<lparr>micState = idle, selectedLanguage = initialLanguage l,
      interimTranscript = [], finalTranscript = [], voiceResponse = None,
      textInput = [], showTextInput = False, permissionDenied = False,
      recognitionRef = (if r then Some 0 else None), timeoutRef = None,
      speechRecognitionSupported = r, speechSynthesisSupported = y, mounted = True,
      captures = (if r then [\<lparr>rec_lang = initialLanguage l, rec_status = Inactive,
                               rec_tag = initialLanguage l\<rparr>] else []),
      timers = [], nextTimer = 1, now = 0, speaking = None,
      fetches = [], permissionRequests = [], toasts = [],
      transcriptsReady = [], voiceAnswers = []\<rparr>"
  by (simp add: mount_def Let_def recognition_effect_def finalTranscript_effect_def
        silence_effect_def)


lemma processQuery_state:
  "micState (processQuery l q s) = (if mounted s then processing else micState s)"
  "fetches (processQuery l q s) = fetches s @ [\<lparr>call_query = q, call_language = l\<rparr>]"
  by (simp_all add: processQuery_def Let_def setMicState_def)


subsection \<open>The example sessions\<close>

lemma freshSession_eq:
  "freshSession =
     \<lparr>micState = idle, selectedLanguage = en_US, interimTranscript = [],
      finalTranscript = [], voiceResponse = None, textInput = [], showTextInput = False,
      permissionDenied = False, recognitionRef = Some 0, timeoutRef = None,
      speechRecognitionSupported = True, speechSynthesisSupported = True, mounted = True,
      captures = [\<lparr>rec_lang = en_US, rec_status = Inactive, rec_tag = en_US\<rparr>],
      timers = [], nextTimer = 1, now = 0, speaking = None, fetches = [],
      permissionRequests = [], toasts = [], transcriptsReady = [], voiceAnswers = []\<rparr>"
  by (simp add: freshSession_def mount_eq initialLanguage_def str_def)

lemma listeningSession_eq:
  "listeningSession =
     \<lparr>micState = listening, selectedLanguage = en_US, interimTranscript = [],
      finalTranscript = [], voiceResponse = None, textInput = [], showTextInput = False,
      permissionDenied = False, recognitionRef = Some 0, timeoutRef = Some 1,
      speechRecognitionSupported = True, speechSynthesisSupported = True, mounted = True,
      captures = [\<lparr>rec_lang = en_US, rec_status = Capturing, rec_tag = en_US\<rparr>],
      timers = [\<lparr>timer_id = 1, timer_due = 3000, timer_micState = listening\<rparr>],
      nextTimer = 2, now = 0, speaking = None, fetches = [],
      permissionRequests = [], toasts = [], transcriptsReady = [], voiceAnswers = []\<rparr>"
  by (simp add: listeningSession_def freshSession_eq setter_defs browser_defs effect_defs
        handler_defs Let_def)

lemma processingSession_eq:
  "processingSession =
     \<lparr>micState = processing, selectedLanguage = en_US, interimTranscript = [],
      finalTranscript = [], voiceResponse = None, textInput = [], showTextInput = False,
      permissionDenied = False, recognitionRef = Some 0, timeoutRef = None,
      speechRecognitionSupported = True, speechSynthesisSupported = True, mounted = True,
      captures = [\<lparr>rec_lang = en_US, rec_status = Inactive, rec_tag = en_US\<rparr>],
      timers = [], nextTimer = 1, now = 0, speaking = None,
      fetches = [\<lparr>call_query = str ''hello'', call_language = en_US\<rparr>],
      permissionRequests = [], toasts = [], transcriptsReady = [], voiceAnswers = []\<rparr>"
  by (simp add: processingSession_def freshSession_eq setter_defs browser_defs effect_defs
        handler_defs Let_def trim_def isWhiteSpace_def truthy_def str_def)


lemma promptSession_eq:
  "promptSession = freshSession\<lparr>permissionRequests := [en_US]\<rparr>"
  by (simp add: promptSession_def freshSession_eq setter_defs browser_defs effect_defs
        handler_defs Let_def)

lemma typingSession_eq:
  "typingSession = freshSession\<lparr>textInput := str ''hello'', showTextInput := True\<rparr>"
  by (simp add: typingSession_def freshSession_eq setter_defs browser_defs effect_defs
        handler_defs Let_def)

lemma typing_facts:
  "mounted typingSession" "showTextInput typingSession"
  "truthy (trim (textInput typingSession))" "fetches typingSession = []"
  "trim (textInput typingSession) = str ''hello''" "selectedLanguage typingSession = en_US"
  by (simp_all add: typingSession_eq freshSession_eq trim_def isWhiteSpace_def truthy_def
      str_def)

subsection \<open>Blank input\<close>

lemma run_effects_same: "run_effects s s = s"
  by (simp add: run_effects_def)

lemma turn_id: "f s = s \<Longrightarrow> turn f s = s"
  by (simp add: turn_def run_effects_same)

lemma recognition_onresult_state:
  "finalTranscript (recognition_onresult h ev s) =
     (if truthy (finalText ev) \<and> mounted s then finalText ev else finalTranscript s)"
  "interimTranscript (recognition_onresult h ev s) =
     (if mounted s then (if truthy (finalText ev) then [] else interimText ev)
      else interimTranscript s)"
  "captures (recognition_onresult h ev s) =
     (if truthy (finalText ev) then captures (recognition_stop h s) else captures s)"
  by (simp_all add: recognition_onresult_def finalText_def interimText_def Let_def
        setFinalTranscript_def setInterimTranscript_def recognition_stop_def updateCapture_def
        split: prod.splits)

text \<open>
  C9. A typed submission or a finalized utterance that is empty or only white space
  dispatches no query: \<open>handleTextSubmit\<close> and the effect on the final transcript leave
  the session as it is (so \<open>processQuery\<close> is not called), and after the turn of a result
  event whose final text is blank no call was added and \<open>micState\<close> and the response
  are unchanged.
\<close>

theorem blank_input_dispatches_nothing:
  "(\<not> truthy (trim (textInput s)) \<longrightarrow>
      handleTextSubmit s = s \<and> step PressEnter s = s \<and> step ClickSend s = s)
   \<and> (\<not> truthy (trim t) \<longrightarrow> finalTranscript_effect t l s = s)
   \<and> (\<not> truthy (trim (finalText ev)) \<longrightarrow>
        (let s' = step (RecResult h ev) s
         in fetches s' = fetches s \<and> micState s' = micState s
            \<and> voiceResponse s' = voiceResponse s))"
proof (intro conjI impI)
  assume b: "\<not> truthy (trim (textInput s))"
  then show h: "handleTextSubmit s = s"
    by (simp add: handleTextSubmit_def)
  show "step PressEnter s = s"
    using h by (simp add: turn_id)
  show "step ClickSend s = s"
    using h by (simp add: turn_id)
next
  assume "\<not> truthy (trim t)"
  then show "finalTranscript_effect t l s = s"
    by (simp add: finalTranscript_effect_def)
next
  assume "\<not> truthy (trim (finalText ev))"
  then show "let s' = step (RecResult h ev) s
     in fetches s' = fetches s \<and> micState s' = micState s \<and> voiceResponse s' = voiceResponse s"
    by (simp add: Let_def turn_state recognition_onresult_state)
qed

theorem blank_input_dispatches_nothing_witness:
  "handleTextSubmit freshSession = freshSession
   \<and> step PressEnter freshSession = freshSession
   \<and> finalTranscript_effect (str ''  '') en_US listeningSession = listeningSession
   \<and> fetches (step (RecResult 0 (finalResult (str '' ''))) listeningSession) = []
   \<and> micState (step (RecResult 0 (finalResult (str '' ''))) listeningSession) = listening
   \<and> voiceResponse (step (RecResult 0 (finalResult (str '' ''))) listeningSession) = None"
proof -
  have a: "\<not> truthy (trim (textInput freshSession))"
    by (simp add: freshSession_eq)
  have b: "\<not> truthy (trim (str ''  ''))"
    by (simp add: trim_def str_def isWhiteSpace_def truthy_def)
  have c: "\<not> truthy (trim (finalText (finalResult (str '' ''))))"
    by (simp add: finalText_def finalResult_def trim_def str_def isWhiteSpace_def truthy_def)
  show ?thesis
    using a b c
      blank_input_dispatches_nothing [of freshSession "str ''  ''" en_US
        "finalResult (str '' '')" 0]
      blank_input_dispatches_nothing [of listeningSession "str ''  ''" en_US
        "finalResult (str '' '')" 0]
    by (simp add: Let_def listeningSession_eq del: step.simps)
qed

subsection \<open>The microphone control while processing\<close>

text \<open>
  C10. While \<open>micState\<close> is \<open>processing\<close> the microphone button is disabled, so
  activating it leaves the whole session as it is; and \<open>handleMicClick\<close> itself, called
  in that state, starts or stops no capture, makes no permission request and changes
  none of \<open>micState\<close>, the transcripts, the language, the response and \<open>permissionDenied\<close>.
\<close>

theorem mic_click_while_processing_is_noop:
  assumes "micState s = processing"
  shows "step ClickMic s = s
       \<and> (let s' = handleMicClick s
          in captures s' = captures s \<and> permissionRequests s' = permissionRequests s
             \<and> micState s' = micState s \<and> interimTranscript s' = interimTranscript s
             \<and> finalTranscript s' = finalTranscript s
             \<and> selectedLanguage s' = selectedLanguage s
             \<and> voiceResponse s' = voiceResponse s
             \<and> permissionDenied s' = permissionDenied s
             \<and> fetches s' = fetches s \<and> timers s' = timers s \<and> speaking s' = speaking s)"
  using assms by (simp add: micButton_disabled_def handleMicClick_def)

theorem mic_click_while_processing_is_noop_witness:
  "step ClickMic processingSession = processingSession
   \<and> captures (handleMicClick processingSession) = captures processingSession
   \<and> permissionRequests (handleMicClick processingSession) = []"
  using mic_click_while_processing_is_noop [of processingSession]
  by (simp add: Let_def processingSession_eq del: step.simps)

subsection \<open>Recognition instances across renders\<close>

lemma updateCapture_captures [simp]:
  "captures (updateCapture h f s) = (captures s)[h := f (captures s ! h)]"
  by (simp add: updateCapture_def list_update_beyond)

lemma recognition_cleanup_captures:
  "captures (recognition_cleanup s) =
     (if speechRecognitionSupported s then
        (case recognitionRef s of
           None \<Rightarrow> captures s
         | Some h \<Rightarrow> (captures s)[h := stopInstance (captures s ! h)])
      else captures s)"
  by (simp add: recognition_cleanup_def recognition_stop_def split: option.splits)

lemma recognition_effect_state:
  "captures (recognition_effect l s) =
     (if speechRecognitionSupported s
      then captures s @ [\<lparr>rec_lang = l, rec_status = Inactive, rec_tag = l\<rparr>]
      else captures s)"
  "recognitionRef (recognition_effect l s) =
     (if speechRecognitionSupported s then Some (length (captures s)) else recognitionRef s)"
  by (simp_all add: recognition_effect_def)

lemma length_captures_cleanup [simp]:
  "length (captures (recognition_cleanup s)) = length (captures s)"
  by (simp add: recognition_cleanup_captures split: option.splits)

lemma run_effects_captures:
  "captures (run_effects p s) =
     (if mounted s \<and> selectedLanguage p \<noteq> selectedLanguage s
      then captures (recognition_effect (selectedLanguage s) (recognition_cleanup s))
      else captures s)"
  "recognitionRef (run_effects p s) =
     (if mounted s \<and> selectedLanguage p \<noteq> selectedLanguage s
      then recognitionRef (recognition_effect (selectedLanguage s) (recognition_cleanup s))
      else recognitionRef s)"
  by (simp_all add: run_effects_def Let_def recognition_effect_state)

lemma turn_captures:
  "captures (turn f s) = captures (run_effects s (f s))"
  "recognitionRef (turn f s) = recognitionRef (run_effects s (f s))"
  by (simp_all add: turn_def Let_def run_effects_captures)

subsection \<open>Result events\<close>

lemma captureStatus_Some:
  "captureStatus h s = Some st \<longleftrightarrow> h < length (captures s) \<and> rec_status (captures s ! h) = st"
  by (simp add: captureStatus_def)

lemma run_append: "run (xs @ ys) s = run ys (run xs s)"
  by (induction xs arbitrary: s) simp_all

lemma truthy_trim: "truthy (trim t) \<Longrightarrow> truthy t"
  by (cases t) (simp_all add: truthy_def)

text \<open>A result event without final text, delivered to a listening session.\<close>

lemma interim_event_step:
  assumes "mounted s" and "captureStatus h s = Some Capturing"
    and "\<not> truthy (finalText ev)"
  shows "mounted (step (RecResult h ev) s)"
    and "captureStatus h (step (RecResult h ev) s) = Some Capturing"
    and "micState (step (RecResult h ev) s) = micState s"
    and "finalTranscript (step (RecResult h ev) s) = finalTranscript s"
    and "fetches (step (RecResult h ev) s) = fetches s"
    and "selectedLanguage (step (RecResult h ev) s) = selectedLanguage s"
    and "interimTranscript (step (RecResult h ev) s) = interimText ev"
  using assms
  by (simp_all add: turn_state turn_captures run_effects_captures recognition_onresult_state
        captureStatus_Some)

lemma final_event_step:
  assumes "mounted s" and "captureStatus h s = Some Capturing \<or> captureStatus h s = Some Stopping"
    and "truthy (trim (finalText ev))" and "\<not> truthy (trim (finalTranscript s))"
  shows "micState (step (RecResult h ev) s) = processing"
    and "interimTranscript (step (RecResult h ev) s) = []"
    and "finalTranscript (step (RecResult h ev) s) = []"
    and "fetches (step (RecResult h ev) s) =
           fetches s @ [\<lparr>call_query = finalText ev, call_language = selectedLanguage s\<rparr>]"
    and "captureStatus h (step (RecResult h ev) s) = Some Stopping"
proof -
  have ne: "finalTranscript s \<noteq> finalText ev"
    using assms(3,4) by auto
  have t: "truthy (finalText ev)"
    using assms(3) by (rule truthy_trim)
  show "micState (step (RecResult h ev) s) = processing"
    and "interimTranscript (step (RecResult h ev) s) = []"
    and "finalTranscript (step (RecResult h ev) s) = []"
    and "fetches (step (RecResult h ev) s) =
           fetches s @ [\<lparr>call_query = finalText ev, call_language = selectedLanguage s\<rparr>]"
    using assms ne t
    by (auto simp add: turn_state recognition_onresult_state captureStatus_Some)
  show "captureStatus h (step (RecResult h ev) s) = Some Stopping"
    using assms(1,2) t
    by (auto simp add: turn_captures run_effects_captures recognition_onresult_state
        captureStatus_Some recognition_stop_def stopInstance_def)
qed

lemma interim_events_run:
  assumes "mounted s" and "captureStatus h s = Some Capturing"
    and "\<forall>ev\<in>set ievs. \<not> truthy (finalText ev)"
  shows "mounted (run (map (RecResult h) ievs) s)
       \<and> captureStatus h (run (map (RecResult h) ievs) s) = Some Capturing
       \<and> micState (run (map (RecResult h) ievs) s) = micState s
       \<and> finalTranscript (run (map (RecResult h) ievs) s) = finalTranscript s
       \<and> fetches (run (map (RecResult h) ievs) s) = fetches s
       \<and> selectedLanguage (run (map (RecResult h) ievs) s) = selectedLanguage s"
  using assms
proof (induction ievs arbitrary: s)
  case Nil
  then show ?case by simp
next
  case (Cons ev evs)
  have n: "\<not> truthy (finalText ev)" and r: "\<forall>e\<in>set evs. \<not> truthy (finalText e)"
    using Cons.prems(3) by simp_all
  note st = interim_event_step [OF Cons.prems(1,2) n]
  show ?case
    using Cons.IH [OF st(1) st(2) r] st by (simp del: step.simps)
qed

text \<open>
  C2, as the code has it. In a listening session with nothing waiting in the final
  transcript, result events that carry no final text leave \<open>micState\<close> at \<open>listening\<close>
  and dispatch nothing; the result event whose final text has a character that is not
  white space then moves \<open>micState\<close> to \<open>processing\<close>, dispatches exactly one query (the
  final text, in the selected language), and at the end of that same turn both the
  interim and the final transcript are empty.
\<close>

theorem final_result_dispatches_once:
  assumes "mounted s" and "micState s = listening" and "captureStatus h s = Some Capturing"
    and "\<not> truthy (trim (finalTranscript s))"
    and "\<forall>ev\<in>set ievs. \<not> truthy (finalText ev)"
    and "truthy (trim (finalText fev))"
  shows "(\<forall>k\<le>length ievs.
            micState (run (map (RecResult h) (take k ievs)) s) = listening
          \<and> fetches (run (map (RecResult h) (take k ievs)) s) = fetches s)
       \<and> (let s' = run (map (RecResult h) ievs @ [RecResult h fev]) s
          in micState s' = processing \<and> interimTranscript s' = [] \<and> finalTranscript s' = []
             \<and> fetches s' =
                 fetches s @ [\<lparr>call_query = finalText fev, call_language = selectedLanguage s\<rparr>])"
proof (intro conjI allI impI)
  fix k
  have "\<forall>ev\<in>set (take k ievs). \<not> truthy (finalText ev)"
    using assms(5) by (meson in_set_takeD)
  from interim_events_run [OF assms(1,3) this]
  show "micState (run (map (RecResult h) (take k ievs)) s) = listening"
    and "fetches (run (map (RecResult h) (take k ievs)) s) = fetches s"
    using assms(2) by simp_all
next
  let ?t = "run (map (RecResult h) ievs) s"
  note i = interim_events_run [OF assms(1,3,5)]
  have b: "\<not> truthy (trim (finalTranscript ?t))"
    using i assms(4) by simp
  have c: "captureStatus h ?t = Some Capturing \<or> captureStatus h ?t = Some Stopping"
    using i by simp
  have m: "mounted ?t"
    using i by simp
  note f = final_event_step [OF m c assms(6) b]
  show "let s' = run (map (RecResult h) ievs @ [RecResult h fev]) s
     in micState s' = processing \<and> interimTranscript s' = [] \<and> finalTranscript s' = []
        \<and> fetches s' =
            fetches s @ [\<lparr>call_query = finalText fev, call_language = selectedLanguage s\<rparr>]"
    using f i by (simp add: run_append Let_def del: step.simps)
qed

lemma listening_facts:
  "mounted listeningSession" "micState listeningSession = listening"
  "captureStatus 0 listeningSession = Some Capturing"
  "\<not> truthy (trim (finalTranscript listeningSession))"
  by (simp_all add: listeningSession_eq captureStatus_Some)

theorem final_result_dispatches_once_witness:
  "(let s' = run (map (RecResult 0) [interimResult (str ''hi''), interimResult (str ''hi there'')]
                  @ [RecResult 0 (finalResult (str ''hi there''))]) listeningSession
    in micState s' = processing \<and> interimTranscript s' = [] \<and> finalTranscript s' = []
       \<and> fetches s' = [\<lparr>call_query = str ''hi there'', call_language = en_US\<rparr>])"
proof -
  have i: "\<forall>ev\<in>set [interimResult (str ''hi''), interimResult (str ''hi there'')].
             \<not> truthy (finalText ev)"
    by (simp add: finalText_def interimResult_def)
  have f: "finalText (finalResult (str ''hi there'')) = str ''hi there''"
    by (simp add: finalText_def finalResult_def)
  have t: "truthy (trim (finalText (finalResult (str ''hi there''))))"
    unfolding f by (simp add: trim_def str_def isWhiteSpace_def truthy_def)
  show ?thesis
    using final_result_dispatches_once [OF listening_facts i t]
    by (simp add: f listeningSession_eq Let_def del: step.simps run.simps)
qed

text \<open>
  The claim does not hold for every final result: a final text of white space only is
  stored in the final transcript, the effect declines to dispatch it, and so
  \<open>micState\<close> stays \<open>listening\<close> and the final transcript stays non-empty after the
  turn, and still after the capture's end event.
\<close>

theorem whitespace_final_result_counterexample:
  "(let s = run [RecResult 0 (interimResult (str ''hi'')), RecResult 0 (finalResult (str '' ''))]
              listeningSession
    in micState s = listening \<and> finalTranscript s = str '' '' \<and> fetches s = []
       \<and> finalTranscript (step (RecEnd 0) s) = str '' '')"
  by (simp add: listeningSession_eq interimResult_def finalResult_def setter_defs browser_defs
        effect_defs handler_defs Let_def trim_def isWhiteSpace_def truthy_def str_def)

subsection \<open>The silence timeout\<close>

lemma silence_cleanup_timers:
  "timers (silence_cleanup s) = filter (\<lambda>x. Some (timer_id x) \<noteq> timeoutRef s) (timers s)"
  by (auto simp add: silence_cleanup_def clearTimeout_def split: option.splits)

lemma silence_effect_state:
  "timers (silence_effect m t s) =
     filter (\<lambda>x. Some (timer_id x) \<noteq> timeoutRef s) (timers s) @
     (if m = listening \<and> \<not> truthy t
      then [\<lparr>timer_id = nextTimer s, timer_due = now s + 3000, timer_micState = m\<rparr>] else [])"
  "timeoutRef (silence_effect m t s) =
     (if m = listening \<and> \<not> truthy t then Some (nextTimer s) else None)"
  "nextTimer (silence_effect m t s) =
     (if m = listening \<and> \<not> truthy t then Suc (nextTimer s) else nextTimer s)"
  by (auto simp add: silence_effect_def clearTimeout_def setTimeout_def Let_def
        split: option.splits)

lemma run_effects_timers:
  "timers (run_effects p s) =
     (if mounted s \<and> (micState p \<noteq> micState s \<or> interimTranscript p \<noteq> interimTranscript s)
      then filter (\<lambda>x. Some (timer_id x) \<noteq> timeoutRef s) (timers s) @
           (if micState s = listening \<and> \<not> truthy (interimTranscript s)
            then [\<lparr>timer_id = nextTimer s, timer_due = now s + 3000,
                   timer_micState = micState s\<rparr>]
            else [])
      else timers s)"
  "timeoutRef (run_effects p s) =
     (if mounted s \<and> (micState p \<noteq> micState s \<or> interimTranscript p \<noteq> interimTranscript s)
      then (if micState s = listening \<and> \<not> truthy (interimTranscript s)
            then Some (nextTimer s) else None)
      else timeoutRef s)"
  "nextTimer (run_effects p s) =
     (if mounted s \<and> (micState p \<noteq> micState s \<or> interimTranscript p \<noteq> interimTranscript s)
      then (if micState s = listening \<and> \<not> truthy (interimTranscript s)
            then Suc (nextTimer s) else nextTimer s)
      else nextTimer s)"
  by (simp_all add: run_effects_def Let_def silence_effect_state silence_cleanup_timers)

text \<open>When a turn dispatches no query its second render runs no effect.\<close>

lemma run_effects_noop:
  assumes "selectedLanguage p = selectedLanguage s" and "finalTranscript p = finalTranscript s"
    and "micState p = micState s" and "interimTranscript p = interimTranscript s"
  shows "run_effects p s = s"
  using assms by (simp add: run_effects_def)

lemma turn_no_dispatch:
  assumes "finalTranscript (f s) = finalTranscript s \<or> \<not> truthy (trim (finalTranscript (f s)))"
  shows "turn f s = run_effects s (f s)"
proof -
  let ?s1 = "f s" and ?s2 = "run_effects s (f s)"
  have "micState ?s2 = micState ?s1" "finalTranscript ?s2 = finalTranscript ?s1"
    using assms by (auto simp add: run_effects_state)
  then have "run_effects ?s1 ?s2 = ?s2"
    by (intro run_effects_noop) simp_all
  then show ?thesis
    by (simp add: turn_def Let_def)
qed

lemma fold_silence_timeout_frame [simp]:
  "timers (fold silence_timeout xs s) = timers s"
  "timeoutRef (fold silence_timeout xs s) = timeoutRef s"
  "recognitionRef (fold silence_timeout xs s) = recognitionRef s"
  "micState (fold silence_timeout xs s) = micState s"
  "interimTranscript (fold silence_timeout xs s) = interimTranscript s"
  "finalTranscript (fold silence_timeout xs s) = finalTranscript s"
  "selectedLanguage (fold silence_timeout xs s) = selectedLanguage s"
  "mounted (fold silence_timeout xs s) = mounted s"
  "permissionDenied (fold silence_timeout xs s) = permissionDenied s"
  "permissionRequests (fold silence_timeout xs s) = permissionRequests s"
  "speechRecognitionSupported (fold silence_timeout xs s) = speechRecognitionSupported s"
  "length (captures (fold silence_timeout xs s)) = length (captures s)"
  by (induction xs arbitrary: s; simp add: silence_timeout_def recognition_stop_def
        split: option.splits)+

lemma elapse_state:
  "timers (elapse d s) = filter (\<lambda>x. \<not> timer_due x \<le> now s + d) (timers s)"
  "timeoutRef (elapse d s) = timeoutRef s"
  "recognitionRef (elapse d s) = recognitionRef s"
  "micState (elapse d s) = micState s"
  "interimTranscript (elapse d s) = interimTranscript s"
  "finalTranscript (elapse d s) = finalTranscript s"
  "selectedLanguage (elapse d s) = selectedLanguage s"
  "mounted (elapse d s) = mounted s"
  "permissionDenied (elapse d s) = permissionDenied s"
  "permissionRequests (elapse d s) = permissionRequests s"
  "speechRecognitionSupported (elapse d s) = speechRecognitionSupported s"
  "length (captures (elapse d s)) = length (captures s)"
  by (simp_all add: elapse_def Let_def)

lemma step_Elapse: "step (Elapse d) s = elapse d s"
proof -
  have "turn (elapse d) s = run_effects s (elapse d s)"
    by (rule turn_no_dispatch) (simp add: elapse_state)
  also have "\<dots> = elapse d s"
    by (intro run_effects_noop) (simp_all add: elapse_state)
  finally show ?thesis by simp
qed

text \<open>A final transcript that is not blank never survives the turn that stored it.\<close>

lemma final_transcript_consumed:
  assumes "\<not> truthy (trim (finalTranscript s))"
  shows "\<not> truthy (trim (finalTranscript (step e s)))"
proof (cases e)
  case (RecResult h ev)
  then show ?thesis
    using assms by (auto simp add: turn_state recognition_onresult_state)
next
  case (ClickAction i)
  then show ?thesis
    using assms by (simp add: turn_state split: option.splits)
next
  case (Elapse d)
  then show ?thesis
    using assms by (simp add: step_Elapse elapse_state del: step.simps)
qed (use assms in \<open>simp_all add: turn_state\<close>)

lemma timers_ok_iff:
  "timers_ok s \<longleftrightarrow>
     length (timers s) \<le> 1 \<and> (\<forall>t\<in>set (timers s). timeoutRef s = Some (timer_id t))"
  by (simp add: timers_ok_def list_all_iff)

lemma timers_ok_filter:
  "timers_ok s \<Longrightarrow> filter (\<lambda>x. Some (timer_id x) \<noteq> timeoutRef s) (timers s) = []"
  by (auto simp add: timers_ok_iff filter_empty_conv)

subsection \<open>Switching the language\<close>

lemma turn_plain:
  assumes "selectedLanguage (f s) = selectedLanguage s"
    and "finalTranscript (f s) = finalTranscript s"
    and "micState (f s) = micState s" and "interimTranscript (f s) = interimTranscript s"
  shows "turn f s = f s"
proof -
  have "run_effects s (f s) = f s"
    using assms by (intro run_effects_noop) simp_all
  then show ?thesis
    by (simp add: turn_def Let_def run_effects_same)
qed

lemma select_language_captures:
  assumes "mounted s" and "speechRecognitionSupported s" and "recognitionRef s = Some h"
    and "l \<noteq> selectedLanguage s"
  shows "captures (step (SelectLanguage l) s) =
           (captures s)[h := stopInstance (captures s ! h)] @
           [\<lparr>rec_lang = l, rec_status = Inactive, rec_tag = l\<rparr>]"
    and "recognitionRef (step (SelectLanguage l) s) = Some (length (captures s))"
  using assms
  by (auto simp add: turn_captures run_effects_captures recognition_effect_state
      recognition_cleanup_captures setSelectedLanguage_def)

lemma click_mic_idle:
  assumes "mounted s" and "speechRecognitionSupported s" and "micState s = idle"
    and "\<not> permissionDenied s"
  shows "step ClickMic s = s\<lparr>permissionRequests := permissionRequests s @ [selectedLanguage s]\<rparr>"
proof -
  have h: "handleMicClick s = s\<lparr>permissionRequests := permissionRequests s @ [selectedLanguage s]\<rparr>"
    using assms by (simp add: handleMicClick_def)
  have "turn handleMicClick s = handleMicClick s"
    by (rule turn_plain) (simp_all add: h)
  then show ?thesis
    using assms h by (simp add: micButton_disabled_def)
qed

lemma permission_granted:
  assumes "i < length (permissionRequests s)" and "recognitionRef s = Some n"
    and "n < length (captures s)" and "rec_status (captures s ! n) = Inactive"
  shows "captures (step (PermissionSettled i True) s) ! n =
           \<lparr>rec_lang = permissionRequests s ! i, rec_status = Starting,
            rec_tag = permissionRequests s ! i\<rparr>"
proof -
  let ?f = "handleMicClick_resumed i True"
  have "turn ?f s = ?f s"
    by (rule turn_plain) simp_all
  then show ?thesis
    using assms
    by (simp add: handleMicClick_resumed_def Let_def recognition_start_def
        recognition_setLang_def startInstance_def)
qed

text \<open>
  C6, as the code has it. Switching to another language leaves \<open>micState\<close> as it is in
  that turn and never changes the language tag a started capture runs with; but the
  cleanup of the recognition effect asks the instance in use to stop, and the effect
  installs a fresh, inactive instance with the new language as the one in use. A
  capture is started with the language that was selected when its microphone click was
  handled: a permission request that is pending at the switch starts, when granted, the
  fresh instance with the language of its click, the one selected before the switch.
  When the session is idle and permission was not denied, a click after the switch
  followed by a grant starts the fresh instance with the new language, and a click
  before the switch whose grant comes after the switch starts it with the old one.
\<close>

theorem language_switch_replaces_capture:
  assumes "mounted s" and "speechRecognitionSupported s" and "recognitionRef s = Some h"
    and "h < length (captures s)" and "l \<noteq> selectedLanguage s"
  shows "(let s' = step (SelectLanguage l) s; n = length (captures s)
          in micState s' = micState s \<and> selectedLanguage s' = l
             \<and> captures s' ! h = stopInstance (captures s ! h)
             \<and> rec_tag (captures s' ! h) = rec_tag (captures s ! h)
             \<and> recognitionRef s' = Some n
             \<and> captures s' ! n = \<lparr>rec_lang = l, rec_status = Inactive, rec_tag = l\<rparr>
             \<and> (j < length (permissionRequests s) \<longrightarrow>
                  (let s2 = step (PermissionSettled j True) s'
                   in selectedLanguage s2 = l
                      \<and> captures s2 ! n =
                          \<lparr>rec_lang = permissionRequests s ! j, rec_status = Starting,
                           rec_tag = permissionRequests s ! j\<rparr>))
             \<and> (micState s = idle \<and> \<not> permissionDenied s \<longrightarrow>
                  (let k = length (permissionRequests s);
                       s2 = run [ClickMic, PermissionSettled k True] s';
                       s3 = run [ClickMic, SelectLanguage l, PermissionSettled k True] s
                   in rec_status (captures s2 ! n) = Starting \<and> rec_tag (captures s2 ! n) = l
                      \<and> selectedLanguage s3 = l \<and> recognitionRef s3 = Some n
                      \<and> captures s3 ! n =
                          \<lparr>rec_lang = selectedLanguage s, rec_status = Starting,
                           rec_tag = selectedLanguage s\<rparr>)))"
proof -
  let ?s' = "step (SelectLanguage l) s" and ?n = "length (captures s)"
  let ?k = "length (permissionRequests s)"
  note c = select_language_captures [OF assms(1,2,3,5)]
  have m: "micState ?s' = micState s" and sl: "selectedLanguage ?s' = l"
    and mo: "mounted ?s'" and su: "speechRecognitionSupported ?s'"
    and pd: "permissionDenied ?s' = permissionDenied s"
    and pr: "permissionRequests ?s' = permissionRequests s"
    using assms(1,2) by (simp_all add: turn_state setSelectedLanguage_def)
  have old: "captures ?s' ! h = stopInstance (captures s ! h)"
    using assms(4) by (simp add: c(1) nth_append del: step.simps)
  have new: "captures ?s' ! ?n = \<lparr>rec_lang = l, rec_status = Inactive, rec_tag = l\<rparr>"
    by (simp add: c(1) nth_append del: step.simps)
  have tag: "rec_tag (stopInstance (captures s ! h)) = rec_tag (captures s ! h)"
    by (simp add: stopInstance_def)
  have sel: "selectedLanguage (step (PermissionSettled i True) x) = selectedLanguage x" for i x
    by simp
  have ref: "recognitionRef (step (PermissionSettled i True) x) = recognitionRef x" for i x
  proof -
    have "turn (handleMicClick_resumed i True) x = handleMicClick_resumed i True x"
      by (rule turn_plain) simp_all
    then show ?thesis
      by simp
  qed
  have stale: "selectedLanguage (step (PermissionSettled j True) ?s') = l
      \<and> captures (step (PermissionSettled j True) ?s') ! ?n =
          \<lparr>rec_lang = permissionRequests s ! j, rec_status = Starting,
           rec_tag = permissionRequests s ! j\<rparr>"
    if "j < length (permissionRequests s)"
    using permission_granted [of j ?s' ?n] that
    by (simp add: sel sl pr c nth_append del: step.simps)
  have next_start: "rec_status (captures (run [ClickMic, PermissionSettled ?k True] ?s') ! ?n) =
        Starting
      \<and> rec_tag (captures (run [ClickMic, PermissionSettled ?k True] ?s') ! ?n) = l"
    if "micState s = idle \<and> \<not> permissionDenied s"
  proof -
    let ?s1 = "step ClickMic ?s'"
    have s1: "?s1 = ?s'\<lparr>permissionRequests := permissionRequests s @ [l]\<rparr>"
      using click_mic_idle [OF mo su] that m pd pr sl by simp
    have g: "captures (step (PermissionSettled ?k True) ?s1) ! ?n =
        \<lparr>rec_lang = l, rec_status = Starting, rec_tag = l\<rparr>"
      using permission_granted [of ?k ?s1 ?n]
      by (simp add: s1 c nth_append del: step.simps)
    show ?thesis
      using g by (simp del: step.simps)
  qed
  have prompt_open: "selectedLanguage (run [ClickMic, SelectLanguage l, PermissionSettled ?k True] s) = l
      \<and> recognitionRef (run [ClickMic, SelectLanguage l, PermissionSettled ?k True] s) = Some ?n
      \<and> captures (run [ClickMic, SelectLanguage l, PermissionSettled ?k True] s) ! ?n =
          \<lparr>rec_lang = selectedLanguage s, rec_status = Starting,
           rec_tag = selectedLanguage s\<rparr>"
    if "micState s = idle \<and> \<not> permissionDenied s"
  proof -
    let ?s1 = "step ClickMic s"
    have s1: "?s1 = s\<lparr>permissionRequests := permissionRequests s @ [selectedLanguage s]\<rparr>"
      using click_mic_idle [OF assms(1,2)] that by simp
    have a1: "mounted ?s1" "speechRecognitionSupported ?s1" "recognitionRef ?s1 = Some h"
      "l \<noteq> selectedLanguage ?s1"
      using assms(1,2,3,5) unfolding s1 by simp_all
    let ?s2 = "step (SelectLanguage l) ?s1"
    note c1 = select_language_captures [OF a1]
    have p2: "permissionRequests ?s2 = permissionRequests s @ [selectedLanguage s]"
      and l2: "selectedLanguage ?s2 = l"
      using assms(1) unfolding s1 by (simp_all add: setSelectedLanguage_def)
    have n2: "recognitionRef ?s2 = Some ?n"
      using c1(2) unfolding s1 by (simp del: step.simps)
    have f2: "?n < length (captures ?s2)" "rec_status (captures ?s2 ! ?n) = Inactive"
      unfolding c1(1) unfolding s1 by (simp_all add: nth_append)
    have k2: "?k < length (permissionRequests ?s2)" "permissionRequests ?s2 ! ?k = selectedLanguage s"
      unfolding p2 by simp_all
    have g: "captures (step (PermissionSettled ?k True) ?s2) ! ?n =
        \<lparr>rec_lang = selectedLanguage s, rec_status = Starting, rec_tag = selectedLanguage s\<rparr>"
      using permission_granted [OF k2(1) n2 f2] unfolding k2(2) .
    have r: "run [ClickMic, SelectLanguage l, PermissionSettled ?k True] s =
        step (PermissionSettled ?k True) ?s2"
      by (simp del: step.simps)
    show ?thesis
      unfolding r sel ref using g l2 n2 by blast
  qed
  show ?thesis
    unfolding Let_def using m sl old new tag c(2) stale next_start prompt_open by simp
qed

theorem language_switch_replaces_capture_witness:
  "(let s' = step (SelectLanguage hi_IN) freshSession
    in micState s' = idle \<and> selectedLanguage s' = hi_IN \<and> recognitionRef s' = Some 1
       \<and> captures s' ! 1 = \<lparr>rec_lang = hi_IN, rec_status = Inactive, rec_tag = hi_IN\<rparr>
       \<and> rec_tag (captures (run [ClickMic, PermissionSettled 0 True] s') ! 1) = hi_IN
       \<and> rec_status (captures (run [ClickMic, PermissionSettled 0 True] s') ! 1) = Starting)
   \<and> captures (run [ClickMic, SelectLanguage hi_IN, PermissionSettled 0 True] freshSession) ! 1 =
       \<lparr>rec_lang = en_US, rec_status = Starting, rec_tag = en_US\<rparr>
   \<and> captures (step (PermissionSettled 0 True) (step (SelectLanguage hi_IN) promptSession)) ! 1 =
       \<lparr>rec_lang = en_US, rec_status = Starting, rec_tag = en_US\<rparr>"
proof -
  have a: "mounted freshSession" "speechRecognitionSupported freshSession"
    "recognitionRef freshSession = Some 0" "0 < length (captures freshSession)"
    "hi_IN \<noteq> selectedLanguage freshSession"
    by (simp_all add: freshSession_eq)
  have b: "micState freshSession = idle" "\<not> permissionDenied freshSession"
    "length (captures freshSession) = 1" "permissionRequests freshSession = []"
    "selectedLanguage freshSession = en_US"
    by (simp_all add: freshSession_eq)
  have p: "mounted promptSession" "speechRecognitionSupported promptSession"
    "recognitionRef promptSession = Some 0" "0 < length (captures promptSession)"
    "hi_IN \<noteq> selectedLanguage promptSession"
    by (simp_all add: promptSession_eq freshSession_eq)
  have q: "length (captures promptSession) = 1" "0 < length (permissionRequests promptSession)"
    "permissionRequests promptSession ! 0 = en_US"
    by (simp_all add: promptSession_eq freshSession_eq)
  show ?thesis
    using language_switch_replaces_capture [OF a, of 0]
      language_switch_replaces_capture [OF p, of 0] b q
    by (simp add: Let_def del: step.simps run.simps)
qed

text \<open>
  The claim says that an already active capture is not altered, and that the new
  language takes effect on the next capture start. Switching the language while
  listening asks the active capture to stop; \<open>micState\<close> is unchanged in that turn and
  becomes \<open>idle\<close> when the capture's end event follows. And with the permission prompt
  of a microphone click open, a switch to Hindi followed by the grant starts the next
  capture with the English tag while Hindi is selected.
\<close>

theorem language_switch_counterexample:
  "captureStatus 0 listeningSession = Some Capturing
   \<and> captureStatus 0 (step (SelectLanguage hi_IN) listeningSession) = Some Stopping
   \<and> micState (step (SelectLanguage hi_IN) listeningSession) = listening
   \<and> micState (run [SelectLanguage hi_IN, RecEnd 0] listeningSession) = idle
   \<and> selectedLanguage (run [SelectLanguage hi_IN, PermissionSettled 0 True] promptSession) = hi_IN
   \<and> captures (run [SelectLanguage hi_IN, PermissionSettled 0 True] promptSession) ! 1 =
       \<lparr>rec_lang = en_US, rec_status = Starting, rec_tag = en_US\<rparr>"
proof -
  have a: "captureStatus 0 listeningSession = Some Capturing
      \<and> captureStatus 0 (step (SelectLanguage hi_IN) listeningSession) = Some Stopping
      \<and> micState (step (SelectLanguage hi_IN) listeningSession) = listening
      \<and> micState (run [SelectLanguage hi_IN, RecEnd 0] listeningSession) = idle"
    by (simp add: listeningSession_eq setter_defs browser_defs effect_defs
        handler_defs Let_def truthy_def)
  have b: "selectedLanguage (run [SelectLanguage hi_IN, PermissionSettled 0 True] promptSession) =
        hi_IN
      \<and> captures (run [SelectLanguage hi_IN, PermissionSettled 0 True] promptSession) ! 1 =
        \<lparr>rec_lang = en_US, rec_status = Starting, rec_tag = en_US\<rparr>"
    by (simp add: promptSession_eq freshSession_eq setter_defs browser_defs effect_defs
        handler_defs Let_def truthy_def)
  show ?thesis
    using a b by blast
qed

subsection \<open>Leaving the view\<close>

lemma unmount_state:
  "mounted (unmount s) = False"
  "timers (unmount s) = filter (\<lambda>x. Some (timer_id x) \<noteq> timeoutRef s) (timers s)"
  "captures (unmount s) = captures (recognition_cleanup s)"
  by (simp_all add: unmount_def silence_cleanup_timers)

lemma leaveView_state:
  "mounted (leaveView s) = False"
  "timers (leaveView s) = filter (\<lambda>x. Some (timer_id x) \<noteq> timeoutRef s) (timers s)"
  "captures (leaveView s) = captures (recognition_cleanup s)"
  "speaking (leaveView s) = (if speechSynthesisSupported s then None else speaking s)"
  by (simp_all add: leaveView_def speechCleanup_def unmount_state)


subsection \<open>One timeout, one active capture\<close>

lemma timers_ok_filter_any:
  assumes "timers_ok s" and "timers s' = filter P (timers s)"
    and "timeoutRef s' = timeoutRef s"
  shows "timers_ok s'"
proof -
  have "length (timers s') \<le> length (timers s)"
    using assms(2) by simp
  moreover have "length (timers s) \<le> 1"
    using assms(1) by (simp add: timers_ok_iff)
  ultimately have "length (timers s') \<le> 1"
    by (rule le_trans)
  moreover have "\<forall>t\<in>set (timers s'). timeoutRef s' = Some (timer_id t)"
    using assms by (simp add: timers_ok_iff)
  ultimately show ?thesis
    by (simp add: timers_ok_iff)
qed

lemma run_effects_timers_rearmed:
  assumes "timers_ok s" and c: "mounted s \<and> (micState p \<noteq> micState s \<or> interimTranscript p \<noteq> interimTranscript s)"
  shows "timers (run_effects p s) =
      (if micState s = listening \<and> \<not> truthy (interimTranscript s)
       then [\<lparr>timer_id = nextTimer s, timer_due = now s + 3000,
              timer_micState = micState s\<rparr>]
       else [])"
proof -
  have "timers (run_effects p s) = filter (\<lambda>x. Some (timer_id x) \<noteq> timeoutRef s) (timers s) @
           (if micState s = listening \<and> \<not> truthy (interimTranscript s)
            then [\<lparr>timer_id = nextTimer s, timer_due = now s + 3000,
                   timer_micState = micState s\<rparr>]
            else [])"
    by (subst run_effects_timers(1)) (rule if_P [OF c])
  then show ?thesis
    by (simp only: timers_ok_filter [OF assms(1)] append_Nil)
qed

lemma run_effects_timers_kept:
  assumes c: "\<not> (mounted s \<and> (micState p \<noteq> micState s \<or> interimTranscript p \<noteq> interimTranscript s))"
  shows "timers (run_effects p s) = timers s" "timeoutRef (run_effects p s) = timeoutRef s"
  by (subst run_effects_timers, rule if_not_P [OF c])+

lemma run_effects_timeoutRef_rearmed:
  assumes c: "mounted s \<and> (micState p \<noteq> micState s \<or> interimTranscript p \<noteq> interimTranscript s)"
  shows "timeoutRef (run_effects p s) =
      (if micState s = listening \<and> \<not> truthy (interimTranscript s)
       then Some (nextTimer s) else None)"
  by (subst run_effects_timers(2)) (rule if_P [OF c])


lemma timers_ok_run_effects:
  assumes "timers_ok s"
  shows "timers_ok (run_effects p s)"
proof (cases "mounted s \<and> (micState p \<noteq> micState s \<or> interimTranscript p \<noteq> interimTranscript s)")
  case True
  show ?thesis
    unfolding timers_ok_def run_effects_timers_rearmed [OF assms True]
      run_effects_timeoutRef_rearmed [OF True] by simp
next
  case False
  show ?thesis
    using assms unfolding timers_ok_def run_effects_timers_kept [OF False] .
qed

lemma timers_ok_turn:
  assumes "timers_ok (f s)"
  shows "timers_ok (turn f s)"
  using assms by (simp add: turn_def Let_def timers_ok_run_effects)

lemma timers_ok_elapse: "timers_ok s \<Longrightarrow> timers_ok (elapse d s)"
  by (erule timers_ok_filter_any) (simp_all add: elapse_state)

lemma timers_ok_leaveView: "timers_ok s \<Longrightarrow> timers_ok (leaveView s)"
  by (erule timers_ok_filter_any) (simp_all add: leaveView_state)

lemma captures_ok_iff:
  "captures_ok s \<longleftrightarrow>
     (\<forall>h<length (captures s). active (captures s ! h) \<longrightarrow> recognitionRef s = Some h)"
  by (auto simp add: captures_ok_def list_all_iff)

text \<open>
  Changing one instance keeps the invariant when the change activates nothing, or when
  the instance is the one in use.
\<close>

lemma captures_ok_update:
  assumes "captures_ok s"
    and "captures s' = (captures s)[h := f (captures s ! h)]"
    and "recognitionRef s' = recognitionRef s"
    and "active (f (captures s ! h)) \<Longrightarrow> active (captures s ! h) \<or> recognitionRef s = Some h"
  shows "captures_ok s'"
  unfolding captures_ok_iff
proof (intro allI impI)
  fix k
  assume k: "k < length (captures s')" and a: "active (captures s' ! k)"
  show "recognitionRef s' = Some k"
  proof (cases "k = h")
    case True
    then have "active (f (captures s ! h))"
      using k a assms(2) by simp
    then show ?thesis
      using assms(1,3,4) k True assms(2) by (auto simp add: captures_ok_iff)
  next
    case False
    then show ?thesis
      using assms(1,2,3) k a by (auto simp add: captures_ok_iff)
  qed
qed

lemma not_active_stopInstance [simp]: "\<not> active (stopInstance c)"
  by (simp add: active_def stopInstance_def)

lemma captures_ok_stop: "captures_ok s \<Longrightarrow> captures_ok (recognition_stop h s)"
  by (erule captures_ok_update [where h = h and f = stopInstance])
     (simp_all add: recognition_stop_def)

lemma captures_ok_setStatus:
  assumes "captures_ok s" and "active \<lparr>rec_lang = undefined, rec_status = st, rec_tag = undefined\<rparr>
     \<Longrightarrow> captureStatus h s = Some Starting"
  shows "captures_ok (setStatus h st s)"
proof (rule captures_ok_update [OF assms(1), where h = h])
  show "captures (setStatus h st s) =
      (captures s)[h := (\<lambda>c. c\<lparr>rec_status := st\<rparr>) (captures s ! h)]"
    by (simp add: setStatus_def)
  show "recognitionRef (setStatus h st s) = recognitionRef s"
    by simp
  assume "active ((captures s ! h)\<lparr>rec_status := st\<rparr>)"
  then have "captureStatus h s = Some Starting"
    using assms(2) by (simp add: active_def)
  then show "active (captures s ! h) \<or> recognitionRef s = Some h"
    by (simp add: captureStatus_Some active_def)
qed

lemma captures_ok_cleanup: "captures_ok s \<Longrightarrow> captures_ok (recognition_cleanup s)"
  by (simp add: recognition_cleanup_def captures_ok_stop split: option.splits)

lemma captures_ok_fold_timeout: "captures_ok s \<Longrightarrow> captures_ok (fold silence_timeout xs s)"
  by (induction xs arbitrary: s)
     (simp_all add: silence_timeout_def captures_ok_stop split: option.splits)

text \<open>After the cleanup no instance is active, so the fresh one can become the one in use.\<close>

lemma cleanup_none_active:
  assumes "captures_ok s" and "speechRecognitionSupported s"
    and "k < length (captures s)"
  shows "\<not> active (captures (recognition_cleanup s) ! k)"
proof (cases "recognitionRef s")
  case None
  then show ?thesis
    using assms by (auto simp add: recognition_cleanup_captures captures_ok_iff)
next
  case (Some h)
  then show ?thesis
    using assms
    by (cases "k = h") (auto simp add: recognition_cleanup_captures captures_ok_iff)
qed

lemma run_effects_captures_replaced:
  assumes "mounted s" and "selectedLanguage p \<noteq> selectedLanguage s"
    and "speechRecognitionSupported s"
  shows "captures (run_effects p s) =
           captures (recognition_cleanup s) @
           [\<lparr>rec_lang = selectedLanguage s, rec_status = Inactive,
             rec_tag = selectedLanguage s\<rparr>]"
    and "recognitionRef (run_effects p s) = Some (length (captures s))"
  using assms by (simp_all add: run_effects_captures recognition_effect_state)

lemma run_effects_captures_kept:
  assumes "\<not> (mounted s \<and> selectedLanguage p \<noteq> selectedLanguage s
            \<and> speechRecognitionSupported s)"
  shows "captures (run_effects p s) = captures s"
    and "recognitionRef (run_effects p s) = recognitionRef s"
proof -
  show "captures (run_effects p s) = captures s"
  proof (cases "speechRecognitionSupported s")
    case True
    then have "\<not> (mounted s \<and> selectedLanguage p \<noteq> selectedLanguage s)"
      using assms by simp
    then show ?thesis
      by (subst run_effects_captures(1)) (rule if_not_P)
  next
    case False
    then have "captures (recognition_effect (selectedLanguage s) (recognition_cleanup s)) =
        captures s"
      by (simp add: recognition_effect_def recognition_cleanup_def)
    then show ?thesis
      by (subst run_effects_captures(1)) simp
  qed
  show "recognitionRef (run_effects p s) = recognitionRef s"
  proof (cases "speechRecognitionSupported s")
    case True
    then have "\<not> (mounted s \<and> selectedLanguage p \<noteq> selectedLanguage s)"
      using assms by simp
    then show ?thesis
      by (subst run_effects_captures(2)) (rule if_not_P)
  next
    case False
    then have "recognitionRef (recognition_effect (selectedLanguage s) (recognition_cleanup s)) =
        recognitionRef s"
      by (simp add: recognition_effect_def recognition_cleanup_def)
    then show ?thesis
      by (subst run_effects_captures(2)) simp
  qed
qed

lemma captures_ok_run_effects:
  assumes "captures_ok s"
  shows "captures_ok (run_effects p s)"
proof (cases "mounted s \<and> selectedLanguage p \<noteq> selectedLanguage s
    \<and> speechRecognitionSupported s")
  case True
  then have m: "mounted s" and d: "selectedLanguage p \<noteq> selectedLanguage s"
    and su: "speechRecognitionSupported s"
    by simp_all
  note r = run_effects_captures_replaced [OF m d su]
  have "\<not> active (captures (run_effects p s) ! k)" if "k < length (captures (run_effects p s))" for k
  proof (cases "k < length (captures s)")
    case True
    have "captures (run_effects p s) ! k = captures (recognition_cleanup s) ! k"
      unfolding r(1) using True by (simp add: nth_append)
    then show ?thesis
      using cleanup_none_active [OF assms su True] by simp
  next
    case False
    then have "k = length (captures s)"
      using that unfolding r(1) by simp
    then have "captures (run_effects p s) ! k =
        \<lparr>rec_lang = selectedLanguage s, rec_status = Inactive, rec_tag = selectedLanguage s\<rparr>"
      unfolding r(1) by (simp add: nth_append)
    then show ?thesis
      by (simp add: active_def)
  qed
  then show ?thesis
    unfolding captures_ok_iff by blast
next
  case False
  show ?thesis
    using assms unfolding captures_ok_iff run_effects_captures_kept [OF False] .
qed

lemma captures_ok_turn:
  assumes "captures_ok (f s)"
  shows "captures_ok (turn f s)"
  using assms by (simp add: turn_def Let_def captures_ok_run_effects)

lemma timers_ok_keep:
  "timers_ok s \<Longrightarrow> timers s' = timers s \<Longrightarrow> timeoutRef s' = timeoutRef s \<Longrightarrow> timers_ok s'"
  by (simp add: timers_ok_def)

lemma captures_ok_keep:
  "captures_ok s \<Longrightarrow> captures s' = captures s \<Longrightarrow> recognitionRef s' = recognitionRef s \<Longrightarrow>
   captures_ok s'"
  by (simp add: captures_ok_iff)

lemma captures_ok_handleMicClick:
  assumes "captures_ok s"
  shows "captures_ok (handleMicClick s)"
proof (cases "speechRecognitionSupported s \<and> micState s = listening")
  case True
  then have "handleMicClick s =
      (case recognitionRef s of None \<Rightarrow> s | Some h \<Rightarrow> recognition_stop h s)"
    by (simp add: handleMicClick_def)
  then show ?thesis
    using assms by (cases "recognitionRef s") (simp_all add: captures_ok_stop)
next
  case False
  then have "captures (handleMicClick s) = captures s"
    by (simp add: handleMicClick_def)
  then show ?thesis
    by (intro captures_ok_keep [OF assms]) simp_all
qed

lemma captures_ok_resumed:
  assumes "captures_ok s"
  shows "captures_ok (handleMicClick_resumed i granted s)"
proof (cases "i < length (permissionRequests s) \<and> granted \<and> recognitionRef s \<noteq> None")
  case True
  then obtain h where h: "recognitionRef s = Some h"
    by auto
  let ?s1 = "s\<lparr>permissionRequests :=
      take i (permissionRequests s) @ drop (Suc i) (permissionRequests s)\<rparr>"
  let ?s2 = "recognition_setLang h (permissionRequests s ! i) ?s1"
  have e: "handleMicClick_resumed i granted s = recognition_start h ?s2"
    using True h by (simp add: handleMicClick_resumed_def Let_def)
  have ok1: "captures_ok ?s1"
    by (rule captures_ok_keep [OF assms]) simp_all
  have ok2: "captures_ok ?s2"
    by (rule captures_ok_update [OF ok1, where h = h and f = "\<lambda>c. c\<lparr>rec_lang := permissionRequests s ! i\<rparr>"])
       (simp_all add: recognition_setLang_def active_def)
  have "captures_ok (recognition_start h ?s2)"
    by (rule captures_ok_update [OF ok2, where h = h and f = startInstance])
       (simp_all add: recognition_start_def h)
  then show ?thesis
    by (simp only: e)
next
  case False
  have "captures (handleMicClick_resumed i granted s) = captures s"
    using False by (auto simp add: handleMicClick_resumed_def Let_def setter_defs)
  then show ?thesis
    by (intro captures_ok_keep [OF assms]) simp_all
qed

lemma captures_ok_onresult: "captures_ok s \<Longrightarrow> captures_ok (recognition_onresult h ev s)"
proof -
  assume ok: "captures_ok s"
  show ?thesis
  proof (cases "truthy (finalText ev)")
    case True
    have "captures_ok (recognition_stop h s)"
      using ok by (rule captures_ok_stop)
    then show ?thesis
      by (rule captures_ok_keep) (simp_all add: recognition_onresult_state True)
  next
    case False
    show ?thesis
      by (rule captures_ok_keep [OF ok]) (simp_all add: recognition_onresult_state False)
  qed
qed

lemma captures_ok_elapse: "captures_ok s \<Longrightarrow> captures_ok (elapse d s)"
proof -
  assume ok: "captures_ok s"
  let ?s1 = "s\<lparr>now := now s + d,
      timers := filter (\<lambda>x. \<not> timer_due x \<le> now s + d) (timers s)\<rparr>"
  have "captures_ok ?s1"
    by (rule captures_ok_keep [OF ok]) simp_all
  then show ?thesis
    by (simp add: elapse_def Let_def captures_ok_fold_timeout)
qed

lemma captures_ok_leaveView: "captures_ok s \<Longrightarrow> captures_ok (leaveView s)"
  by (rule captures_ok_keep [OF captures_ok_cleanup]) (simp_all add: leaveView_state)

text \<open>Every event keeps both invariants.\<close>

lemma timers_ok_turn_frame:
  "timers_ok s \<Longrightarrow> timers (f s) = timers s \<Longrightarrow> timeoutRef (f s) = timeoutRef s \<Longrightarrow>
   timers_ok (turn f s)"
  by (rule timers_ok_turn) (rule timers_ok_keep)

lemma captures_ok_turn_frame:
  "captures_ok s \<Longrightarrow> captures (f s) = captures s \<Longrightarrow> recognitionRef (f s) = recognitionRef s \<Longrightarrow>
   captures_ok (turn f s)"
  by (rule captures_ok_turn) (rule captures_ok_keep)

lemma timers_ok_step:
  assumes "timers_ok s"
  shows "timers_ok (step e s)"
proof (cases e)
  case (ClickAction i)
  then show ?thesis
    using assms by (simp add: timers_ok_turn_frame split: option.splits)
next
  case (Elapse d)
  then show ?thesis
    using assms by (simp add: step_Elapse timers_ok_elapse del: step.simps)
next
  case Unmount
  then show ?thesis
    using assms by (simp add: timers_ok_leaveView)
next
  case PlaybackEnds
  then show ?thesis
    using assms by (simp add: timers_ok_def)
qed (use assms in \<open>simp_all add: timers_ok_turn_frame\<close>)

lemma captures_ok_step:
  assumes "captures_ok s"
  shows "captures_ok (step e s)"
proof (cases e)
  case ClickMic
  then show ?thesis
    using assms by (simp add: captures_ok_turn captures_ok_handleMicClick)
next
  case (ClickAction i)
  then show ?thesis
    using assms by (simp add: captures_ok_turn_frame split: option.splits)
next
  case (PermissionSettled i g)
  then show ?thesis
    using assms by (simp add: captures_ok_turn captures_ok_resumed)
next
  case (RecStart h)
  have "captures_ok (recognition_onstart (setStatus h Capturing s))"
    if "captureStatus h s = Some Starting"
    by (rule captures_ok_keep [OF captures_ok_setStatus [OF assms]]) (simp_all add: that)
  then show ?thesis
    using RecStart assms by (simp add: captures_ok_turn)
next
  case (RecResult h ev)
  then show ?thesis
    using assms by (simp add: captures_ok_turn captures_ok_onresult)
next
  case (RecError h err)
  have "captures_ok (recognition_onerror err (setStatus h Stopping s))"
    by (rule captures_ok_keep [OF captures_ok_setStatus [OF assms]])
       (simp_all add: active_def)
  then show ?thesis
    using RecError assms by (simp add: captures_ok_turn)
next
  case (RecEnd h)
  have "captures_ok (recognition_onend (setStatus h Inactive s))"
    by (rule captures_ok_keep [OF captures_ok_setStatus [OF assms]])
       (simp_all add: active_def)
  then show ?thesis
    using RecEnd assms by (simp add: captures_ok_turn)
next
  case (Elapse d)
  then show ?thesis
    using assms by (simp add: step_Elapse captures_ok_elapse del: step.simps)
next
  case Unmount
  then show ?thesis
    using assms by (simp add: captures_ok_leaveView)
next
  case PlaybackEnds
  then show ?thesis
    using assms by (simp add: captures_ok_iff)
qed (use assms in \<open>simp_all add: captures_ok_turn_frame\<close>)

lemma ok_mount: "timers_ok (mount r y l)" "captures_ok (mount r y l)"
  by (simp_all add: mount_eq timers_ok_def captures_ok_def active_def)

lemma ok_run:
  assumes "timers_ok s" and "captures_ok s"
  shows "timers_ok (run evs s) \<and> captures_ok (run evs s)"
  using assms
  by (induction evs arbitrary: s) (simp_all add: timers_ok_step captures_ok_step del: step.simps)

lemma filter_at_most_one:
  "\<forall>i<length xs. P (xs ! i) \<longrightarrow> i = k \<Longrightarrow> length (filter P xs) \<le> 1"
proof (induction xs arbitrary: k)
  case Nil
  then show ?case by simp
next
  case (Cons x xs)
  show ?case
  proof (cases "P x")
    case True
    then have "k = 0"
      using Cons.prems by auto
    then have "\<not> P (xs ! i)" if "i < length xs" for i
      using Cons.prems that by auto
    then have "filter P xs = []"
      by (auto simp add: filter_empty_conv in_set_conv_nth)
    then show ?thesis
      using True by simp
  next
    case False
    have "\<forall>i<length xs. P (xs ! i) \<longrightarrow> i = k - 1"
      using Cons.prems by fastforce
    then have "length (filter P xs) \<le> 1"
      by (rule Cons.IH)
    then show ?thesis
      using False by simp
  qed
qed

lemma captures_ok_at_most_one:
  assumes "captures_ok s"
  shows "length (filter active (captures s)) \<le> 1"
proof (cases "recognitionRef s")
  case None
  then have "\<forall>i<length (captures s). active (captures s ! i) \<longrightarrow> i = 0"
    using assms by (simp add: captures_ok_iff)
  then show ?thesis
    by (rule filter_at_most_one)
next
  case (Some h)
  then have "\<forall>i<length (captures s). active (captures s ! i) \<longrightarrow> i = h"
    using assms by (simp add: captures_ok_iff)
  then show ?thesis
    by (rule filter_at_most_one)
qed

text \<open>
  C5. Whatever events arrive, in whatever order, after a session is mounted: at most one
  silence timeout is pending and at most one capture is active. Arming a timeout clears
  the one the session holds, and the fresh recognition instance is installed only after
  the one in use was asked to stop.
\<close>

theorem at_most_one_timer_and_capture:
  "length (timers (run evs (mount r y l))) \<le> 1
   \<and> length (filter active (captures (run evs (mount r y l)))) \<le> 1"
proof -
  have "timers_ok (run evs (mount r y l)) \<and> captures_ok (run evs (mount r y l))"
    by (rule ok_run) (rule ok_mount)+
  then show ?thesis
    using captures_ok_at_most_one [of "run evs (mount r y l)"] by (simp add: timers_ok_def)
qed

theorem at_most_one_timer_and_capture_witness:
  "length (timers (run [ClickMic, PermissionSettled 0 True, RecStart 0,
                        RecResult 0 (interimResult (str ''hi'')), SelectLanguage hi_IN,
                        RecError 0 (str ''aborted''), ClickMic, PermissionSettled 0 True,
                        RecStart 1, RecEnd 0]
                   (mount True True (str ''en'')))) \<le> 1
   \<and> length (filter active
        (captures (run [ClickMic, PermissionSettled 0 True, RecStart 0,
                        RecResult 0 (interimResult (str ''hi'')), SelectLanguage hi_IN,
                        RecError 0 (str ''aborted''), ClickMic, PermissionSettled 0 True,
                        RecStart 1, RecEnd 0]
                   (mount True True (str ''en''))))) \<le> 1"
  by (rule at_most_one_timer_and_capture)

subsection \<open>Permission denied\<close>

lemma none_active_update:
  assumes "list_all (\<lambda>c. \<not> active c) xs" and "\<not> active x"
  shows "list_all (\<lambda>c. \<not> active c) (xs[h := x])"
  using assms set_update_subset_insert [of xs h x] by (auto simp add: list_all_iff)

lemma none_active_captureStatus:
  assumes "list_all (\<lambda>c. \<not> active c) (captures s)"
  shows "captureStatus h s \<noteq> Some Starting"
  using assms by (auto simp add: captureStatus_Some list_all_iff active_def)

lemma none_active_stop:
  "list_all (\<lambda>c. \<not> active c) (captures s) \<Longrightarrow>
   list_all (\<lambda>c. \<not> active c) (captures (recognition_stop h s))"
  by (simp add: recognition_stop_def none_active_update)

lemma none_active_setStatus:
  assumes "list_all (\<lambda>c. \<not> active c) (captures s)" and "st = Stopping \<or> st = Inactive"
  shows "list_all (\<lambda>c. \<not> active c) (captures (setStatus h st s))"
proof -
  have "\<not> active ((captures s ! h)\<lparr>rec_status := st\<rparr>)"
    using assms(2) by (auto simp add: active_def)
  then show ?thesis
    using assms(1) by (simp add: setStatus_def none_active_update)
qed

lemma none_active_cleanup:
  "list_all (\<lambda>c. \<not> active c) (captures s) \<Longrightarrow>
   list_all (\<lambda>c. \<not> active c) (captures (recognition_cleanup s))"
  by (simp add: recognition_cleanup_def none_active_stop split: option.splits)

lemma none_active_fold_timeout:
  "list_all (\<lambda>c. \<not> active c) (captures s) \<Longrightarrow>
   list_all (\<lambda>c. \<not> active c) (captures (fold silence_timeout xs s))"
  by (induction xs arbitrary: s)
     (simp_all add: silence_timeout_def none_active_stop split: option.splits)

lemma none_active_run_effects:
  assumes "list_all (\<lambda>c. \<not> active c) (captures s)"
  shows "list_all (\<lambda>c. \<not> active c) (captures (run_effects p s))"
proof (cases "mounted s \<and> selectedLanguage p \<noteq> selectedLanguage s
    \<and> speechRecognitionSupported s")
  case True
  then show ?thesis
    using none_active_cleanup [OF assms]
    by (simp add: run_effects_captures_replaced active_def)
next
  case False
  show ?thesis
    using assms unfolding run_effects_captures_kept [OF False] .
qed

lemma none_active_turn:
  assumes "list_all (\<lambda>c. \<not> active c) (captures (f s))"
  shows "list_all (\<lambda>c. \<not> active c) (captures (turn f s))"
  using assms by (simp add: turn_captures none_active_run_effects)

lemma blocked_turn:
  assumes "permissionDenied (f s)" and "permissionRequests (f s) = []"
    and "list_all (\<lambda>c. \<not> active c) (captures (f s))"
  shows "blocked (turn f s)"
  using assms by (simp add: blocked_def none_active_turn)

lemma blocked_turn_frame:
  assumes "blocked s" and "permissionDenied (f s) = permissionDenied s"
    and "permissionRequests (f s) = permissionRequests s" and "captures (f s) = captures s"
  shows "blocked (turn f s)"
  using assms by (intro blocked_turn) (simp_all add: blocked_def)

text \<open>No event leads out of a blocked session.\<close>

lemma blocked_step:
  assumes "blocked s"
  shows "blocked (step e s)"
proof -
  have pd: "permissionDenied s" and pr: "permissionRequests s = []"
    and na: "list_all (\<lambda>c. \<not> active c) (captures s)"
    using assms by (simp_all add: blocked_def)
  show ?thesis
  proof (cases e)
    case ClickMic
    then show ?thesis
      using assms pd by (simp add: micButton_disabled_def)
  next
    case (ClickAction i)
    then show ?thesis
      using assms by (simp add: blocked_turn_frame split: option.splits)
  next
    case Unmount
    then show ?thesis
      using assms pd pr none_active_cleanup [OF na] by (simp add: blocked_def leaveView_state)
  next
    case (PermissionSettled i g)
    have "handleMicClick_resumed i g s = s"
      using pr by (simp add: handleMicClick_resumed_def)
    then show ?thesis
      using PermissionSettled assms by (simp add: turn_id)
  next
    case (RecStart h)
    then show ?thesis
      using assms none_active_captureStatus [OF na] by simp
  next
    case (RecResult h ev)
    have "list_all (\<lambda>c. \<not> active c) (captures (recognition_onresult h ev s))"
      using na none_active_stop [OF na] by (simp add: recognition_onresult_state)
    then show ?thesis
      using RecResult assms pd pr by (simp add: blocked_turn)
  next
    case (RecError h err)
    let ?f = "\<lambda>x. recognition_onerror err (setStatus h Stopping x)"
    have "permissionDenied (?f s)"
      using pd by (simp add: recognition_onerror_def Let_def setter_defs)
    moreover have "list_all (\<lambda>c. \<not> active c) (captures (?f s))"
      using none_active_setStatus [OF na] by simp
    ultimately show ?thesis
      using RecError assms pr by (simp add: blocked_turn)
  next
    case (RecEnd h)
    let ?f = "\<lambda>x. recognition_onend (setStatus h Inactive x)"
    have "list_all (\<lambda>c. \<not> active c) (captures (?f s))"
      using none_active_setStatus [OF na] by simp
    then show ?thesis
      using RecEnd assms pd pr by (simp add: blocked_turn)
  next
    case (Elapse d)
    have "list_all (\<lambda>c. \<not> active c) (captures (elapse d s))"
      using na by (simp add: elapse_def Let_def none_active_fold_timeout)
    then show ?thesis
      using Elapse pd pr by (simp add: step_Elapse blocked_def elapse_state del: step.simps)
  next
    case PlaybackEnds
    then show ?thesis
      using assms by (simp add: blocked_def)
  qed (use assms in \<open>simp_all add: blocked_turn_frame\<close>)
qed

lemma blocked_run: "blocked s \<Longrightarrow> blocked (run evs s)"
  by (induction evs arbitrary: s) (simp_all add: blocked_step del: step.simps)

lemma deniedSession_eq:
  "run [ClickMic, PermissionSettled 0 False] freshSession =
     freshSession\<lparr>permissionDenied := True, toasts := [MicrophoneAccessRequired]\<rparr>"
  by (simp add: freshSession_eq setter_defs browser_defs effect_defs handler_defs Let_def)

text \<open>
  C4. The first half of the claim holds: when the browser rejects the permission request
  of a microphone click, \<open>permissionDenied\<close> is set, \<open>micState\<close> is \<open>idle\<close> and no capture
  was started. The second half says the user can recover by granting permission later.
  The code cannot do that: with \<open>permissionDenied\<close> set the microphone button is
  disabled, so \<open>handleMicClick\<close> never runs again, no permission is requested, no
  capture is started, and the start handler (the one place that clears the flag) is
  never called. A second click followed by a grant changes nothing, and whatever events
  follow, the flag stays set, the button stays disabled and no capture becomes active.
\<close>

theorem permission_denial_is_never_cleared:
  "(let s = run [ClickMic, PermissionSettled 0 False] freshSession
    in permissionDenied s \<and> micState s = idle \<and> captures s = captures freshSession
       \<and> micButton_disabled s
       \<and> run [ClickMic, PermissionSettled 0 True, RecStart 0] s = s
       \<and> (\<forall>evs. permissionDenied (run evs s) \<and> micButton_disabled (run evs s)
                  \<and> list_all (\<lambda>c. \<not> active c) (captures (run evs s))))"
proof -
  let ?s = "run [ClickMic, PermissionSettled 0 False] freshSession"
  have b: "blocked ?s"
    unfolding deniedSession_eq by (simp add: blocked_def freshSession_eq active_def)
  have "permissionDenied (run evs ?s) \<and> micButton_disabled (run evs ?s)
      \<and> list_all (\<lambda>c. \<not> active c) (captures (run evs ?s))" for evs
    using blocked_run [OF b, of evs] by (simp add: blocked_def micButton_disabled_def)
  moreover have "permissionDenied ?s \<and> micState ?s = idle \<and> captures ?s = captures freshSession
      \<and> micButton_disabled ?s"
    unfolding deniedSession_eq by (simp add: freshSession_eq micButton_disabled_def)
  moreover have "run [ClickMic, PermissionSettled 0 True, RecStart 0] ?s = ?s"
    unfolding deniedSession_eq
    by (simp add: freshSession_eq setter_defs browser_defs effect_defs handler_defs Let_def)
  ultimately show ?thesis
    unfolding Let_def by blast
qed

subsection \<open>The silence timeout, event by event\<close>

text \<open>One render, in a session whose pending timeout is the one in \<open>timeoutRef\<close>.\<close>

lemma render_timers:
  assumes "timers_ok s"
  shows "timers (run_effects p s) =
     (if mounted s \<and> (micState p \<noteq> micState s \<or> interimTranscript p \<noteq> interimTranscript s)
      then (if micState s = listening \<and> interimTranscript s = []
            then [\<lparr>timer_id = nextTimer s, timer_due = now s + 3000,
                   timer_micState = listening\<rparr>]
            else [])
      else timers s)"
proof (cases "mounted s \<and> (micState p \<noteq> micState s \<or> interimTranscript p \<noteq> interimTranscript s)")
  case True
  have "timers (run_effects p s) =
      (if micState s = listening \<and> interimTranscript s = []
       then [\<lparr>timer_id = nextTimer s, timer_due = now s + 3000, timer_micState = listening\<rparr>]
       else [])"
    unfolding run_effects_timers_rearmed [OF assms True] by (simp add: truthy_def)
  then show ?thesis
    by (simp only: if_P [OF True])
next
  case False
  have "timers (run_effects p s) = timers s"
    by (rule run_effects_timers_kept(1) [OF False])
  then show ?thesis
    by (simp only: if_not_P [OF False])
qed

lemma turn_timers:
  assumes ok: "timers_ok s" and m: "mounted (f s)"
    and fr: "timers (f s) = timers s" "timeoutRef (f s) = timeoutRef s"
      "nextTimer (f s) = nextTimer s" "now (f s) = now s"
    and d: "finalTranscript (f s) = finalTranscript s \<or> micState (f s) = micState s"
  shows "timers (turn f s) =
     (if micState (turn f s) = micState s \<and> interimTranscript (turn f s) = interimTranscript s
      then timers s
      else if micState (turn f s) = listening \<and> interimTranscript (turn f s) = []
      then [\<lparr>timer_id = nextTimer s, timer_due = now s + 3000, timer_micState = listening\<rparr>]
      else [])"
proof -
  let ?a = "f s"
  have oka: "timers_ok ?a"
    using ok fr(1,2) by (rule timers_ok_keep)
  have r1: "timers (run_effects s ?a) =
     (if micState s \<noteq> micState ?a \<or> interimTranscript s \<noteq> interimTranscript ?a
      then (if micState ?a = listening \<and> interimTranscript ?a = []
            then [\<lparr>timer_id = nextTimer s, timer_due = now s + 3000,
                   timer_micState = listening\<rparr>]
            else [])
      else timers s)"
    using render_timers [OF oka, of s] m fr by simp
  show ?thesis
  proof (cases "finalTranscript s \<noteq> finalTranscript ?a \<and> truthy (trim (finalTranscript ?a))")
    case False
    then have nd: "finalTranscript ?a = finalTranscript s \<or> \<not> truthy (trim (finalTranscript ?a))"
      by auto
    have t: "turn f s = run_effects s ?a"
      using turn_no_dispatch [of f s, OF nd] .
    have ms: "micState (run_effects s ?a) = micState ?a"
      using False by (auto simp add: run_effects_state)
    have it: "interimTranscript (run_effects s ?a) = interimTranscript ?a"
      by simp
    show ?thesis
      unfolding t r1 ms it by auto
  next
    case True
    let ?s2 = "run_effects s ?a"
    have same: "micState ?a = micState s"
      using True d by auto
    have m2: "micState ?s2 = processing" "interimTranscript ?s2 = interimTranscript ?a"
      "finalTranscript ?s2 = []" "mounted ?s2"
      using True m by (simp_all add: run_effects_state)
    have ok2: "timers_ok ?s2"
      by (rule timers_ok_run_effects [OF oka])
    have t: "turn f s = run_effects ?a ?s2"
      by (simp add: turn_def Let_def)
    have ms: "micState (run_effects ?a ?s2) = processing"
      by (subst run_effects_state(1)) (simp add: m2)
    have it: "interimTranscript (run_effects ?a ?s2) = interimTranscript ?a"
      by (simp add: m2)
    have r2: "timers (run_effects ?a ?s2) = (if micState ?a \<noteq> processing then [] else timers ?s2)"
      using render_timers [OF ok2, of ?a] unfolding m2(1,2) by (simp add: m)
    show ?thesis
      unfolding t ms it r2 r1 same by auto
  qed
qed

lemma fold_silence_timeout_clock [simp]:
  "now (fold silence_timeout xs s) = now s"
  "nextTimer (fold silence_timeout xs s) = nextTimer s"
  by (induction xs arbitrary: s; simp add: silence_timeout_def recognition_stop_def
        split: option.splits)+

lemma step_timers:
  assumes "mounted s" and "timers_ok s" and "handlerEvent e"
  shows "timers (step e s) =
     (if micState (step e s) = micState s \<and> interimTranscript (step e s) = interimTranscript s
      then timers s
      else if micState (step e s) = listening \<and> interimTranscript (step e s) = []
      then [\<lparr>timer_id = nextTimer s, timer_due = now s + 3000, timer_micState = listening\<rparr>]
      else [])"
proof (cases e)
  case ClickMic
  show ?thesis
    unfolding ClickMic step.simps using assms(1,2) by (simp add: turn_timers)
next
  case (SelectLanguage l)
  show ?thesis
    unfolding SelectLanguage step.simps using assms(1,2) by (simp add: turn_timers)
next
  case ClickTypeInstead
  show ?thesis
    unfolding ClickTypeInstead step.simps using assms(1,2) by (simp add: turn_timers)
next
  case (ChangeText v)
  show ?thesis
    unfolding ChangeText step.simps using assms(1,2) by (simp add: turn_timers)
next
  case PressEnter
  show ?thesis
    unfolding PressEnter step.simps using assms(1,2) by (simp add: turn_timers)
next
  case ClickSend
  show ?thesis
    unfolding ClickSend step.simps using assms(1,2) by (simp add: turn_timers)
next
  case ClickCancel
  show ?thesis
    unfolding ClickCancel step.simps using assms(1,2) by (simp add: turn_timers)
next
  case ClickReplay
  show ?thesis
    unfolding ClickReplay step.simps using assms(1,2) by (simp add: turn_timers)
next
  case (ClickAction i)
  show ?thesis
    unfolding ClickAction step.simps using assms(1,2)
    by (simp add: turn_timers split: option.splits)
next
  case Unmount
  then show ?thesis
    using assms(3) by (simp add: handlerEvent_def)
next
  case (PermissionSettled i g)
  show ?thesis
    unfolding PermissionSettled step.simps using assms(1,2) by (simp add: turn_timers)
next
  case (RecStart h)
  show ?thesis
    unfolding RecStart step.simps using assms(1,2) by (simp add: turn_timers)
next
  case (RecResult h ev)
  show ?thesis
    unfolding RecResult step.simps using assms(1,2) by (simp add: turn_timers)
next
  case (RecError h er)
  show ?thesis
    unfolding RecError step.simps using assms(1,2) by (simp add: turn_timers)
next
  case (RecEnd h)
  show ?thesis
    unfolding RecEnd step.simps using assms(1,2) by (simp add: turn_timers)
next
  case (FetchSettled i outcome)
  show ?thesis
    unfolding FetchSettled step.simps using assms(1,2) by (simp add: turn_timers)
next
  case (Elapse d)
  then show ?thesis
    using assms(3) by (simp add: handlerEvent_def)
next
  case PlaybackEnds
  then show ?thesis
    by simp
qed

lemma elapse_clock: "now (elapse d s) = now s + d"
  by (simp add: elapse_def Let_def)

lemma elapse_none_due:
  assumes "\<forall>t\<in>set (timers s). now s + d < timer_due t"
  shows "captures (elapse d s) = captures s"
proof -
  have "filter (\<lambda>x. timer_due x \<le> now s + d) (timers s) = []"
    using assms by (auto simp add: filter_empty_conv)
  then show ?thesis
    by (simp add: elapse_def Let_def)
qed

lemma elapse_due:
  assumes "timers_ok s" and "tm \<in> set (timers s)" and "timer_due tm \<le> now s + d"
    and "timer_micState tm = listening" and "recognitionRef s = Some h"
    and "h < length (captures s)"
  shows "captures (elapse d s) = (captures s)[h := stopInstance (captures s ! h)]"
proof -
  have "length (timers s) \<le> 1"
    using assms(1) by (simp add: timers_ok_iff)
  then have one: "timers s = [tm]"
    using assms(2) by (cases "timers s") auto
  show ?thesis
    using assms(3-6)
    by (simp add: elapse_def Let_def one silence_timeout_def recognition_stop_def)
qed

text \<open>
  C3, as the code has it. The silence timeout belongs to an effect on \<open>micState\<close> and
  the interim transcript. Take a mounted session whose pending timeouts are at most the
  one in \<open>timeoutRef\<close>. After an event that runs a handler: if \<open>micState\<close> and the
  interim transcript are what they were, the pending timeouts are what they were; if one
  of them changed, then exactly one timeout is pending, due 3000 milliseconds later,
  when the session is now listening with an empty interim transcript, and none is
  pending otherwise. So a result event that makes the interim transcript non-empty
  cancels the timeout and arms no new one. When time passes, \<open>micState\<close> and the
  interim transcript stay, the timeouts that fell due are gone, and the others stay
  pending; if none fell due no capture is touched, and if the timeout armed while
  listening fell due, the instance in use is asked to stop (the timeout does not assert
  \<open>idle\<close>).
\<close>

theorem silence_timer_behaviour:
  assumes "mounted s" and "timers_ok s"
  shows "(handlerEvent e \<longrightarrow>
            (let s' = step e s
             in timers s' =
                  (if micState s' = micState s \<and> interimTranscript s' = interimTranscript s
                   then timers s
                   else if micState s' = listening \<and> interimTranscript s' = []
                   then [\<lparr>timer_id = nextTimer s, timer_due = now s + 3000,
                          timer_micState = listening\<rparr>]
                   else [])))
       \<and> (let s' = step (Elapse d) s
          in micState s' = micState s \<and> interimTranscript s' = interimTranscript s
             \<and> now s' = now s + d
             \<and> timers s' = filter (\<lambda>t. now s + d < timer_due t) (timers s)
             \<and> ((\<forall>t\<in>set (timers s). now s + d < timer_due t) \<longrightarrow> captures s' = captures s)
             \<and> (tm \<in> set (timers s) \<and> timer_due tm \<le> now s + d
                \<and> timer_micState tm = listening \<and> recognitionRef s = Some h
                \<and> h < length (captures s) \<longrightarrow>
                  captures s' = (captures s)[h := stopInstance (captures s ! h)]))"
proof -
  have a: "timers (step e s) =
      (if micState (step e s) = micState s \<and> interimTranscript (step e s) = interimTranscript s
       then timers s
       else if micState (step e s) = listening \<and> interimTranscript (step e s) = []
       then [\<lparr>timer_id = nextTimer s, timer_due = now s + 3000, timer_micState = listening\<rparr>]
       else [])"
    if "handlerEvent e"
    using step_timers [OF assms that] .
  have f: "filter (\<lambda>x. \<not> timer_due x \<le> now s + d) (timers s) =
      filter (\<lambda>t. now s + d < timer_due t) (timers s)"
    by (simp add: not_le)
  have b: "micState (elapse d s) = micState s"
    "interimTranscript (elapse d s) = interimTranscript s"
    "now (elapse d s) = now s + d"
    "timers (elapse d s) = filter (\<lambda>t. now s + d < timer_due t) (timers s)"
    by (simp_all add: elapse_state elapse_clock f)
  have c: "captures (elapse d s) = captures s"
    if "\<forall>t\<in>set (timers s). now s + d < timer_due t"
    using that by (rule elapse_none_due)
  have g: "captures (elapse d s) = (captures s)[h := stopInstance (captures s ! h)]"
    if "tm \<in> set (timers s) \<and> timer_due tm \<le> now s + d
        \<and> timer_micState tm = listening \<and> recognitionRef s = Some h
        \<and> h < length (captures s)"
    using elapse_due [OF assms(2), of tm d h] that by blast
  show ?thesis
    unfolding Let_def step_Elapse using a b c g by blast
qed

lemma startingSession_eq:
  "step (PermissionSettled 0 True) promptSession =
     freshSession\<lparr>captures := [\<lparr>rec_lang = en_US, rec_status = Starting, rec_tag = en_US\<rparr>]\<rparr>"
  by (simp add: promptSession_eq freshSession_eq setter_defs browser_defs effect_defs
        handler_defs Let_def)

lemma starting_facts:
  "mounted (step (PermissionSettled 0 True) promptSession)"
  "timers_ok (step (PermissionSettled 0 True) promptSession)"
  "micState (step (PermissionSettled 0 True) promptSession) = idle"
  "nextTimer (step (PermissionSettled 0 True) promptSession) = 1"
  "now (step (PermissionSettled 0 True) promptSession) = 0"
  "micState (step (RecStart 0) (step (PermissionSettled 0 True) promptSession)) = listening"
  "interimTranscript (step (RecStart 0) (step (PermissionSettled 0 True) promptSession)) = []"
  unfolding startingSession_eq
  by (simp_all add: freshSession_eq timers_ok_def turn_state captureStatus_Some
      recognition_onstart_def setter_defs setStatus_def updateCapture_def)

lemma listening_steps:
  "timers_ok listeningSession"
  "timers listeningSession = [\<lparr>timer_id = 1, timer_due = 3000, timer_micState = listening\<rparr>]"
  "now listeningSession = 0" "recognitionRef listeningSession = Some 0"
  "captures listeningSession = [\<lparr>rec_lang = en_US, rec_status = Capturing, rec_tag = en_US\<rparr>]"
  "micState (step (RecResult 0 (interimResult (str ''hi''))) listeningSession) = listening"
  "interimTranscript (step (RecResult 0 (interimResult (str ''hi''))) listeningSession) =
     str ''hi''"
  "micState (step (SelectLanguage hi_IN) listeningSession) = listening"
  "interimTranscript (step (SelectLanguage hi_IN) listeningSession) = []"
  "interimTranscript listeningSession = []"
  by (simp_all add: listeningSession_eq timers_ok_def turn_state captureStatus_Some
      recognition_onresult_state interimResult_def interimText_def finalText_def
      setSelectedLanguage_def)

theorem silence_timer_behaviour_witness:
  "timers (step (RecStart 0) (step (PermissionSettled 0 True) promptSession)) =
     [\<lparr>timer_id = 1, timer_due = 3000, timer_micState = listening\<rparr>]
   \<and> timers (step (RecResult 0 (interimResult (str ''hi''))) listeningSession) = []
   \<and> timers (step (SelectLanguage hi_IN) listeningSession) = timers listeningSession
   \<and> captures (step (Elapse 2999) listeningSession) = captures listeningSession
   \<and> timers (step (Elapse 2999) listeningSession) = timers listeningSession
   \<and> captures (step (Elapse 3000) listeningSession) =
       [\<lparr>rec_lang = en_US, rec_status = Stopping, rec_tag = en_US\<rparr>]
   \<and> micState (step (Elapse 3000) listeningSession) = listening
   \<and> timers (step (Elapse 3000) listeningSession) = []"
proof -
  let ?tm = "\<lparr>timer_id = 1, timer_due = 3000, timer_micState = listening\<rparr>"
  have h: "handlerEvent (RecStart 0)" "handlerEvent (RecResult 0 (interimResult (str ''hi'')))"
    "handlerEvent (SelectLanguage hi_IN)"
    by (simp_all add: handlerEvent_def)
  have n: "str ''hi'' \<noteq> []"
    by (simp add: str_def)
  note w1 = silence_timer_behaviour [OF starting_facts(1,2), of "RecStart 0" 2999 ?tm 0]
  note w2 = silence_timer_behaviour [OF listening_facts(1) listening_steps(1),
      of "RecResult 0 (interimResult (str ''hi''))" 2999 ?tm 0]
  note w3 = silence_timer_behaviour [OF listening_facts(1) listening_steps(1),
      of "SelectLanguage hi_IN" 3000 ?tm 0]
  show ?thesis
    using w1 w2 w3 h n starting_facts(3-7) listening_steps(2-10) listening_facts(2)
    by (simp add: Let_def stopInstance_def del: step.simps)
qed

text \<open>
  The claim says that every interim result resets the quiet window, so that the timeout
  fires after three seconds without interim results. Here a second passes, an interim
  result arrives, and 63 more seconds pass in silence: no timeout is pending and the
  capture was never asked to stop.
\<close>

theorem silence_timer_counterexample:
  "(let s = run [Elapse 1000, RecResult 0 (interimResult (str ''hi'')), Elapse 3000,
                 Elapse 60000] listeningSession
    in micState s = listening \<and> interimTranscript s = str ''hi'' \<and> now s = 64000
       \<and> captureStatus 0 s = Some Capturing \<and> timers s = [])"
  by (simp add: listeningSession_eq interimResult_def setter_defs browser_defs effect_defs
        handler_defs Let_def trim_def isWhiteSpace_def truthy_def str_def)

subsection \<open>Query dispatch and the fallback path\<close>

lemma processQuery_settled_failed:
  assumes "mounted s" and "i < length (fetches s)" and "failed outcome"
  shows "voiceResponse (processQuery_settled i outcome s) =
           Some (asValue (generateMockResponse (call_language (fetches s ! i))
                            (call_query (fetches s ! i))))"
    and "micState (processQuery_settled i outcome s) = idle"
  using assms
  by (simp_all add: processQuery_settled_def processQuery_catch_def Let_def failed_def
        setMicState_def setVoiceResponse_def split: Outcome.splits)

lemma processQuery_settled_body:
  assumes "mounted s" and "i < length (fetches s)"
  shows "voiceResponse (processQuery_settled i (Body (Some v)) s) = Some v"
    and "micState (processQuery_settled i (Body (Some v)) s) = idle"
  using assms
  by (simp_all add: processQuery_settled_def Let_def setMicState_def setVoiceResponse_def)

lemma fold_silence_timeout_fetches [simp]:
  "fetches (fold silence_timeout xs s) = fetches s"
  by (induction xs arbitrary: s)
     (simp_all add: silence_timeout_def recognition_stop_def split: option.splits)

text \<open>An event that settles no call leaves the calls in flight where they are.\<close>

lemma fetches_turn:
  assumes "prefix (fetches s) (fetches (f s))"
  shows "prefix (fetches s) (fetches (turn f s))"
  using assms by (simp add: turn_state)

lemma fetches_step:
  assumes "\<not> settles e"
  shows "prefix (fetches s) (fetches (step e s))"
proof (cases e)
  case PressEnter
  then show ?thesis
    by (simp add: fetches_turn handleTextSubmit_def processQuery_state)
next
  case ClickSend
  then show ?thesis
    by (simp add: fetches_turn handleTextSubmit_def processQuery_state)
next
  case (ClickAction i)
  then show ?thesis
    by (simp add: fetches_turn split: option.splits)
next
  case (FetchSettled i outcome)
  then show ?thesis
    using assms by (simp add: settles_def)
next
  case (Elapse d)
  then show ?thesis
    by (simp add: step_Elapse elapse_def Let_def del: step.simps)
qed (simp_all add: fetches_turn)

lemma fetches_run:
  assumes "\<forall>e\<in>set evs. \<not> settles e"
  shows "prefix (fetches s) (fetches (run evs s))"
  using assms
proof (induction evs arbitrary: s)
  case Nil
  then show ?case by simp
next
  case (Cons e evs)
  have "prefix (fetches s) (fetches (step e s))"
    using Cons.prems by (simp add: fetches_step)
  moreover have "prefix (fetches (step e s)) (fetches (run evs (step e s)))"
    using Cons.prems by (intro Cons.IH) simp
  ultimately show ?case
    by (simp del: step.simps)
qed

lemma call_stays_in_flight:
  assumes "\<forall>e\<in>set evs. \<not> settles e" and "i < length (fetches s)"
  shows "i < length (fetches (run evs s))" and "fetches (run evs s) ! i = fetches s ! i"
proof -
  obtain zs where z: "fetches (run evs s) = fetches s @ zs"
    using fetches_run [OF assms(1), of s] by (auto simp add: prefix_def)
  show "i < length (fetches (run evs s))" and "fetches (run evs s) ! i = fetches s ! i"
    using assms(2) by (simp_all add: z nth_append)
qed

lemma typed_dispatch:
  assumes "mounted s" and "showTextInput s" and "truthy (trim (textInput s))"
  shows "micState (step PressEnter s) = processing"
    and "fetches (step PressEnter s) =
           fetches s @ [\<lparr>call_query = trim (textInput s), call_language = selectedLanguage s\<rparr>]"
proof -
  have f: "finalTranscript (handleTextSubmit s) = finalTranscript s"
    "mounted (handleTextSubmit s)"
    using assms by (simp_all add: handleTextSubmit_def processQuery_def Let_def setter_defs)
  have m: "micState (handleTextSubmit s) = processing"
    and q: "fetches (handleTextSubmit s) =
           fetches s @ [\<lparr>call_query = trim (textInput s), call_language = selectedLanguage s\<rparr>]"
    using assms by (simp_all add: handleTextSubmit_def processQuery_state)
  show "micState (step PressEnter s) = processing"
    and "fetches (step PressEnter s) =
           fetches s @ [\<lparr>call_query = trim (textInput s), call_language = selectedLanguage s\<rparr>]"
    using assms(1,2) by (simp_all add: turn_state f m q)
qed

text \<open>
  C1, as the code has it. A query is dispatched with the language selected in the turn
  of the dispatch, by the Enter key in the text input or by a final result. When its
  call fails (network error, status that is not a success status, body that is not JSON)
  in any state the mounted session has reached meanwhile without settling a call, the
  response becomes the answer of the fallback responder for the query and the language
  of the dispatch: it is not empty, it is one of the answers of that language, with that
  language's disclaimer, and \<open>micState\<close> is back to \<open>idle\<close>. The fallback responder is
  a total function: it has no failing branch. A body that is JSON and not \<^verbatim>\<open>null\<close> is
  not a failure to the code: it becomes the response as it is.
\<close>

theorem responder_failure_falls_back:
  assumes "mounted s" and "failed outcome"
  shows "(showTextInput s \<and> truthy (trim (textInput s)) \<longrightarrow>
            (let s1 = step PressEnter s
             in micState s1 = processing
                \<and> fetches s1 =
                    fetches s @ [\<lparr>call_query = trim (textInput s),
                                   call_language = selectedLanguage s\<rparr>]))
       \<and> ((captureStatus h s = Some Capturing \<or> captureStatus h s = Some Stopping)
          \<and> truthy (trim (finalText ev)) \<and> \<not> truthy (trim (finalTranscript s)) \<longrightarrow>
            (let s1 = step (RecResult h ev) s
             in micState s1 = processing
                \<and> fetches s1 =
                    fetches s @ [\<lparr>call_query = finalText ev,
                                   call_language = selectedLanguage s\<rparr>]))
       \<and> (i < length (fetches s) \<and> (\<forall>e\<in>set evs. \<not> settles e) \<and> mounted (run evs s) \<longrightarrow>
            (let c = fetches s ! i;
                 s' = step (FetchSettled i outcome) (run evs s);
                 r = generateMockResponse (call_language c) (call_query c)
             in voiceResponse s' = Some (asValue r) \<and> micState s' = idle
                \<and> answer_text r \<noteq> []
                \<and> answer_text r \<in> set (answersIn (call_language c) (call_query c))
                \<and> disclaimer r = disclaimerIn (call_language c) \<and> disclaimer r \<noteq> []
                \<and> actions r \<noteq> None))
       \<and> (i < length (fetches s) \<longrightarrow>
            (let s' = step (FetchSettled i (Body (Some v))) s
             in voiceResponse s' = Some v \<and> micState s' = idle))"
proof -
  have ne: "answer_text (generateMockResponse l x) \<noteq> []" for l x
    using answersIn_nonempty [OF generateMockResponse_answer] .
  have settle: "voiceResponse (step (FetchSettled j outcome) t) =
          Some (asValue (generateMockResponse (call_language (fetches t ! j))
                           (call_query (fetches t ! j))))
        \<and> micState (step (FetchSettled j outcome) t) = idle"
    if "mounted t" "j < length (fetches t)" for j t
    using that assms(2) by (simp add: turn_state processQuery_settled_failed)
  have typed: "micState (step PressEnter s) = processing
      \<and> fetches (step PressEnter s) =
          fetches s @ [\<lparr>call_query = trim (textInput s), call_language = selectedLanguage s\<rparr>]"
    if "showTextInput s \<and> truthy (trim (textInput s))"
    using typed_dispatch [OF assms(1)] that by blast
  have spoken: "micState (step (RecResult h ev) s) = processing
      \<and> fetches (step (RecResult h ev) s) =
          fetches s @ [\<lparr>call_query = finalText ev, call_language = selectedLanguage s\<rparr>]"
    if "(captureStatus h s = Some Capturing \<or> captureStatus h s = Some Stopping)
        \<and> truthy (trim (finalText ev)) \<and> \<not> truthy (trim (finalTranscript s))"
    using final_event_step(1,4) [OF assms(1), of h ev] that by blast
  have later: "voiceResponse (step (FetchSettled i outcome) (run evs s)) =
          Some (asValue (generateMockResponse (call_language (fetches s ! i))
                           (call_query (fetches s ! i))))
        \<and> micState (step (FetchSettled i outcome) (run evs s)) = idle"
    if "i < length (fetches s) \<and> (\<forall>e\<in>set evs. \<not> settles e) \<and> mounted (run evs s)"
  proof -
    have n: "\<forall>e\<in>set evs. \<not> settles e" and i: "i < length (fetches s)"
      and m: "mounted (run evs s)"
      using that by blast+
    note k = call_stays_in_flight [OF n i]
    show ?thesis
      using settle [OF m k(1)] unfolding k(2) .
  qed
  have body: "voiceResponse (step (FetchSettled i (Body (Some v))) s) = Some v
      \<and> micState (step (FetchSettled i (Body (Some v))) s) = idle"
    if "i < length (fetches s)"
    using that assms(1) by (simp add: turn_state processQuery_settled_body)
  show ?thesis
    unfolding Let_def
    using typed spoken later body
    by (simp add: ne generateMockResponse_answer generateMockResponse_disclaimer
        disclaimerIn_nonempty generateMockResponse_actions del: step.simps)
qed

lemma switched_in_flight:
  "run [SelectLanguage hi_IN] processingSession =
     processingSession\<lparr>selectedLanguage := hi_IN, recognitionRef := Some 1,
       captures := [\<lparr>rec_lang = en_US, rec_status = Inactive, rec_tag = en_US\<rparr>,
                    \<lparr>rec_lang = hi_IN, rec_status = Inactive, rec_tag = hi_IN\<rparr>]\<rparr>"
  by (simp add: processingSession_eq setter_defs browser_defs effect_defs handler_defs Let_def)

theorem responder_failure_falls_back_witness:
  "micState (step PressEnter typingSession) = processing
   \<and> fetches (step PressEnter typingSession) =
       [\<lparr>call_query = str ''hello'', call_language = en_US\<rparr>]
   \<and> fetches (step (RecResult 0 (finalResult (str ''hi''))) listeningSession) =
       [\<lparr>call_query = str ''hi'', call_language = en_US\<rparr>]
   \<and> voiceResponse (step (FetchSettled 0 NetworkError)
                       (run [SelectLanguage hi_IN] processingSession)) =
       Some (asValue (generateMockResponse en_US (str ''hello'')))
   \<and> micState (step (FetchSettled 0 NetworkError)
                  (run [SelectLanguage hi_IN] processingSession)) = idle
   \<and> (let v = \<lparr>rv_truthy = True, rv_answer_text = Some (str ''ok''), rv_disclaimer = None,
                 rv_actions = None\<rparr>
      in voiceResponse (step (FetchSettled 0 (Body (Some v))) processingSession) = Some v)"
proof -
  have f: "failed NetworkError"
    by (simp add: failed_def)
  have g: "finalText (finalResult (str ''hi'')) = str ''hi''"
    "truthy (trim (finalText (finalResult (str ''hi''))))"
    by (simp_all add: finalText_def finalResult_def trim_def str_def isWhiteSpace_def
        truthy_def)
  have l: "fetches listeningSession = []" "selectedLanguage listeningSession = en_US"
    by (simp_all add: listeningSession_eq)
  have p: "mounted processingSession" "0 < length (fetches processingSession)"
    "fetches processingSession ! 0 = \<lparr>call_query = str ''hello'', call_language = en_US\<rparr>"
    "\<forall>e\<in>set [SelectLanguage hi_IN]. \<not> settles e"
    "mounted (run [SelectLanguage hi_IN] processingSession)"
    unfolding switched_in_flight by (simp_all add: processingSession_eq settles_def)
  show ?thesis
    using responder_failure_falls_back [OF typing_facts(1) f, of 0 "finalResult (str ''hi'')" 0 "[]" "\<lparr>rv_truthy = True, rv_answer_text = Some (str ''ok''), rv_disclaimer = None,
           rv_actions = None\<rparr>"]
      responder_failure_falls_back [OF listening_facts(1) f, of 0 "finalResult (str ''hi'')" 0 "[]" "\<lparr>rv_truthy = True, rv_answer_text = Some (str ''ok''), rv_disclaimer = None,
           rv_actions = None\<rparr>"]
      responder_failure_falls_back [OF p(1) f, of 0 "finalResult (str ''hi'')" 0
        "[SelectLanguage hi_IN]" "\<lparr>rv_truthy = True, rv_answer_text = Some (str ''ok''), rv_disclaimer = None,
           rv_actions = None\<rparr>"]
      typing_facts listening_facts g l p
    by (simp add: Let_def del: step.simps run.simps)
qed

lemma hello_is_greeted:
  "answer_text (generateMockResponse en_US (str ''hello'')) = greeting_en (str ''John Doe'')"
  by (simp add: generateMockResponse_def Let_def str_def toLowerCase_def isAscii_def
      lowerUnit_def mockUserProfile_def getLocalizedText_def)

lemma greeting_en_not_hindi:
  "greeting_en (str ''John Doe'') \<notin> set (answersIn hi_IN q)"
  by (simp add: answersIn_def greeting_en_def bloodSugar_hi_def bloodPressure_hi_def
      medication_hi_def greeting_hi_def default_hi_def str_def)

text \<open>
  The claim counts a malformed payload as a failure that the fallback answers, and has
  the answer in the currently selected language. A success response whose body is the
  JSON object without properties is stored as the response, which then has no answer
  text; and when the language is switched to Hindi while the call of an English query is
  in flight, the failure is answered in English.
\<close>

theorem responder_failure_counterexample:
  "(let v = \<lparr>rv_truthy = True, rv_answer_text = None, rv_disclaimer = None, rv_actions = None\<rparr>;
        s' = step (FetchSettled 0 (Body (Some v))) processingSession
    in voiceResponse s' = Some v \<and> rv_answer_text v = None \<and> micState s' = idle)
   \<and> (let s' = run [SelectLanguage hi_IN, FetchSettled 0 NetworkError] processingSession;
          r = generateMockResponse en_US (str ''hello'')
      in selectedLanguage s' = hi_IN \<and> voiceResponse s' = Some (asValue r)
         \<and> answer_text r = greeting_en (str ''John Doe'')
         \<and> answer_text r \<notin> set (answersIn hi_IN (str ''hello'')))"
proof -
  have a: "let v = \<lparr>rv_truthy = True, rv_answer_text = None, rv_disclaimer = None,
                    rv_actions = None\<rparr>;
               s' = step (FetchSettled 0 (Body (Some v))) processingSession
           in voiceResponse s' = Some v \<and> rv_answer_text v = None \<and> micState s' = idle"
    by (simp add: processingSession_eq setter_defs browser_defs effect_defs handler_defs
        Let_def truthy_def)
  have s: "run [SelectLanguage hi_IN, FetchSettled 0 NetworkError] processingSession =
      step (FetchSettled 0 NetworkError) (run [SelectLanguage hi_IN] processingSession)"
    by (simp del: step.simps)
  have b1: "selectedLanguage (run [SelectLanguage hi_IN, FetchSettled 0 NetworkError]
              processingSession) = hi_IN"
    and b2: "voiceResponse (run [SelectLanguage hi_IN, FetchSettled 0 NetworkError]
              processingSession) = Some (asValue (generateMockResponse en_US (str ''hello'')))"
    unfolding s switched_in_flight
    by (simp_all add: processingSession_eq setter_defs browser_defs effect_defs handler_defs
        Let_def truthy_def)
  have b: "let s' = run [SelectLanguage hi_IN, FetchSettled 0 NetworkError] processingSession;
               r = generateMockResponse en_US (str ''hello'')
           in selectedLanguage s' = hi_IN \<and> voiceResponse s' = Some (asValue r)
              \<and> answer_text r = greeting_en (str ''John Doe'')
              \<and> answer_text r \<notin> set (answersIn hi_IN (str ''hello''))"
    unfolding Let_def hello_is_greeted using b1 b2 greeting_en_not_hindi by blast
  show ?thesis
    by (rule conjI [OF a b])
qed

subsection \<open>Continuations that run after the view was left\<close>







end
